(* ===== verification/Prelude.thy ===== *)
theory Prelude
  imports Main "HOL-Library.Word"
begin

text \<open>
  Shared vocabulary of the development: the exceptions the service can raise (the
  error side of every result), bytes, ASCII case folding (used by the identifier codec
  and by the case-insensitive search), and generic lemmas on characters, words and
  association lists that the component theories use.
\<close>

named_theorems codec_simps "evaluation rules of the identifier codec"
named_theorems store_simps "evaluation rules of the collection operations"

type_synonym byte = "8 word"

text \<open>
  The exceptions a request can end in.  \<open>HTTPException status detail\<close> is FastAPI's
  exception raised by the handlers; \<open>RequestValidationError\<close> is FastAPI's rejection of
  a body or parameter that does not fit the declared model (HTTP 422);
  \<open>DuplicateKeyError\<close> is MongoDB's refusal of an insert whose \<open>_id\<close> exists;
  \<open>TypeError\<close> is the Python error of subscripting \<open>None\<close>; \<open>InvalidId\<close> is bson's
  error for \<open>ObjectId(s)\<close> on a malformed \<open>s\<close>; \<open>StructError\<close> is Python's
  \<open>struct.error\<close>, raised by \<open>struct.pack\<close> on a value that does not fit its
  format; \<open>OperationFailure\<close> is pymongo's error for a command the server
  refuses, such as a query with an invalid regular expression.  The last five
  surface as HTTP 500.
\<close>

datatype py_error =
    HTTPException nat string
  | RequestValidationError
  | DuplicateKeyError
  | TypeError
  | InvalidId
  | StructError
  | OperationFailure

type_synonym 'a result = "py_error + 'a"

text \<open>Characters computed by \<open>char_of\<close> evaluate bit by bit.\<close>

lemmas char_of_eval [codec_simps] = char_of_def bit_iff_odd

subsection \<open>ASCII case folding\<close>

definition lower_char :: "char \<Rightarrow> char" where
  "lower_char c =
     (let n = (of_char c :: nat) in if 65 \<le> n \<and> n \<le> 90 then char_of (n + 32) else c)"

definition lower :: "string \<Rightarrow> string" where
  "lower s = map lower_char s"

lemma lower_char_idem [simp]: "lower_char (lower_char c) = lower_char c"
  by (simp add: lower_char_def Let_def)

lemma lower_idem [simp]: "lower (lower s) = lower s"
  by (simp add: lower_def)

lemma lower_append [simp]: "lower (xs @ ys) = lower xs @ lower ys"
  by (simp add: lower_def)

lemma lower_Cons [simp]: "lower (c # cs) = lower_char c # lower cs"
  by (simp add: lower_def)

lemma lower_Nil [simp]: "lower [] = []"
  by (simp add: lower_def)

lemma length_lower [simp]: "length (lower s) = length s"
  by (simp add: lower_def)

subsection \<open>Association lists with distinct keys\<close>

text \<open>
  A MongoDB collection is kept as an association list in its natural order; its keys
  are distinct.  The lemmas below relate the list to the map it denotes.
\<close>

lemma map_of_member_eq:
  "distinct (map fst xs) \<Longrightarrow> map_of xs k = Some v \<Longrightarrow> (k, w) \<in> set xs \<Longrightarrow> w = v"
  using map_of_is_SomeI by fastforce

lemma map_of_snoc_fresh:
  "k \<notin> set (map fst xs) \<Longrightarrow> map_of (xs @ [(k, v)]) = (map_of xs)(k \<mapsto> v)"
  by (induction xs) (auto simp: fun_eq_iff)

lemma map_of_filter_key:
  "map_of (filter (\<lambda>(k', _). k' \<noteq> k) xs) = (map_of xs)(k := None)"
  by (induction xs) (auto simp: fun_eq_iff)

lemma distinct_filter_keys:
  "distinct (map fst xs) \<Longrightarrow> distinct (map fst (filter P xs))"
  by (induction xs) auto

lemma fst_comp_map_value [simp]: "fst \<circ> (\<lambda>(k, v). (k, f k v)) = fst"
  by auto

lemma map_fst_map_value [simp]:
  "map fst (map (\<lambda>(k, v). (k, f k v)) xs) = map fst xs"
  by (induction xs) auto

lemma map_of_map_value:
  "map_of (map (\<lambda>(k, v). (k, f k v)) xs) k = map_option (f k) (map_of xs k)"
  by (induction xs) auto

subsection \<open>Bytes\<close>

lemma byte_of_nat_inj: "inj_on (\<lambda>k :: nat. word_of_nat k :: byte) {0..<256}"
  by (rule inj_onI) (simp add: word_of_nat_eq_iff take_bit_nat_eq_self)

end
