(* ===== verification/ObjectId.thy ===== *)
theory ObjectId
  imports Prelude
begin

text \<open>
  The identifier codec: bson's \<open>ObjectId\<close>, which main.py and models.py call as
  \<open>ObjectId.is_valid(id)\<close>, \<open>ObjectId(id)\<close> and \<open>str(oid)\<close>.  An ObjectId is twelve
  bytes; its string form is their lowercase hexadecimal spelling.  The constructor
  accepts a string of exactly 24 characters that \<open>bytes.fromhex\<close> decodes, and
  \<open>is_valid\<close> is true when the constructor succeeds.  bson is a library outside the
  repository, so the codec is modelled from its contract (spec section 4.1): 24 hex
  digits, twelve bytes.  \<open>bytes.fromhex\<close> also skips ASCII whitespace before a
  digit pair, so bson accepts some 24-character strings with spaces and makes a
  shorter ObjectId of them; \<open>fromhex\<close> here does not skip whitespace, and such
  strings are outside the model.
\<close>

datatype ObjectId = ObjectId (binary: "byte list")

definition oid_wf :: "ObjectId \<Rightarrow> bool" where
  "oid_wf oid \<longleftrightarrow> length (binary oid) = 12"

subsection \<open>Hexadecimal digits\<close>

definition hex_value :: "char \<Rightarrow> nat option" where
  "hex_value c =
     (let n = (of_char c :: nat) in
      if 48 \<le> n \<and> n \<le> 57 then Some (n - 48)
      else if 97 \<le> n \<and> n \<le> 102 then Some (n - 87)
      else if 65 \<le> n \<and> n \<le> 70 then Some (n - 55)
      else None)"

definition hex_digit :: "nat \<Rightarrow> char" where
  "hex_digit d = char_of (if d < 10 then 48 + d else 87 + d)"

text \<open>\<open>bytes.fromhex\<close>: pairs of hex digits, one byte each, high nibble first.\<close>

fun fromhex :: "string \<Rightarrow> byte list option" where
  "fromhex [] = Some []"
| "fromhex [c] = None"
| "fromhex (h # l # cs) =
     (case (hex_value h, hex_value l) of
        (Some a, Some b) \<Rightarrow>
          (case fromhex cs of None \<Rightarrow> None | Some bs \<Rightarrow> Some (word_of_nat (16 * a + b) # bs))
      | _ \<Rightarrow> None)"

text \<open>\<open>binascii.hexlify\<close>: two lowercase digits per byte.\<close>

definition hexlify :: "byte list \<Rightarrow> string" where
  "hexlify bs = concat (map (\<lambda>b. [hex_digit (unat b div 16), hex_digit (unat b mod 16)]) bs)"

subsection \<open>The ObjectId operations\<close>

text \<open>\<open>ObjectId(s)\<close> for a string \<open>s\<close>: \<open>InvalidId\<close> (here \<open>None\<close>) unless
  \<open>len(s) == 24\<close> and \<open>bytes.fromhex(s)\<close> succeeds.\<close>

definition ObjectId_of_str :: "string \<Rightarrow> ObjectId option" where
  "ObjectId_of_str s = (if length s = 24 then map_option ObjectId (fromhex s) else None)"

definition is_valid :: "string \<Rightarrow> bool" where
  "is_valid s \<longleftrightarrow> s \<noteq> [] \<and> ObjectId_of_str s \<noteq> None"

definition str_oid :: "ObjectId \<Rightarrow> string" where
  "str_oid oid = hexlify (binary oid)"

subsection \<open>Digits\<close>

lemma hex_value_bound: "hex_value c = Some d \<Longrightarrow> d < 16"
  by (auto simp: hex_value_def Let_def split: if_splits)

lemma hex_value_hex_digit [codec_simps]: "d < 16 \<Longrightarrow> hex_value (hex_digit d) = Some d"
  by (auto simp: hex_value_def hex_digit_def)

lemma hex_digit_hex_value:
  assumes "hex_value c = Some d"
  shows "hex_digit d = lower_char c"
proof -
  let ?n = "of_char c :: nat"
  have c: "char_of ?n = c" by simp
  from assms consider
      "d < 10" "48 + d = ?n"
    | "10 \<le> d" "87 + d = ?n" "97 \<le> ?n" "?n \<le> 102"
    | "10 \<le> d" "55 + d = ?n" "65 \<le> ?n" "?n \<le> 70"
    by (auto simp: hex_value_def Let_def split: if_splits)
  then show ?thesis
  proof cases
    case 1
    then show ?thesis by (simp add: hex_digit_def lower_char_def c)
  next
    case 2
    then show ?thesis by (simp add: hex_digit_def lower_char_def c)
  next
    case 3
    then have "87 + d = ?n + 32" by simp
    with 3 show ?thesis by (simp add: hex_digit_def lower_char_def)
  qed
qed

lemma hex_value_lower_char: "hex_value (lower_char c) = hex_value c"
  by (auto simp: hex_value_def lower_char_def Let_def)

subsection \<open>Bytes and nibbles\<close>

lemma unat_byte_of_nibbles:
  "a < 16 \<Longrightarrow> b < 16 \<Longrightarrow> unat (word_of_nat (16 * a + b) :: byte) = 16 * a + b"
  by (subst unat_of_nat) simp

lemma unat_byte_high_nibble [simp]: "unat (b :: byte) div 16 < 16"
proof -
  have "unat b < 2 ^ LENGTH(8)" by (rule unsigned_less)
  then show ?thesis by simp
qed

subsection \<open>fromhex and hexlify\<close>

lemma fromhex_Some_iff:
  "fromhex s \<noteq> None \<longleftrightarrow> even (length s) \<and> (\<forall>c \<in> set s. hex_value c \<noteq> None)"
  by (induction s rule: fromhex.induct) (auto split: option.splits)

lemma fromhex_length: "fromhex s = Some bs \<Longrightarrow> length s = 2 * length bs"
  by (induction s arbitrary: bs rule: fromhex.induct) (auto split: option.splits)

lemma fromhex_hexlify [codec_simps]: "fromhex (hexlify bs) = Some bs"
  by (induction bs) (simp_all add: hexlify_def hex_value_hex_digit)

lemma length_hexlify [simp]: "length (hexlify bs) = 2 * length bs"
  by (induction bs) (simp_all add: hexlify_def)

lemma hexlify_fromhex: "fromhex s = Some bs \<Longrightarrow> hexlify bs = lower s"
proof (induction s arbitrary: bs rule: fromhex.induct)
  case 1
  then show ?case by (simp add: hexlify_def)
next
  case (2 c)
  then show ?case by simp
next
  case (3 h l cs)
  then obtain a b bs' where
      a: "hex_value h = Some a" and b: "hex_value l = Some b"
      and rest: "fromhex cs = Some bs'" and bs: "bs = word_of_nat (16 * a + b) # bs'"
    by (auto split: option.splits)
  have "a < 16" "b < 16" using a b by (simp_all add: hex_value_bound)
  then have "unat (word_of_nat (16 * a + b) :: byte) = 16 * a + b"
    by (rule unat_byte_of_nibbles)
  with \<open>b < 16\<close> have
    "hexlify [word_of_nat (16 * a + b)] = [hex_digit a, hex_digit b]"
    by (simp add: hexlify_def)
  moreover have "hexlify bs' = lower cs" using "3.IH" a b rest by simp
  ultimately show ?case
    using a b bs by (simp add: hexlify_def hex_digit_hex_value)
qed

subsection \<open>The codec's contract\<close>

lemma ObjectId_of_str_Some:
  "ObjectId_of_str s = Some x \<longleftrightarrow> length s = 24 \<and> fromhex s = Some (binary x)"
  by (cases x) (auto simp: ObjectId_of_str_def)

text \<open>\<open>ObjectId.is_valid\<close> accepts exactly the strings of 24 hexadecimal
  digits, in either case (spec 4.1, \<open>validate\<close>).\<close>

lemma is_valid_iff: "is_valid s \<longleftrightarrow> length s = 24 \<and> (\<forall>c \<in> set s. hex_value c \<noteq> None)"
proof -
  have "is_valid s \<longleftrightarrow> length s = 24 \<and> fromhex s \<noteq> None"
    by (auto simp: is_valid_def ObjectId_of_str_def)
  then show ?thesis
    unfolding fromhex_Some_iff by auto
qed

lemma is_valid_iff_example:
  "is_valid ''507f1f77bcf86cd799439011'' \<and> \<not> is_valid ''not-a-valid-id''
   \<and> \<not> is_valid ''507f1f77bcf86cd79943901g''"
  by (simp add: is_valid_iff hex_value_def)

text \<open>Decoding the string form of an ObjectId gives it back (spec 4.1:
  \<open>decode (encode x) = x\<close>).\<close>

lemma ObjectId_roundtrip: "oid_wf x \<Longrightarrow> ObjectId_of_str (str_oid x) = Some x"
  by (simp add: ObjectId_of_str_Some oid_wf_def str_oid_def fromhex_hexlify)

lemma ObjectId_roundtrip_example:
  "oid_wf (ObjectId [0x50, 0x7f, 0x1f, 0x77, 0xbc, 0xf8, 0x6c, 0xd7, 0x99, 0x43, 0x90, 0x11])
   \<and> ObjectId_of_str ''507f1f77bcf86cd799439011''
       = Some (ObjectId [0x50, 0x7f, 0x1f, 0x77, 0xbc, 0xf8, 0x6c, 0xd7, 0x99, 0x43, 0x90, 0x11])"
proof -
  let ?x = "ObjectId [0x50, 0x7f, 0x1f, 0x77, 0xbc, 0xf8, 0x6c, 0xd7, 0x99, 0x43, 0x90, 0x11]"
  have wf: "oid_wf ?x" by (simp add: oid_wf_def)
  have "str_oid ?x = ''507f1f77bcf86cd799439011''"
    by (simp add: str_oid_def hexlify_def hex_digit_def codec_simps)
  with wf ObjectId_roundtrip [OF wf] show ?thesis by simp
qed

text \<open>A decoded identifier is twelve bytes, and its string form is the
  canonical (lowercase) spelling of the decoded string (spec 4.1, \<open>encode\<close>).\<close>

lemma str_oid_canonical:
  "ObjectId_of_str s = Some x \<Longrightarrow> oid_wf x \<and> str_oid x = lower s"
  by (auto simp: ObjectId_of_str_Some oid_wf_def str_oid_def hexlify_fromhex dest: fromhex_length)

lemma str_oid_canonical_example:
  "ObjectId_of_str ''507F1F77BCF86CD799439011''
     = Some (ObjectId [0x50, 0x7f, 0x1f, 0x77, 0xbc, 0xf8, 0x6c, 0xd7, 0x99, 0x43, 0x90, 0x11])
   \<and> str_oid (ObjectId [0x50, 0x7f, 0x1f, 0x77, 0xbc, 0xf8, 0x6c, 0xd7, 0x99, 0x43, 0x90, 0x11])
       = ''507f1f77bcf86cd799439011''"
proof -
  let ?x = "ObjectId [0x50, 0x7f, 0x1f, 0x77, 0xbc, 0xf8, 0x6c, 0xd7, 0x99, 0x43, 0x90, 0x11]"
  have dec: "ObjectId_of_str ''507F1F77BCF86CD799439011'' = Some ?x"
    by (simp add: ObjectId_of_str_def hex_value_def)
  have "lower ''507F1F77BCF86CD799439011'' = ''507f1f77bcf86cd799439011''"
    by (simp add: lower_char_def codec_simps)
  with dec str_oid_canonical [OF dec] show ?thesis by simp
qed

subsection \<open>Consequences used by the handlers\<close>

lemma ObjectId_of_str_wf: "ObjectId_of_str s = Some x \<Longrightarrow> oid_wf x"
  by (auto simp: ObjectId_of_str_Some oid_wf_def dest: fromhex_length)

lemma is_valid_ObjectId_of_str: "is_valid s \<longleftrightarrow> (\<exists>x. ObjectId_of_str s = Some x)"
  by (auto simp: is_valid_def ObjectId_of_str_def)

lemma str_oid_inj: "oid_wf x \<Longrightarrow> oid_wf y \<Longrightarrow> str_oid x = str_oid y \<longleftrightarrow> x = y"
  by (metis ObjectId_of_str_Some ObjectId.expand fromhex_hexlify oid_wf_def option.inject
      str_oid_def)

lemma is_valid_str_oid [simp]: "oid_wf x \<Longrightarrow> is_valid (str_oid x)"
  by (auto simp: is_valid_ObjectId_of_str intro: ObjectId_roundtrip)

lemma fromhex_lower: "fromhex (lower s) = fromhex s"
  by (induction s rule: fromhex.induct) (auto simp: hex_value_lower_char split: option.splits)

lemma ObjectId_of_str_lower: "ObjectId_of_str (lower s) = ObjectId_of_str s"
  by (simp add: ObjectId_of_str_def fromhex_lower)

end
