(* ===== verification/Models.thy ===== *)
theory Models
  imports ObjectId "HOL-Library.AList"
begin

text \<open>
  The schema layer, app/models.py.  \<open>BookModel\<close> is the full record (its \<open>id\<close> is
  optional and aliased \<open>_id\<close>), \<open>UpdateBookModel\<close> the partial one, and
  \<open>PyObjectId.validate\<close> the (unused) identifier validator.  Request bodies are JSON
  values; pydantic (v1) turns them into model instances or rejects them, which FastAPI
  reports as HTTP 422.  The stored document of a book is \<open>book.dict(exclude={"id"})\<close>,
  the record \<open>Book\<close> below, of which \<open>BookModel\<close> is the extension by the id.
\<close>

datatype json =
    JNull
  | JBool bool
  | JNum int
  | JStr string
  | JArr "json list"
  | JObj "(string \<times> json) list"

record Book =
  title :: string
  author :: string
  category :: string

record BookModel = Book +
  book_id :: "string option"

record UpdateBookModel =
  upd_title :: "string option"
  upd_author :: "string option"
  upd_category :: "string option"

datatype book_field = Title | Author | Category

definition field_name :: "book_field \<Rightarrow> string" where
  "field_name k = (case k of Title \<Rightarrow> ''title'' | Author \<Rightarrow> ''author'' | Category \<Rightarrow> ''category'')"

definition get_field :: "book_field \<Rightarrow> 'a Book_scheme \<Rightarrow> string" where
  "get_field k b = (case k of Title \<Rightarrow> title b | Author \<Rightarrow> author b | Category \<Rightarrow> category b)"

definition set_field :: "book_field \<Rightarrow> string \<Rightarrow> 'a Book_scheme \<Rightarrow> 'a Book_scheme" where
  "set_field k v b =
     (case k of
        Title \<Rightarrow> b\<lparr>title := v\<rparr>
      | Author \<Rightarrow> b\<lparr>author := v\<rparr>
      | Category \<Rightarrow> b\<lparr>category := v\<rparr>)"

text \<open>\<open>book.dict()\<close> of an \<open>UpdateBookModel\<close>: its fields in declaration order.\<close>

definition UpdateBookModel_dict :: "UpdateBookModel \<Rightarrow> (book_field \<times> string option) list" where
  "UpdateBookModel_dict u = [(Title, upd_title u), (Author, upd_author u), (Category, upd_category u)]"

text \<open>\<open>book.dict(exclude={"id"})\<close> of a \<open>BookModel\<close>.\<close>

definition BookModel_dict_exclude_id :: "BookModel \<Rightarrow> Book" where
  "BookModel_dict_exclude_id b = Book.truncate b"

subsection \<open>Parsing a JSON body (pydantic v1)\<close>

text \<open>
  A JSON object is a list of members; when a key occurs twice the last one counts,
  as with Python's \<open>json\<close> module.  Unknown keys are ignored.  A field declared
  \<open>str\<close> goes through pydantic v1's \<open>str_validator\<close>: a string is kept, an
  \<open>int\<close> becomes \<open>str(v)\<close> (a JSON boolean is a Python \<open>bool\<close>, a subclass of
  \<open>int\<close>, so \<open>true\<close> becomes \<open>"True"\<close>), anything else is a validation error.
  \<open>Optional[str]\<close> also takes \<open>null\<close> or no member at all.  JSON numbers with a
  fraction (Python floats) are not in the model's \<open>json\<close>.
\<close>

definition member :: "(string \<times> json) list \<Rightarrow> string \<Rightarrow> json option" where
  "member kvs k = map_of (rev kvs) k"

text \<open>Python's \<open>str\<close> of an integer: decimal digits, a minus sign when negative.\<close>

fun nat_str :: "nat \<Rightarrow> string" where
  "nat_str n = (if n < 10 then [char_of (48 + n)] else nat_str (n div 10) @ [char_of (48 + n mod 10)])"

declare nat_str.simps [simp del]

definition int_str :: "int \<Rightarrow> string" where
  "int_str i = (if i < 0 then CHR ''-'' # nat_str (nat (- i)) else nat_str (nat i))"

definition str_validator :: "json \<Rightarrow> string result" where
  "str_validator v =
     (case v of
        JStr s \<Rightarrow> Inr s
      | JNum i \<Rightarrow> Inr (int_str i)
      | JBool b \<Rightarrow> Inr (if b then ''True'' else ''False'')
      | _ \<Rightarrow> Inl RequestValidationError)"

definition req_str :: "json option \<Rightarrow> string result" where
  "req_str v = (case v of Some j \<Rightarrow> str_validator j | None \<Rightarrow> Inl RequestValidationError)"

definition opt_str :: "json option \<Rightarrow> string option result" where
  "opt_str v =
     (case v of
        None \<Rightarrow> Inr None
      | Some JNull \<Rightarrow> Inr None
      | Some j \<Rightarrow> (case str_validator j of Inl e \<Rightarrow> Inl e | Inr s \<Rightarrow> Inr (Some s)))"

text \<open>\<open>id\<close> is read under its alias \<open>_id\<close>, and, since
  \<open>allow_population_by_field_name\<close>, under \<open>id\<close> when the alias is absent.\<close>

definition parse_BookModel :: "json \<Rightarrow> BookModel result" where
  "parse_BookModel j =
     (case j of
        JObj kvs \<Rightarrow>
          (case opt_str (case member kvs ''_id'' of None \<Rightarrow> member kvs ''id'' | v \<Rightarrow> v) of
             Inl e \<Rightarrow> Inl e
           | Inr i \<Rightarrow>
              (case (req_str (member kvs ''title''), req_str (member kvs ''author''),
                     req_str (member kvs ''category'')) of
                 (Inr t, Inr a, Inr c) \<Rightarrow>
                   Inr \<lparr>title = t, author = a, category = c, book_id = i\<rparr>
               | _ \<Rightarrow> Inl RequestValidationError))
      | _ \<Rightarrow> Inl RequestValidationError)"

definition parse_UpdateBookModel :: "json \<Rightarrow> UpdateBookModel result" where
  "parse_UpdateBookModel j =
     (case j of
        JObj kvs \<Rightarrow>
          (case (opt_str (member kvs ''title''), opt_str (member kvs ''author''),
                 opt_str (member kvs ''category'')) of
             (Inr t, Inr a, Inr c) \<Rightarrow> Inr \<lparr>upd_title = t, upd_author = a, upd_category = c\<rparr>
           | _ \<Rightarrow> Inl RequestValidationError)
      | _ \<Rightarrow> Inl RequestValidationError)"

subsection \<open>Serialising a response (\<open>response_model=BookModel\<close>, by alias)\<close>

definition json_opt_str :: "string option \<Rightarrow> json" where
  "json_opt_str v = (case v of None \<Rightarrow> JNull | Some s \<Rightarrow> JStr s)"

definition BookModel_json :: "BookModel \<Rightarrow> json" where
  "BookModel_json b =
     JObj [(''_id'', json_opt_str (book_id b)), (''title'', JStr (title b)),
           (''author'', JStr (author b)), (''category'', JStr (category b))]"

subsection \<open>PyObjectId\<close>

text \<open>\<open>PyObjectId.validate\<close>: \<open>ValueError\<close> (a validation error) unless
  \<open>ObjectId.is_valid(v)\<close>, else \<open>ObjectId(v)\<close>.  No model of the repository uses
  the class.\<close>

definition PyObjectId_validate :: "string \<Rightarrow> ObjectId result" where
  "PyObjectId_validate v =
     (if \<not> is_valid v then Inl RequestValidationError
      else (case ObjectId_of_str v of None \<Rightarrow> Inl InvalidId | Some oid \<Rightarrow> Inr oid))"

text \<open>\<open>PyObjectId.__modify_schema__\<close>: \<open>field_schema.update(type="string")\<close> on the
  field's JSON schema, a dict (its key replaced in place, or added last).\<close>

definition PyObjectId_modify_schema :: "(string \<times> json) list \<Rightarrow> (string \<times> json) list" where
  "PyObjectId_modify_schema field_schema = AList.update ''type'' (JStr ''string'') field_schema"

subsection \<open>Fields\<close>

lemma get_set_field [simp]:
  "get_field k (set_field k' v b) = (if k = k' then v else get_field k b)"
  by (cases k; cases k') (simp_all add: get_field_def set_field_def)

lemma str_validator_JStr [simp]: "str_validator (JStr s) = Inr s"
  by (simp add: str_validator_def)

lemma int_str_example: "int_str 1984 = ''1984'' \<and> int_str (-7) = ''-7''"
  by (simp add: int_str_def nat_str.simps char_of_eval)

lemma parse_BookModel_error: "parse_BookModel j = Inl e \<Longrightarrow> e = RequestValidationError"
  by (auto simp: parse_BookModel_def opt_str_def req_str_def str_validator_def
      split: json.splits option.splits sum.splits)

lemma parse_UpdateBookModel_error: "parse_UpdateBookModel j = Inl e \<Longrightarrow> e = RequestValidationError"
  by (auto simp: parse_UpdateBookModel_def opt_str_def str_validator_def
      split: json.splits option.splits sum.splits)

text \<open>C16: a book serialised by the response model carries its id under the alias
  \<open>_id\<close>, then title, author and category (the Book of spec section 3), and
  parses back to the same BookModel.\<close>

theorem BookModel_roundtrip:
  "(case BookModel_json b of JObj kvs \<Rightarrow> map fst kvs = [''_id'', ''title'', ''author'', ''category''] | _ \<Rightarrow> False)
   \<and> parse_BookModel (BookModel_json b) = Inr b"
  by (cases b) (simp add: parse_BookModel_def BookModel_json_def member_def req_str_def opt_str_def
      str_validator_def json_opt_str_def split: option.split)

lemma PyObjectId_modify_schema_type:
  "map_of (PyObjectId_modify_schema s) ''type'' = Some (JStr ''string'')
   \<and> (k \<noteq> ''type'' \<longrightarrow> map_of (PyObjectId_modify_schema s) k = map_of s k)"
  by (simp add: PyObjectId_modify_schema_def update_conv)

text \<open>C17: \<open>PyObjectId.validate\<close> rejects exactly the strings ObjectId cannot
  decode and otherwise returns the decoded id; its \<open>InvalidId\<close> branch is dead.\<close>

theorem PyObjectId_validate_spec:
  "PyObjectId_validate v = (case ObjectId_of_str v of None \<Rightarrow> Inl RequestValidationError | Some x \<Rightarrow> Inr x)"
  by (auto simp: PyObjectId_validate_def is_valid_ObjectId_of_str split: option.split)

end
