(* ===== verification/Regex.thy ===== *)
theory Regex
  imports Prelude "HOL-Library.Sublist"
begin

text \<open>
  The search operator of list_books (main.py, lines 43--48) sends each query
  parameter to MongoDB as \<open>{"$regex": p, "$options": "i"}\<close>: the parameter is a
  PCRE pattern, compiled by the server, matched case-insensitively anywhere in the
  field.  PCRE (PCRE2 from MongoDB 6.1 on) is outside the repository; this theory models the part of its syntax
  that decides a search: literals and escaped characters, \<open>.\<close>, classes
  \<open>[...]\<close> with ranges, negation and \<open>\d \w \s\<close> (and their complements),
  alternation \<open>|\<close>, groups \<open>(...)\<close> and \<open>(?:...)\<close>, the quantifiers
  \<open>* + ? {n} {n,} {n,m}\<close> and their lazy forms (a search only asks whether some
  match exists, so laziness does not change it), and the assertions \<open>^ $ \A \Z \z
  \b \B\<close>.  A pattern is compiled in two passes, as PCRE does: a lexer, a state
  machine over the characters, and a builder with a stack of open groups.  Compile
  errors are \<open>Invalid\<close> (MongoDB refuses the query); constructs outside the model
  (back-references, look-around, possessive quantifiers, inline options, POSIX
  classes, verbs such as \<open>(*FAIL)\<close>, other escapes) are \<open>Unsupported\<close>.  Matching computes the positions at
  which a match starting at a given position can end, and is proved equal to the
  relational semantics \<open>rx_at\<close>.  Case-insensitivity is ASCII case folding; text
  is matched byte by byte.
\<close>

datatype cmember = MRange char char | MSet bool "(char \<times> char) list"

datatype rx =
    RChar char
  | RAny
  | RClass bool "cmember list"
  | RBol
  | REol
  | REnd
  | RWordB bool
  | REmpty
  | RSeq rx rx
  | RAlt rx rx
  | RStar rx

datatype rx_fail = Invalid | Unsupported

type_synonym 'a rx_result = "rx_fail + 'a"

datatype rtok = TAtom rx | TQuant nat "nat option" bool | TOpen | TClose | TBar

datatype citem = CChar char | CDash | CSet bool "(char \<times> char) list"

subsection \<open>Characters\<close>

definition in_range :: "char \<Rightarrow> char \<times> char \<Rightarrow> bool" where
  "in_range c r = (of_char (fst r) \<le> (of_char c :: nat) \<and> (of_char c :: nat) \<le> of_char (snd r))"

definition upper_char :: "char \<Rightarrow> char" where
  "upper_char c = (if 97 \<le> (of_char c :: nat) \<and> (of_char c :: nat) \<le> 122 then char_of (of_char c - (32 :: nat)) else c)"

definition digit_ranges :: "(char \<times> char) list" where
  "digit_ranges = [(CHR ''0'', CHR ''9'')]"

definition word_ranges :: "(char \<times> char) list" where
  "word_ranges = [(CHR ''a'', CHR ''z''), (CHR ''A'', CHR ''Z''), (CHR ''0'', CHR ''9''), (CHR ''_'', CHR ''_'')]"

definition space_ranges :: "(char \<times> char) list" where
  "space_ranges = [(CHR '' '', CHR '' ''), (char_of (9 :: nat), char_of (13 :: nat))]"

definition member_has :: "cmember \<Rightarrow> char \<Rightarrow> bool" where
  "member_has m c =
     (case m of MRange a b \<Rightarrow> in_range c (a, b) | MSet neg rs \<Rightarrow> list_ex (in_range c) rs \<noteq> neg)"

text \<open>Under option \<open>i\<close> a character is in a class when it or its other case is.\<close>

definition class_has :: "cmember list \<Rightarrow> char \<Rightarrow> bool" where
  "class_has ms c = list_ex (\<lambda>m. member_has m c \<or> member_has m (lower_char c) \<or> member_has m (upper_char c)) ms"

definition is_word :: "char \<Rightarrow> bool" where
  "is_word c = list_ex (in_range c) word_ranges"

definition is_digit :: "char \<Rightarrow> bool" where
  "is_digit c = in_range c (CHR ''0'', CHR ''9'')"

text \<open>A string of ASCII characters (bytes below 128).\<close>

definition is_ascii :: "string \<Rightarrow> bool" where
  "is_ascii s = list_all (\<lambda>c. (of_char c :: nat) < 128) s"

definition is_alnum :: "char \<Rightarrow> bool" where
  "is_alnum c = (is_digit c \<or> in_range c (CHR ''a'', CHR ''z'') \<or> in_range c (CHR ''A'', CHR ''Z''))"

subsection \<open>Lexing\<close>

text \<open>An escape outside a class.\<close>

definition escape_rx :: "char \<Rightarrow> rx rx_result" where
  "escape_rx c =
     (if c = CHR ''d'' then Inr (RClass False [MSet False digit_ranges])
      else if c = CHR ''D'' then Inr (RClass False [MSet True digit_ranges])
      else if c = CHR ''w'' then Inr (RClass False [MSet False word_ranges])
      else if c = CHR ''W'' then Inr (RClass False [MSet True word_ranges])
      else if c = CHR ''s'' then Inr (RClass False [MSet False space_ranges])
      else if c = CHR ''S'' then Inr (RClass False [MSet True space_ranges])
      else if c = CHR ''b'' then Inr (RWordB True)
      else if c = CHR ''B'' then Inr (RWordB False)
      else if c = CHR ''A'' then Inr RBol
      else if c = CHR ''Z'' then Inr REol
      else if c = CHR ''z'' then Inr REnd
      else if c = CHR ''n'' then Inr (RChar (char_of (10 :: nat)))
      else if c = CHR ''t'' then Inr (RChar (char_of (9 :: nat)))
      else if c = CHR ''r'' then Inr (RChar (char_of (13 :: nat)))
      else if c = CHR ''f'' then Inr (RChar (char_of (12 :: nat)))
      else if c = CHR ''e'' then Inr (RChar (char_of (27 :: nat)))
      else if c = CHR ''a'' then Inr (RChar (char_of (7 :: nat)))
      else if is_alnum c then Inl Unsupported
      else Inr (RChar c))"

text \<open>An escape inside a class (there \<open>\b\<close> is a backspace).\<close>

definition class_escape :: "char \<Rightarrow> citem rx_result" where
  "class_escape c =
     (if c = CHR ''d'' then Inr (CSet False digit_ranges)
      else if c = CHR ''D'' then Inr (CSet True digit_ranges)
      else if c = CHR ''w'' then Inr (CSet False word_ranges)
      else if c = CHR ''W'' then Inr (CSet True word_ranges)
      else if c = CHR ''s'' then Inr (CSet False space_ranges)
      else if c = CHR ''S'' then Inr (CSet True space_ranges)
      else if c = CHR ''b'' then Inr (CChar (char_of (8 :: nat)))
      else if c = CHR ''n'' then Inr (CChar (char_of (10 :: nat)))
      else if c = CHR ''t'' then Inr (CChar (char_of (9 :: nat)))
      else if c = CHR ''r'' then Inr (CChar (char_of (13 :: nat)))
      else if c = CHR ''f'' then Inr (CChar (char_of (12 :: nat)))
      else if c = CHR ''e'' then Inr (CChar (char_of (27 :: nat)))
      else if c = CHR ''a'' then Inr (CChar (char_of (7 :: nat)))
      else if is_alnum c then Inl Unsupported
      else Inr (CChar c))"

text \<open>The items of a class, in order, to its members (PCRE2's rules): a \<open>-\<close> between
  two characters makes a range, an error when its end is below its start; either end
  may itself be a \<open>-\<close> (\<open>[!--]\<close> is \<open>!\<close> to \<open>-\<close>, \<open>[a--]\<close> is out of order); a
  \<open>-\<close> next to a set such as \<open>\d\<close> is an error unless it ends the class; a \<open>-\<close>
  elsewhere, after a range included, is itself.\<close>

definition cons_member :: "cmember \<Rightarrow> cmember list rx_result \<Rightarrow> cmember list rx_result" where
  "cons_member m r = (case r of Inl e \<Rightarrow> Inl e | Inr ms \<Rightarrow> Inr (m # ms))"

fun class_members :: "citem list \<Rightarrow> cmember list rx_result" where
  "class_members [] = Inr []"
| "class_members (CChar a # CDash # CChar b # rest) =
     (if of_char b < (of_char a :: nat) then Inl Invalid else cons_member (MRange a b) (class_members rest))"
| "class_members (CChar a # CDash # CDash # rest) =
     (if of_char CHR ''-'' < (of_char a :: nat) then Inl Invalid
      else cons_member (MRange a CHR ''-'') (class_members rest))"
| "class_members (CDash # CDash # CChar b # rest) =
     (if of_char b < (of_char CHR ''-'' :: nat) then Inl Invalid
      else cons_member (MRange CHR ''-'' b) (class_members rest))"
| "class_members (CDash # CDash # CDash # rest) = cons_member (MRange CHR ''-'' CHR ''-'') (class_members rest)"
| "class_members (CChar a # CDash # CSet _ _ # rest) = Inl Invalid"
| "class_members (CDash # CDash # CSet _ _ # rest) = Inl Invalid"
| "class_members (CSet _ _ # CDash # CChar _ # rest) = Inl Invalid"
| "class_members (CSet _ _ # CDash # CDash # rest) = Inl Invalid"
| "class_members (CSet _ _ # CDash # CSet _ _ # rest) = Inl Invalid"
| "class_members (CChar a # rest) = cons_member (MRange a a) (class_members rest)"
| "class_members (CDash # rest) = cons_member (MRange CHR ''-'' CHR ''-'') (class_members rest)"
| "class_members (CSet neg rs # rest) = cons_member (MSet neg rs) (class_members rest)"

text \<open>The body of \<open>{...}\<close>: \<open>n\<close>, \<open>n,\<close> or \<open>n,m\<close>; anything else makes the
  brace a literal.\<close>

definition digits_val :: "char list \<Rightarrow> nat" where
  "digits_val ds = foldl (\<lambda>n d. 10 * n + (of_char d - 48)) 0 ds"

definition brace_quant :: "char list \<Rightarrow> (nat \<times> nat option) option" where
  "brace_quant cs =
     (let ds = takeWhile is_digit cs; rest = dropWhile is_digit cs in
      if ds = [] then None
      else if rest = [] then Some (digits_val ds, Some (digits_val ds))
      else if hd rest = CHR '','' \<and> list_all is_digit (tl rest) then
        Some (digits_val ds, if tl rest = [] then None else Some (digits_val (tl rest)))
      else None)"

datatype lmode =
    LNorm
  | LEsc
  | LParen
  | LParenQ
  | LClass bool bool "citem list"
  | LClassStart
  | LClassEsc bool "citem list"
  | LBrace "char list"

text \<open>A quantifier after the previous token: a \<open>?\<close> after a quantifier makes it
  lazy, a \<open>+\<close> possessive; any other quantifier after a quantifier is PCRE's
  "nothing to repeat".\<close>

definition add_quant :: "char \<Rightarrow> nat \<Rightarrow> nat option \<Rightarrow> rtok list \<Rightarrow> rtok list rx_result" where
  "add_quant c m n acc =
     (case acc of
        TQuant m' n' lazy # rest \<Rightarrow>
          (if c = CHR ''?'' \<and> \<not> lazy then Inr (TQuant m' n' True # rest)
           else if c = CHR ''+'' then Inl Unsupported
           else Inl Invalid)
      | _ \<Rightarrow> Inr (TQuant m n False # acc))"

definition lit_toks :: "string \<Rightarrow> rtok list" where
  "lit_toks s = map (\<lambda>c. TAtom (RChar c)) s"

definition norm_step :: "rtok list \<Rightarrow> char \<Rightarrow> (lmode \<times> rtok list) rx_result" where
  "norm_step acc c =
     (if c = CHR 0x5C then Inr (LEsc, acc)
      else if c = CHR ''('' then Inr (LParen, acc)
      else if c = CHR '')'' then Inr (LNorm, TClose # acc)
      else if c = CHR ''|'' then Inr (LNorm, TBar # acc)
      else if c = CHR ''['' then Inr (LClassStart, acc)
      else if c = CHR ''{'' then Inr (LBrace [], acc)
      else if c = CHR ''*'' then map_sum id (Pair LNorm) (add_quant c 0 None acc)
      else if c = CHR ''+'' then map_sum id (Pair LNorm) (add_quant c 1 None acc)
      else if c = CHR ''?'' then map_sum id (Pair LNorm) (add_quant c 0 (Some 1) acc)
      else if c = CHR ''.'' then Inr (LNorm, TAtom RAny # acc)
      else if c = CHR ''^'' then Inr (LNorm, TAtom RBol # acc)
      else if c = CHR ''$'' then Inr (LNorm, TAtom REol # acc)
      else Inr (LNorm, TAtom (RChar c) # acc))"

definition class_step :: "bool \<Rightarrow> citem list \<Rightarrow> char \<Rightarrow> rtok list \<Rightarrow> (lmode \<times> rtok list) rx_result" where
  "class_step neg items c acc =
     (if c = CHR '']'' then
        (case class_members (rev items) of
           Inl e \<Rightarrow> Inl e
         | Inr ms \<Rightarrow> Inr (LNorm, TAtom (RClass neg ms) # acc))
      else if c = CHR 0x5C then Inr (LClassEsc neg items, acc)
      else if c = CHR ''['' then Inl Unsupported
      else if c = CHR ''-'' then Inr (LClass neg False (CDash # items), acc)
      else Inr (LClass neg False (CChar c # items), acc))"

definition lex_step :: "lmode \<Rightarrow> rtok list \<Rightarrow> char \<Rightarrow> (lmode \<times> rtok list) rx_result" where
  "lex_step mode acc c =
     (case mode of
        LNorm \<Rightarrow> norm_step acc c
      | LEsc \<Rightarrow> (case escape_rx c of Inl e \<Rightarrow> Inl e | Inr r \<Rightarrow> Inr (LNorm, TAtom r # acc))
      | LParen \<Rightarrow>
          (if c = CHR ''?'' then Inr (LParenQ, acc)
           else if c = CHR ''*'' then Inl Unsupported
           else norm_step (TOpen # acc) c)
      | LParenQ \<Rightarrow> (if c = CHR '':'' then Inr (LNorm, TOpen # acc) else Inl Unsupported)
      | LClassStart \<Rightarrow>
          (if c = CHR ''^'' then Inr (LClass True True [], acc)
           else if c = CHR '']'' then Inr (LClass False False [CChar c], acc)
           else class_step False [] c acc)
      | LClass neg first items \<Rightarrow>
          (if first \<and> c = CHR '']'' then Inr (LClass neg False (CChar c # items), acc)
           else class_step neg items c acc)
      | LClassEsc neg items \<Rightarrow>
          (case class_escape c of Inl e \<Rightarrow> Inl e | Inr it \<Rightarrow> Inr (LClass neg False (it # items), acc))
      | LBrace buf \<Rightarrow>
          (if c = CHR ''}'' then
             (case brace_quant (rev buf) of
                None \<Rightarrow> Inr (LNorm, rev (lit_toks (CHR ''{'' # rev buf @ [c])) @ acc)
              | Some (m, n) \<Rightarrow>
                  (if 65535 < m \<or> (case n of Some k \<Rightarrow> 65535 < k \<or> k < m | None \<Rightarrow> False) then Inl Invalid
                   else map_sum id (Pair LNorm) (add_quant c m n acc)))
           else if is_digit c \<or> c = CHR '','' then Inr (LBrace (c # buf), acc)
           else norm_step (rev (lit_toks (CHR ''{'' # rev buf)) @ acc) c))"

text \<open>At the end of the pattern: a trailing backslash, an open class or an
  unfinished \<open>(?\<close> is an error; an unfinished brace is literal text.\<close>

definition lex_end :: "lmode \<Rightarrow> rtok list \<Rightarrow> rtok list rx_result" where
  "lex_end mode acc =
     (case mode of
        LNorm \<Rightarrow> Inr (rev acc)
      | LParen \<Rightarrow> Inr (rev (TOpen # acc))
      | LBrace buf \<Rightarrow> Inr (rev acc @ lit_toks (CHR ''{'' # rev buf))
      | _ \<Rightarrow> Inl Invalid)"

fun lex_go :: "lmode \<Rightarrow> rtok list \<Rightarrow> string \<Rightarrow> rtok list rx_result" where
  "lex_go mode acc [] = lex_end mode acc"
| "lex_go mode acc (c # cs) =
     (case lex_step mode acc c of Inl e \<Rightarrow> Inl e | Inr (mode', acc') \<Rightarrow> lex_go mode' acc' cs)"

definition lex :: "string \<Rightarrow> rtok list rx_result" where
  "lex p = lex_go LNorm [] p"

subsection \<open>Building the pattern\<close>

text \<open>\<open>x{m,n}\<close> is \<open>m\<close> copies of \<open>x\<close> followed by \<open>n - m\<close> nested optional
  copies; \<open>x{m,}\<close> is \<open>m\<close> copies followed by \<open>x*\<close>.\<close>

primrec rep_seq :: "rx \<Rightarrow> nat \<Rightarrow> rx" where
  "rep_seq x 0 = REmpty"
| "rep_seq x (Suc m) = RSeq x (rep_seq x m)"

primrec opt_chain :: "rx \<Rightarrow> nat \<Rightarrow> rx" where
  "opt_chain x 0 = REmpty"
| "opt_chain x (Suc k) = RAlt (RSeq x (opt_chain x k)) REmpty"

definition quant :: "rx \<Rightarrow> nat \<Rightarrow> nat option \<Rightarrow> rx" where
  "quant x m n = RSeq (rep_seq x m) (case n of None \<Rightarrow> RStar x | Some k \<Rightarrow> opt_chain x (k - m))"

definition is_assertion :: "rx \<Rightarrow> bool" where
  "is_assertion r = (case r of RBol \<Rightarrow> True | REol \<Rightarrow> True | REnd \<Rightarrow> True | RWordB _ \<Rightarrow> True | _ \<Rightarrow> False)"

definition seq_rx :: "rx list \<Rightarrow> rx" where
  "seq_rx xs = foldr RSeq xs REmpty"

fun alts_rx :: "rx list \<Rightarrow> rx" where
  "alts_rx [] = REmpty"
| "alts_rx [a] = a"
| "alts_rx (a # as) = RAlt a (alts_rx as)"

text \<open>A frame of the stack is an open group: its finished alternatives and the items
  of the current one, both most recent first.\<close>

type_synonym frame = "rx list \<times> rx list"

definition frame_rx :: "frame \<Rightarrow> rx" where
  "frame_rx f = alts_rx (rev (seq_rx (rev (snd f)) # fst f))"

fun build :: "frame list \<Rightarrow> rtok list \<Rightarrow> rx rx_result" where
  "build [] ts = Inl Invalid"
| "build [f] [] = Inr (frame_rx f)"
| "build (f # g # fs) [] = Inl Invalid"
| "build ((alts, seq) # fs) (TAtom r # ts) = build ((alts, r # seq) # fs) ts"
| "build ((alts, seq) # fs) (TQuant m n lazy # ts) =
     (case seq of
        [] \<Rightarrow> Inl Invalid
      | x # rest \<Rightarrow> if is_assertion x then Inl Unsupported else build ((alts, quant x m n # rest) # fs) ts)"
| "build (f # fs) (TOpen # ts) = build (([], []) # f # fs) ts"
| "build [f] (TClose # ts) = Inl Invalid"
| "build (f # (alts, seq) # fs) (TClose # ts) = build ((alts, frame_rx f # seq) # fs) ts"
| "build ((alts, seq) # fs) (TBar # ts) = build ((seq_rx (rev seq) # alts, []) # fs) ts"

definition compile :: "string \<Rightarrow> rx rx_result" where
  "compile p = (case lex p of Inl e \<Rightarrow> Inl e | Inr ts \<Rightarrow> build [([], [])] ts)"

subsection \<open>Matching\<close>

definition word_before :: "string \<Rightarrow> nat \<Rightarrow> bool" where
  "word_before t i = (0 < i \<and> i \<le> length t \<and> is_word (t ! (i - 1)))"

definition word_after :: "string \<Rightarrow> nat \<Rightarrow> bool" where
  "word_after t i = (i < length t \<and> is_word (t ! i))"

definition at_eol :: "string \<Rightarrow> nat \<Rightarrow> bool" where
  "at_eol t i = (i = length t \<or> (Suc i = length t \<and> t ! i = CHR ''\<newline>''))"

text \<open>The positions reachable from \<open>i\<close> by steps of \<open>f\<close>, scanning \<open>i+1 .. n\<close>
  upwards: every step of a match goes forward or stays, so a position is reached
  when some smaller reached position steps to it.\<close>

definition star_ends :: "(nat \<Rightarrow> nat list) \<Rightarrow> nat \<Rightarrow> nat \<Rightarrow> nat list" where
  "star_ends f i n =
     foldl (\<lambda>reach p. if list_ex (\<lambda>q. p \<in> set (f q)) reach then reach @ [p] else reach) [i] [Suc i..<Suc n]"

fun ends :: "rx \<Rightarrow> string \<Rightarrow> nat \<Rightarrow> nat list" where
  "ends (RChar c) t i = (if i < length t \<and> lower_char (t ! i) = lower_char c then [Suc i] else [])"
| "ends RAny t i = (if i < length t \<and> t ! i \<noteq> CHR ''\<newline>'' then [Suc i] else [])"
| "ends (RClass neg ms) t i = (if i < length t \<and> class_has ms (t ! i) \<noteq> neg then [Suc i] else [])"
| "ends RBol t i = (if i = 0 then [i] else [])"
| "ends REol t i = (if at_eol t i then [i] else [])"
| "ends REnd t i = (if i = length t then [i] else [])"
| "ends (RWordB b) t i = (if (word_before t i \<noteq> word_after t i) = b then [i] else [])"
| "ends REmpty t i = [i]"
| "ends (RSeq r s) t i = remdups (concat (map (ends s t) (ends r t i)))"
| "ends (RAlt r s) t i = remdups (ends r t i @ ends s t i)"
| "ends (RStar r) t i = star_ends (\<lambda>q. ends r t q) i (length t)"

definition rx_search :: "rx \<Rightarrow> string \<Rightarrow> bool" where
  "rx_search r t = list_ex (\<lambda>i. ends r t i \<noteq> []) [0..<Suc (length t)]"

text \<open>The filter \<open>{"$regex": p, "$options": "i"}\<close> on a field value; a pattern
  outside the model matches nothing here.\<close>

definition regex_search :: "string \<Rightarrow> string \<Rightarrow> bool" where
  "regex_search p t = (case compile p of Inr r \<Rightarrow> rx_search r t | Inl _ \<Rightarrow> False)"

definition regex_invalid :: "string \<Rightarrow> bool" where
  "regex_invalid p = (compile p = Inl Invalid)"

text \<open>The relational semantics: \<open>rx_at r t i j\<close> when \<open>r\<close> matches \<open>t\<close> from
  position \<open>i\<close> to position \<open>j\<close>.\<close>

inductive rx_at :: "rx \<Rightarrow> string \<Rightarrow> nat \<Rightarrow> nat \<Rightarrow> bool" where
  char: "i < length t \<Longrightarrow> lower_char (t ! i) = lower_char c \<Longrightarrow> rx_at (RChar c) t i (Suc i)"
| any: "i < length t \<Longrightarrow> t ! i \<noteq> CHR ''\<newline>'' \<Longrightarrow> rx_at RAny t i (Suc i)"
| cls: "i < length t \<Longrightarrow> class_has ms (t ! i) \<noteq> neg \<Longrightarrow> rx_at (RClass neg ms) t i (Suc i)"
| bol: "rx_at RBol t 0 0"
| eol: "at_eol t i \<Longrightarrow> rx_at REol t i i"
| fin: "rx_at REnd t (length t) (length t)"
| wordb: "(word_before t i \<noteq> word_after t i) = b \<Longrightarrow> rx_at (RWordB b) t i i"
| empty: "rx_at REmpty t i i"
| seq: "rx_at r t i k \<Longrightarrow> rx_at s t k j \<Longrightarrow> rx_at (RSeq r s) t i j"
| altl: "rx_at r t i j \<Longrightarrow> rx_at (RAlt r s) t i j"
| altr: "rx_at s t i j \<Longrightarrow> rx_at (RAlt r s) t i j"
| star0: "rx_at (RStar r) t i i"
| star1: "rx_at r t i k \<Longrightarrow> rx_at (RStar r) t k j \<Longrightarrow> rx_at (RStar r) t i j"

text \<open>The characters PCRE reads as operators.\<close>

definition metachars :: string where
  "metachars = ''.^$*+?()[]{}|'' @ [CHR 0x5C]"

definition literal_pattern :: "string \<Rightarrow> bool" where
  "literal_pattern p \<longleftrightarrow> list_all (\<lambda>c. c \<notin> set metachars) p"

subsection \<open>The upward scan computes the closure\<close>

lemma foldl_scan_subset:
  "set (foldl (\<lambda>reach p. if P reach p then reach @ [p] else reach) acc xs) \<subseteq> set acc \<union> set xs"
  by (induction xs arbitrary: acc) (fastforce split: if_splits)+

lemma star_ends_range:
  assumes "j \<in> set (star_ends f i n)"
  shows "j = i \<or> (Suc i \<le> j \<and> j \<le> n)"
proof -
  have "j \<in> set [i] \<union> set [Suc i..<Suc n]"
    using assms foldl_scan_subset [of "\<lambda>reach p. list_ex (\<lambda>q. p \<in> set (f q)) reach" "[i]" "[Suc i..<Suc n]"]
    unfolding star_ends_def by blast
  then show ?thesis by auto
qed

lemma rtranclp_steps_le:
  assumes mono: "\<And>q p. p \<in> set ((f :: nat \<Rightarrow> nat list) q) \<Longrightarrow> q \<le> p"
  shows "(\<lambda>a b. b \<in> set (f a))\<^sup>*\<^sup>* i p \<Longrightarrow> i \<le> p"
proof (induction rule: rtranclp_induct)
  case (step y z)
  then show ?case using mono [of z y] by linarith
qed simp

lemma rtranclp_last_step:
  assumes mono: "\<And>q p. p \<in> set ((f :: nat \<Rightarrow> nat list) q) \<Longrightarrow> q \<le> p"
  shows "(\<lambda>a b. b \<in> set (f a))\<^sup>*\<^sup>* i p \<Longrightarrow>
         p = i \<or> (\<exists>q < p. (\<lambda>a b. b \<in> set (f a))\<^sup>*\<^sup>* i q \<and> p \<in> set (f q))"
proof (induction rule: rtranclp_induct)
  case (step y z)
  have "y \<le> z" using mono [OF step.hyps(2)] .
  show ?case
  proof (cases "y = z")
    case True
    with step.IH show ?thesis by simp
  next
    case False
    with \<open>y \<le> z\<close> have "y < z" by simp
    with step.hyps show ?thesis by blast
  qed
qed simp

lemma star_ends_scan:
  assumes mono: "\<And>q p. p \<in> set ((f :: nat \<Rightarrow> nat list) q) \<Longrightarrow> q \<le> p"
  shows "i \<le> m \<Longrightarrow>
    set (foldl (\<lambda>reach p. if list_ex (\<lambda>q. p \<in> set (f q)) reach then reach @ [p] else reach) [i] [Suc i..<Suc m])
    = {p. p \<le> m \<and> (\<lambda>a b. b \<in> set (f a))\<^sup>*\<^sup>* i p}"
proof (induction m)
  case 0
  then show ?case using rtranclp_steps_le [where f = f, OF mono] by auto
next
  case (Suc m)
  let ?R = "(\<lambda>a b. b \<in> set (f a))\<^sup>*\<^sup>*"
  show ?case
  proof (cases "i = Suc m")
    case True
    have "p = Suc m" if "p \<le> Suc m" "?R i p" for p
      using rtranclp_steps_le [where f = f, OF mono that(2)] that(1) True by simp
    with True show ?thesis by auto
  next
    case False
    with Suc.prems have im: "i \<le> m" by simp
    let ?reach = "foldl (\<lambda>reach p. if list_ex (\<lambda>q. p \<in> set (f q)) reach then reach @ [p] else reach) [i] [Suc i..<Suc m]"
    have ih: "set ?reach = {p. p \<le> m \<and> ?R i p}" by (rule Suc.IH [OF im])
    have new: "list_ex (\<lambda>q. Suc m \<in> set (f q)) ?reach \<longleftrightarrow> ?R i (Suc m)"
    proof
      assume "list_ex (\<lambda>q. Suc m \<in> set (f q)) ?reach"
      then obtain q where "q \<in> set ?reach" "Suc m \<in> set (f q)" by (auto simp: list_ex_iff)
      with ih show "?R i (Suc m)" by (auto intro: rtranclp.rtrancl_into_rtrancl)
    next
      assume "?R i (Suc m)"
      from rtranclp_last_step [where f = f, OF mono this] im
      obtain q where "q < Suc m" "?R i q" "Suc m \<in> set (f q)" by auto
      with ih show "list_ex (\<lambda>q. Suc m \<in> set (f q)) ?reach" by (auto simp: list_ex_iff)
    qed
    have "[Suc i..<Suc (Suc m)] = [Suc i..<Suc m] @ [Suc m]" using im by simp
    then show ?thesis using ih new by (auto simp del: upt_Suc simp: le_Suc_eq)
  qed
qed

lemma star_ends_set:
  assumes mono: "\<And>q p. p \<in> set ((f :: nat \<Rightarrow> nat list) q) \<Longrightarrow> q \<le> p" and i: "i \<le> n"
  shows "set (star_ends f i n) = {p. p \<le> n \<and> (\<lambda>a b. b \<in> set (f a))\<^sup>*\<^sup>* i p}"
  unfolding star_ends_def by (rule star_ends_scan [OF mono i])

subsection \<open>The matcher agrees with the relational semantics\<close>

lemma ends_mono: "j \<in> set (ends r t i) \<Longrightarrow> i \<le> j"
proof (induction r arbitrary: i j)
  case (RSeq r s)
  then show ?case by (fastforce intro: order_trans)
next
  case (RAlt r s)
  then show ?case by auto
next
  case (RStar r)
  then show ?case using star_ends_range [of j "\<lambda>q. ends r t q" i "length t"] by auto
qed (auto split: if_splits)

lemma ends_bound: "i \<le> length t \<Longrightarrow> j \<in> set (ends r t i) \<Longrightarrow> j \<le> length t"
proof (induction r arbitrary: i j)
  case (RSeq r s)
  from RSeq.prems(2) obtain k where k: "k \<in> set (ends r t i)" "j \<in> set (ends s t k)" by auto
  have "k \<le> length t" using RSeq.IH(1) [OF RSeq.prems(1) k(1)] .
  then show ?case using RSeq.IH(2) k(2) by blast
next
  case (RAlt r s)
  from RAlt.prems(2) have "j \<in> set (ends r t i) \<or> j \<in> set (ends s t i)" by simp
  then show ?case using RAlt.IH RAlt.prems(1) by blast
next
  case (RStar r)
  then show ?case using star_ends_range [of j "\<lambda>q. ends r t q" i "length t"] by auto
qed (auto split: if_splits)

lemma rx_at_star: "rx_at (RStar r) t i j \<longleftrightarrow> (rx_at r t)\<^sup>*\<^sup>* i j"
proof
  have "rx_at x t i j \<Longrightarrow> x = RStar r \<Longrightarrow> (rx_at r t)\<^sup>*\<^sup>* i j" for x
    by (induction rule: rx_at.induct) (auto intro: converse_rtranclp_into_rtranclp)
  then show "rx_at (RStar r) t i j \<Longrightarrow> (rx_at r t)\<^sup>*\<^sup>* i j" by blast
next
  show "(rx_at r t)\<^sup>*\<^sup>* i j \<Longrightarrow> rx_at (RStar r) t i j"
    by (induction rule: converse_rtranclp_induct) (auto intro: rx_at.star0 rx_at.star1)
qed

lemma rtranclp_bounded:
  assumes bound: "\<And>a b. a \<le> (n :: nat) \<Longrightarrow> S a b \<Longrightarrow> b \<le> n" and i: "i \<le> n"
  shows "S\<^sup>*\<^sup>* i j \<Longrightarrow> j \<le> n"
  by (induction rule: rtranclp_induct) (auto simp: i dest: bound)

lemma rtranclp_bounded_eq:
  assumes eq: "\<And>a b. a \<le> (n :: nat) \<Longrightarrow> S a b \<longleftrightarrow> T a b"
    and bound: "\<And>a b. a \<le> n \<Longrightarrow> S a b \<Longrightarrow> b \<le> n"
    and i: "i \<le> n"
  shows "S\<^sup>*\<^sup>* i j \<longleftrightarrow> T\<^sup>*\<^sup>* i j"
proof
  assume "S\<^sup>*\<^sup>* i j"
  then show "T\<^sup>*\<^sup>* i j"
  proof (induction rule: rtranclp_induct)
    case (step y z)
    have "y \<le> n" using rtranclp_bounded [OF bound i step.hyps(1)] .
    with step show ?case by (auto intro: rtranclp.rtrancl_into_rtrancl simp: eq)
  qed simp
next
  assume "T\<^sup>*\<^sup>* i j"
  then show "S\<^sup>*\<^sup>* i j"
  proof (induction rule: rtranclp_induct)
    case (step y z)
    have "y \<le> n" using rtranclp_bounded [OF bound i step.IH] .
    with step show ?case by (auto intro: rtranclp.rtrancl_into_rtrancl simp: eq)
  qed simp
qed

inductive_simps rx_at_simps:
  "rx_at (RChar c) t i j" "rx_at RAny t i j" "rx_at (RClass neg ms) t i j" "rx_at RBol t i j"
  "rx_at REol t i j" "rx_at REnd t i j" "rx_at (RWordB b) t i j" "rx_at REmpty t i j"
  "rx_at (RSeq r s) t i j" "rx_at (RAlt r s) t i j"

lemma ends_correct: "i \<le> length t \<Longrightarrow> j \<in> set (ends r t i) \<longleftrightarrow> rx_at r t i j"
proof (induction r arbitrary: i j)
  case (RSeq r s)
  have "j \<in> set (ends (RSeq r s) t i) \<longleftrightarrow> (\<exists>k. k \<in> set (ends r t i) \<and> j \<in> set (ends s t k))"
    by auto
  also have "\<dots> \<longleftrightarrow> (\<exists>k. rx_at r t i k \<and> rx_at s t k j)"
    using RSeq.IH RSeq.prems ends_bound [OF RSeq.prems, of _ r] by blast
  finally show ?case by (simp add: rx_at_simps)
next
  case (RAlt r s)
  have "j \<in> set (ends (RAlt r s) t i) \<longleftrightarrow> j \<in> set (ends r t i) \<or> j \<in> set (ends s t i)" by simp
  also have "\<dots> \<longleftrightarrow> rx_at r t i j \<or> rx_at s t i j" using RAlt.IH RAlt.prems by blast
  finally show ?case by (simp add: rx_at_simps)
next
  case (RStar r)
  let ?S = "\<lambda>a b. b \<in> set (ends r t a)"
  have mono: "\<And>q p. p \<in> set (ends r t q) \<Longrightarrow> q \<le> p" by (rule ends_mono)
  have eq: "\<And>a b. a \<le> length t \<Longrightarrow> ?S a b \<longleftrightarrow> rx_at r t a b" using RStar.IH by blast
  have bd: "\<And>a b. a \<le> length t \<Longrightarrow> ?S a b \<Longrightarrow> b \<le> length t" by (rule ends_bound)
  have "j \<in> set (ends (RStar r) t i) \<longleftrightarrow> j \<le> length t \<and> ?S\<^sup>*\<^sup>* i j"
    using star_ends_set [where f = "\<lambda>q. ends r t q", OF mono RStar.prems] by simp
  also have "\<dots> \<longleftrightarrow> ?S\<^sup>*\<^sup>* i j"
    using rtranclp_bounded [where n = "length t" and S = ?S and i = i and j = j] bd RStar.prems by blast
  also have "\<dots> \<longleftrightarrow> (rx_at r t)\<^sup>*\<^sup>* i j"
    using rtranclp_bounded_eq [where n = "length t" and S = ?S and T = "rx_at r t" and i = i and j = j]
      eq bd RStar.prems by blast
  finally show ?case by (simp add: rx_at_star)
qed (auto simp: rx_at_simps)

lemma rx_search_iff: "rx_search r t \<longleftrightarrow> (\<exists>i j. i \<le> length t \<and> rx_at r t i j)"
proof -
  have "rx_search r t \<longleftrightarrow> (\<exists>i \<le> length t. ends r t i \<noteq> [])"
    by (auto simp: rx_search_def list_ex_iff less_Suc_eq_le simp del: upt_Suc)
  also have "\<dots> \<longleftrightarrow> (\<exists>i \<le> length t. \<exists>j. j \<in> set (ends r t i))"
    by (simp add: ex_in_conv)
  also have "\<dots> \<longleftrightarrow> (\<exists>i j. i \<le> length t \<and> rx_at r t i j)"
    using ends_correct by blast
  finally show ?thesis .
qed

subsection \<open>Patterns without metacharacters\<close>

lemma norm_step_lit: "c \<notin> set metachars \<Longrightarrow> norm_step acc c = Inr (LNorm, TAtom (RChar c) # acc)"
  by (simp add: norm_step_def metachars_def)

lemma lex_go_literal: "literal_pattern p \<Longrightarrow> lex_go LNorm acc p = Inr (rev acc @ lit_toks p)"
  by (induction p arbitrary: acc)
    (simp_all add: literal_pattern_def lex_step_def norm_step_lit lex_end_def lit_toks_def)

lemma build_lit:
  "build ((alts, seq) # fs) (lit_toks p @ ts) = build ((alts, rev (map RChar p) @ seq) # fs) ts"
  by (induction p arbitrary: seq) (simp_all add: lit_toks_def)

lemma compile_literal: "literal_pattern p \<Longrightarrow> compile p = Inr (seq_rx (map RChar p))"
  using build_lit [of "[]" "[]" "[]" p "[]"]
  by (simp add: compile_def lex_def lex_go_literal frame_rx_def)

lemma rx_at_chars:
  "rx_at (seq_rx (map RChar p)) t i j \<longleftrightarrow> j = i + length p \<and> prefix (lower p) (lower (drop i t))"
proof (induction p arbitrary: i)
  case Nil
  then show ?case by (simp add: seq_rx_def rx_at_simps)
next
  case (Cons c p)
  have "rx_at (seq_rx (map RChar (c # p))) t i j
        \<longleftrightarrow> i < length t \<and> lower_char (t ! i) = lower_char c \<and> rx_at (seq_rx (map RChar p)) t (Suc i) j"
    by (auto simp: seq_rx_def rx_at_simps)
  also have "\<dots> \<longleftrightarrow> j = i + length (c # p) \<and> prefix (lower (c # p)) (lower (drop i t))"
  proof (cases "i < length t")
    case True
    then have "drop i t = t ! i # drop (Suc i) t" by (rule Cons_nth_drop_Suc [symmetric])
    with True Cons.IH show ?thesis by auto
  qed simp
  finally show ?case .
qed

lemma sublist_prefix_drop: "sublist xs ys \<longleftrightarrow> (\<exists>i \<le> length ys. prefix xs (drop i ys))"
proof
  assume "sublist xs ys"
  then obtain ps ss where "ys = ps @ xs @ ss" by (auto simp: sublist_def)
  then show "\<exists>i \<le> length ys. prefix xs (drop i ys)" by (intro exI [of _ "length ps"]) auto
next
  assume "\<exists>i \<le> length ys. prefix xs (drop i ys)"
  then obtain i ss where "drop i ys = xs @ ss" by (auto simp: prefix_def)
  then have "ys = take i ys @ xs @ ss" by (metis append_take_drop_id)
  then show "sublist xs ys" by (metis sublist_appendI)
qed

lemma regex_search_literal:
  "literal_pattern p \<Longrightarrow> regex_search p t \<longleftrightarrow> sublist (lower p) (lower t)"
proof -
  assume lit: "literal_pattern p"
  have "regex_search p t \<longleftrightarrow> (\<exists>i \<le> length t. prefix (lower p) (lower (drop i t)))"
    by (auto simp: regex_search_def compile_literal [OF lit] rx_search_iff rx_at_chars)
  also have "\<dots> \<longleftrightarrow> sublist (lower p) (lower t)"
    by (simp add: sublist_prefix_drop lower_def drop_map)
  finally show ?thesis .
qed

lemma regex_invalid_literal: "literal_pattern p \<Longrightarrow> \<not> regex_invalid p"
  by (simp add: regex_invalid_def compile_literal)

end
