(* ===== verification/Collection.thy ===== *)
theory Collection
  imports Models Regex
begin

text \<open>
  The book store gateway: the MongoDB collection \<open>db.books\<close> (main.py, lines 21--23)
  and the motor operations the handlers await on it.  The collection is kept as an
  association list from \<open>_id\<close> to the stored document, in MongoDB's natural order
  (insertion order; an update rewrites a document in place).  MongoDB's unique index
  on \<open>_id\<close> makes an insert with an existing id fail.  An update reports a
  modification only when the document changes.  The driver and the server are outside
  the repository, so these operations are modelled from the spec (section 4.2) and
  MongoDB's documented behaviour.  Abstractly the collection is the map \<open>map_of c\<close>
  from ids to books; the refinement lemmas at the end relate each operation to it.
\<close>

type_synonym collection = "(ObjectId \<times> Book) list"

text \<open>The connection string (main.py, line 20): \<open>os.getenv("MONGO_URL",
  "mongodb://localhost:27017")\<close>, the environment a map from names to values.  The
  client it opens serves the one collection modelled here; connection failures are
  not modelled.\<close>

definition MONGO_URL :: "(string \<Rightarrow> string option) \<Rightarrow> string" where
  "MONGO_URL env = (case env ''MONGO_URL'' of Some u \<Rightarrow> u | None \<Rightarrow> ''mongodb://localhost:27017'')"

definition coll_inv :: "collection \<Rightarrow> bool" where
  "coll_inv c \<longleftrightarrow> distinct (map fst c) \<and> list_all (\<lambda>(i, _). oid_wf i) c"

record InsertOneResult =
  inserted_id :: ObjectId

record UpdateResult =
  matched_count :: nat
  modified_count :: nat

record DeleteResult =
  deleted_count :: nat

definition insert_one :: "ObjectId \<Rightarrow> Book \<Rightarrow> collection \<Rightarrow> InsertOneResult result \<times> collection" where
  "insert_one i d c =
     (if i \<in> set (map fst c) then (Inl DuplicateKeyError, c)
      else (Inr \<lparr>inserted_id = i\<rparr>, c @ [(i, d)]))"

definition find_one :: "ObjectId \<Rightarrow> collection \<Rightarrow> (ObjectId \<times> Book) option" where
  "find_one i c = map_option (Pair i) (map_of c i)"

text \<open>A query is the list of \<open>field: {"$regex": p, "$options": "i"}\<close> conditions;
  a document matches when every condition does.\<close>

definition matches_query :: "(book_field \<times> string) list \<Rightarrow> Book \<Rightarrow> bool" where
  "matches_query q d \<longleftrightarrow> list_all (\<lambda>(k, p). regex_search p (get_field k d)) q"

definition find :: "(book_field \<times> string) list \<Rightarrow> collection \<Rightarrow> (ObjectId \<times> Book) list" where
  "find q c = filter (\<lambda>(i, d). matches_query q d) c"

text \<open>Reading the cursor of \<open>find(query)\<close>: the server compiles the query's
  patterns first, and a pattern PCRE rejects fails the command, which the driver
  raises as \<open>OperationFailure\<close> on the first iteration.\<close>

definition query_invalid :: "(book_field \<times> string) list \<Rightarrow> bool" where
  "query_invalid q = list_ex (\<lambda>(k, p). regex_invalid p) q"

definition find_cursor :: "(book_field \<times> string) list \<Rightarrow> collection \<Rightarrow> (ObjectId \<times> Book) list result" where
  "find_cursor q c = (if query_invalid q then Inl OperationFailure else Inr (find q c))"

text \<open>The cursor behind \<open>async for book in collection.find(query)\<close> (main.py,
  lines 51--53).  The \<open>find\<close> command returns a first batch of at most 101
  documents (the server's default); the server scans the collection in natural order
  and stops when the batch is full, leaving the cursor open, or at the end, closing
  it.  \<open>cursor_batch q n c\<close> is that scan: the documents returned, the ids the scan
  has passed (its position), and whether the cursor stays open.\<close>

definition first_batch_size :: nat where
  "first_batch_size = 101"

fun cursor_batch ::
  "(book_field \<times> string) list \<Rightarrow> nat \<Rightarrow> collection \<Rightarrow> (ObjectId \<times> Book) list \<times> ObjectId list \<times> bool" where
  "cursor_batch q 0 c = ([], [], True)"
| "cursor_batch q (Suc n) [] = ([], [], False)"
| "cursor_batch q (Suc n) ((i, d) # c) =
     (if matches_query q d
      then (case cursor_batch q n c of (b, ex, is_open) \<Rightarrow> ((i, d) # b, i # ex, is_open))
      else (case cursor_batch q (Suc n) c of (b, ex, is_open) \<Rightarrow> (b, i # ex, is_open)))"

text \<open>\<open>getMore\<close> on an open cursor: the scan resumes after its position, in the
  collection as it is now, and returns the rest (a batch holds up to 16 MiB, far
  more than the collection's documents).  The position is the set of ids passed:
  since \<open>_id\<close> is unique, the documents not passed are those after the position,
  documents inserted since included.  (An id deleted and inserted again during the
  listing would be scanned again by MongoDB; ObjectIds are not reused.)\<close>

definition get_more :: "(book_field \<times> string) list \<Rightarrow> ObjectId list \<Rightarrow> collection \<Rightarrow> (ObjectId \<times> Book) list" where
  "get_more q ex c = find q (filter (\<lambda>(i, d). i \<notin> set ex) c)"

text \<open>\<open>{"$set": fields}\<close>: each field in turn.\<close>

definition apply_set :: "(book_field \<times> string) list \<Rightarrow> Book \<Rightarrow> Book" where
  "apply_set sets d = fold (\<lambda>(k, v). set_field k v) sets d"

definition update_one ::
  "ObjectId \<Rightarrow> (book_field \<times> string) list \<Rightarrow> collection \<Rightarrow> UpdateResult \<times> collection" where
  "update_one i sets c =
     (case map_of c i of
        None \<Rightarrow> (\<lparr>matched_count = 0, modified_count = 0\<rparr>, c)
      | Some d \<Rightarrow>
          (let d' = apply_set sets d in
           if d' = d then (\<lparr>matched_count = 1, modified_count = 0\<rparr>, c)
           else (\<lparr>matched_count = 1, modified_count = 1\<rparr>,
                 map (\<lambda>(k, v). (k, if k = i then d' else v)) c)))"

definition delete_one :: "ObjectId \<Rightarrow> collection \<Rightarrow> DeleteResult \<times> collection" where
  "delete_one i c =
     (if i \<in> set (map fst c) then (\<lparr>deleted_count = 1\<rparr>, filter (\<lambda>(k, _). k \<noteq> i) c)
      else (\<lparr>deleted_count = 0\<rparr>, c))"

subsection \<open>The operations against the map they denote\<close>

lemma get_field_apply_set:
  "get_field k (apply_set sets d) = (case map_of (rev sets) k of Some v \<Rightarrow> v | None \<Rightarrow> get_field k d)"
  unfolding apply_set_def
  by (induction sets arbitrary: d) (auto simp: map_of_append split: option.splits)

lemma Book_eq_fields: "(d' :: Book) = d \<longleftrightarrow> (\<forall>k. get_field k d' = get_field k d)"
proof
  assume "\<forall>k. get_field k d' = get_field k d"
  then have "get_field Title d' = get_field Title d" "get_field Author d' = get_field Author d"
    "get_field Category d' = get_field Category d"
    by blast+
  then have "title d' = title d" "author d' = author d" "category d' = category d"
    by (simp_all add: get_field_def)
  then show "d' = d" by simp
qed simp

lemma insert_one_inv:
  "coll_inv c \<Longrightarrow> oid_wf i \<Longrightarrow> coll_inv (snd (insert_one i d c))"
  by (auto simp: coll_inv_def insert_one_def)

lemma update_one_inv: "coll_inv c \<Longrightarrow> coll_inv (snd (update_one i s c))"
  by (auto simp: coll_inv_def update_one_def Let_def list_all_iff split: option.splits)

lemma delete_one_inv: "coll_inv c \<Longrightarrow> coll_inv (snd (delete_one i c))"
  by (auto simp: coll_inv_def delete_one_def list_all_iff distinct_filter_keys)

lemma insert_one_refines:
  "map_of (snd (insert_one i d c)) = (if i \<in> dom (map_of c) then map_of c else (map_of c)(i \<mapsto> d))"
  by (simp add: insert_one_def map_of_snoc_fresh dom_map_of_conv_image_fst del: map_of_append)

lemma update_one_refines:
  "map_of (snd (update_one i s c)) = (map_of c)(i := map_option (apply_set s) (map_of c i))"
  by (auto simp: update_one_def Let_def map_of_map_value fun_eq_iff option.map_ident
      split: option.splits)

lemma delete_one_refines: "map_of (snd (delete_one i c)) = (map_of c)(i := None)"
  by (auto simp: delete_one_def map_of_filter_key fun_eq_iff map_of_eq_None_iff)

lemma find_subseq: "subseq (find q c) c"
  by (simp add: find_def)

lemma set_find: "set (find q c) = {(i, d) \<in> set c. matches_query q d}"
  by (auto simp: find_def)

lemma find_Nil [simp]: "find [] c = c"
  by (simp add: find_def matches_query_def)

subsection \<open>The cursor\<close>

text \<open>A batch is the matches of a prefix of the collection, and its position is
  that prefix; a closed cursor has scanned everything.\<close>

lemma cursor_batch_prefix:
  "cursor_batch q n c = (b, ex, is_open) \<Longrightarrow>
   \<exists>k \<le> length c. ex = map fst (take k c) \<and> b = find q (take k c) \<and> (\<not> is_open \<longrightarrow> k = length c)"
proof (induction q n c arbitrary: b ex is_open rule: cursor_batch.induct)
  case (3 q n i d c)
  show ?case
  proof (cases "matches_query q d")
    case True
    obtain b' ex' is_open' where r: "cursor_batch q n c = (b', ex', is_open')" by (cases "cursor_batch q n c")
    with "3.IH"(1) [OF True r] obtain k where "k \<le> length c" "ex' = map fst (take k c)"
      "b' = find q (take k c)" "\<not> is_open' \<longrightarrow> k = length c" by blast
    with True r "3.prems" show ?thesis by (intro exI [of _ "Suc k"]) (auto simp: find_def)
  next
    case False
    obtain b' ex' is_open' where r: "cursor_batch q (Suc n) c = (b', ex', is_open')"
      by (cases "cursor_batch q (Suc n) c")
    with "3.IH"(2) [OF False r] obtain k where "k \<le> length c" "ex' = map fst (take k c)"
      "b' = find q (take k c)" "\<not> is_open' \<longrightarrow> k = length c" by blast
    with False r "3.prems" show ?thesis by (intro exI [of _ "Suc k"]) (auto simp: find_def)
  qed
qed (auto simp: find_def intro!: exI [of _ 0])

lemma filter_not_passed:
  "distinct (map fst c) \<Longrightarrow> filter (\<lambda>(i, d). i \<notin> set (map fst (take k c))) c = drop k c"
proof -
  assume d: "distinct (map fst c)"
  have "filter (\<lambda>(i, d). i \<notin> set (map fst (take k c))) (take k c) = []"
    by (force simp: filter_empty_conv)
  moreover have "filter (\<lambda>(i, d). i \<notin> set (map fst (take k c))) (drop k c) = drop k c"
  proof -
    have "distinct (map fst (take k c) @ map fst (drop k c))"
      using d by (metis append_take_drop_id map_append)
    then show ?thesis by (force simp: filter_id_conv)
  qed
  ultimately show ?thesis
    by (metis (no_types, lifting) append_Nil append_take_drop_id filter_append)
qed

text \<open>On a collection with unique ids, a first batch and a \<open>getMore\<close> on the same
  collection read exactly \<open>find\<close>.\<close>

lemma cursor_batch_get_more:
  assumes d: "distinct (map fst c)" and r: "cursor_batch q n c = (b, ex, is_open)"
  shows "b @ get_more q ex c = find q c"
proof -
  obtain k where ex: "ex = map fst (take k c)" and b: "b = find q (take k c)"
    using cursor_batch_prefix [OF r] by blast
  have "get_more q ex c = find q (drop k c)"
    by (simp only: get_more_def ex filter_not_passed [OF d])
  with b show ?thesis
    by (simp add: find_def) (metis append_take_drop_id filter_append)
qed

lemma cursor_batch_closed:
  "cursor_batch q n c = (b, ex, False) \<Longrightarrow> b = find q c"
  by (drule cursor_batch_prefix) auto

lemma cursor_batch_all: "n \<le> length c \<Longrightarrow> cursor_batch [] n c = (take n c, map fst (take n c), True)"
proof (induction "[] :: (book_field \<times> string) list" n c rule: cursor_batch.induct)
  case (3 n i d c)
  then show ?case by (simp add: matches_query_def)
qed simp_all
end
