(* ===== verification/Handlers.thy ===== *)
theory Handlers
  imports Collection
begin

text \<open>
  The HTTP request handlers of main.py, each a function of the request's inputs and
  the collection that returns the handler's outcome (an exception or the value the
  Python function returns) and the collection afterwards.  The id MongoDB's driver
  generates for an insert (\<open>ObjectId()\<close> in \<open>insert_one\<close>) is an input of
  \<open>create_book\<close>.  Every \<open>raise\<close>, every \<open>return\<close> and every awaited store call of
  the source is a branch or a call here, in the source's order.
\<close>

subsection \<open>Messages\<close>

text \<open>The French messages, with their accented letters in UTF-8.\<close>

definition e_acute :: string where
  "e_acute = [char_of (195 :: nat), char_of (169 :: nat)]"

definition e_grave :: string where
  "e_grave = [char_of (195 :: nat), char_of (168 :: nat)]"

definition msg_invalid_id :: string where
  "msg_invalid_id = ''ID invalide''"

definition msg_not_found :: string where
  "msg_not_found = ''Livre non trouv'' @ e_acute"

definition root :: json where
  "root = JObj [(''message'', JStr (''Bienvenue sur l'' @ [CHR 0x27] @ ''API de la Biblioth''
                                     @ e_grave @ ''que''))]"

subsection \<open>Shaping a stored document\<close>

text \<open>\<open>book["_id"] = str(book["_id"])\<close>: the document with its id as a string, read
  as the response model.\<close>

definition to_BookModel :: "ObjectId \<times> Book \<Rightarrow> BookModel" where
  "to_BookModel doc =
     (case doc of (i, d) \<Rightarrow>
        \<lparr>title = title d, author = author d, category = category d, book_id = Some (str_oid i)\<rparr>)"

subsection \<open>1. create_book (POST /books)\<close>

definition create_book :: "ObjectId \<Rightarrow> BookModel \<Rightarrow> collection \<Rightarrow> BookModel result \<times> collection" where
  "create_book new_id book c =
     (let book_dict = BookModel_dict_exclude_id book in
      case insert_one new_id book_dict c of
        (Inl e, c1) \<Rightarrow> (Inl e, c1)
      | (Inr new_book, c1) \<Rightarrow>
          (case find_one (inserted_id new_book) c1 of
             None \<Rightarrow> (Inl TypeError, c1)
           | Some created_book \<Rightarrow> (Inr (to_BookModel created_book), c1)))"

subsection \<open>2. list_books (GET /books)\<close>

text \<open>\<open>if title: query["title"] = {"$regex": title, "$options": "i"}\<close>: a parameter
  counts when it is present and not empty (Python truthiness of \<open>str | None\<close>).\<close>

definition query_param :: "book_field \<Rightarrow> string option \<Rightarrow> (book_field \<times> string) list" where
  "query_param k v = (case v of Some p \<Rightarrow> if p \<noteq> [] then [(k, p)] else [] | None \<Rightarrow> [])"

definition list_query ::
  "string option \<Rightarrow> string option \<Rightarrow> string option \<Rightarrow> (book_field \<times> string) list" where
  "list_query t a cat = query_param Title t @ query_param Author a @ query_param Category cat"

definition list_books ::
  "string option \<Rightarrow> string option \<Rightarrow> string option \<Rightarrow> collection \<Rightarrow> BookModel list result \<times> collection" where
  "list_books t a cat c =
     (case find_cursor (list_query t a cat) c of
        Inl e \<Rightarrow> (Inl e, c)
      | Inr books \<Rightarrow> (Inr (map to_BookModel books), c))"

subsection \<open>3. get_book (GET /books/{id})\<close>

definition get_book :: "string \<Rightarrow> collection \<Rightarrow> BookModel result \<times> collection" where
  "get_book id' c =
     (if \<not> is_valid id' then (Inl (HTTPException 400 msg_invalid_id), c)
      else (case ObjectId_of_str id' of
              None \<Rightarrow> (Inl InvalidId, c)
            | Some oid \<Rightarrow>
                (case find_one oid c of
                   None \<Rightarrow> (Inl (HTTPException 404 msg_not_found), c)
                 | Some book \<Rightarrow> (Inr (to_BookModel book), c))))"

subsection \<open>4. update_book (PUT /books/{id})\<close>

text \<open>\<open>{k: v for k, v in book.dict().items() if v is not None}\<close>\<close>

definition present_fields :: "UpdateBookModel \<Rightarrow> (book_field \<times> string) list" where
  "present_fields book = [(k, v). (k, Some v) \<leftarrow> UpdateBookModel_dict book]"

text \<open>The fall-through at the end of update_book: fetch again, 404 if absent.\<close>

definition update_fallback :: "ObjectId \<Rightarrow> collection \<Rightarrow> BookModel result \<times> collection" where
  "update_fallback oid c =
     (case find_one oid c of
        None \<Rightarrow> (Inl (HTTPException 404 msg_not_found), c)
      | Some existing_book \<Rightarrow> (Inr (to_BookModel existing_book), c))"

definition update_book :: "string \<Rightarrow> UpdateBookModel \<Rightarrow> collection \<Rightarrow> BookModel result \<times> collection" where
  "update_book id' book c =
     (if \<not> is_valid id' then (Inl (HTTPException 400 msg_invalid_id), c)
      else (case ObjectId_of_str id' of
              None \<Rightarrow> (Inl InvalidId, c)
            | Some oid \<Rightarrow>
                (let book_dict = present_fields book in
                 if 1 \<le> length book_dict then
                   (case update_one oid book_dict c of
                      (update_result, c1) \<Rightarrow>
                        if modified_count update_result = 1 then
                          (case find_one oid c1 of
                             None \<Rightarrow> (Inl TypeError, c1)
                           | Some updated_book \<Rightarrow> (Inr (to_BookModel updated_book), c1))
                        else update_fallback oid c1)
                 else update_fallback oid c)))"

subsection \<open>5. delete_book (DELETE /books/{id})\<close>

definition msg_deleted :: json where
  "msg_deleted = JObj [(''message'', JStr (''Livre supprim'' @ e_acute))]"

definition delete_book :: "string \<Rightarrow> collection \<Rightarrow> json result \<times> collection" where
  "delete_book id' c =
     (if \<not> is_valid id' then (Inl (HTTPException 400 msg_invalid_id), c)
      else (case ObjectId_of_str id' of
              None \<Rightarrow> (Inl InvalidId, c)
            | Some oid \<Rightarrow>
                (case delete_one oid c of
                   (delete_result, c1) \<Rightarrow>
                     if deleted_count delete_result = 1 then (Inr msg_deleted, c1)
                     else (Inl (HTTPException 404 msg_not_found), c1))))"

subsection \<open>Each handler on a decoded id\<close>

lemma find_one_eq [store_simps]: "find_one i c = (case map_of c i of None \<Rightarrow> None | Some d \<Rightarrow> Some (i, d))"
  by (simp add: find_one_def split: option.splits)

lemma map_value_ident:
  "distinct (map fst c) \<Longrightarrow> map_of c k = Some d \<Longrightarrow> f d = d \<Longrightarrow>
   map (\<lambda>(k', v). (k', if k' = k then f v else v)) c = c"
proof (rule map_idI)
  fix x assume dist: "distinct (map fst c)" and d: "map_of c k = Some d" and fd: "f d = d"
    and x: "x \<in> set c"
  show "(\<lambda>(k', v). (k', if k' = k then f v else v)) x = x"
    using map_of_member_eq [OF dist d] x fd by (cases x) auto
qed

lemma get_book_oid:
  "ObjectId_of_str s = Some oid \<Longrightarrow>
   get_book s c = (case map_of c oid of
                     None \<Rightarrow> (Inl (HTTPException 404 msg_not_found), c)
                   | Some d \<Rightarrow> (Inr (to_BookModel (oid, d)), c))"
  by (auto simp: get_book_def is_valid_ObjectId_of_str find_one_eq split: option.splits)

lemma get_book_invalid: "\<not> is_valid s \<Longrightarrow> get_book s c = (Inl (HTTPException 400 msg_invalid_id), c)"
  by (simp add: get_book_def)

lemma delete_book_oid:
  "ObjectId_of_str s = Some oid \<Longrightarrow>
   delete_book s c = (if oid \<in> set (map fst c) then (Inr msg_deleted, filter (\<lambda>(k, _). k \<noteq> oid) c)
                      else (Inl (HTTPException 404 msg_not_found), c))"
  by (auto simp: delete_book_def is_valid_ObjectId_of_str delete_one_def)

lemma create_book_fresh:
  "new_id \<notin> set (map fst c) \<Longrightarrow>
   create_book new_id b c = (Inr (to_BookModel (new_id, BookModel_dict_exclude_id b)),
                             c @ [(new_id, BookModel_dict_exclude_id b)])"
  by (simp add: create_book_def insert_one_def find_one_eq map_of_snoc_fresh Let_def
      del: map_of_append)

lemma create_book_dup: "new_id \<in> set (map fst c) \<Longrightarrow> create_book new_id b c = (Inl DuplicateKeyError, c)"
  by (simp add: create_book_def insert_one_def)

lemma update_fallback_eq:
  "update_fallback oid c = (case map_of c oid of
                     None \<Rightarrow> (Inl (HTTPException 404 msg_not_found), c)
                   | Some d \<Rightarrow> (Inr (to_BookModel (oid, d)), c))"
  by (simp add: update_fallback_def find_one_eq split: option.splits)

lemma apply_set_Nil [simp]: "apply_set [] d = d"
  by (simp add: apply_set_def)

lemma update_book_oid:
  assumes inv: "coll_inv c" and oid: "ObjectId_of_str s = Some oid"
  shows "update_book s u c =
    (case map_of c oid of
       None \<Rightarrow> (Inl (HTTPException 404 msg_not_found), c)
     | Some d \<Rightarrow> (Inr (to_BookModel (oid, apply_set (present_fields u) d)),
                  map (\<lambda>(k, v). (k, if k = oid then apply_set (present_fields u) v else v)) c))"
proof -
  let ?p = "present_fields u"
  have valid: "is_valid s" using oid by (simp add: is_valid_ObjectId_of_str)
  have dist: "distinct (map fst c)" using inv by (simp add: coll_inv_def)
  show ?thesis
  proof (cases "map_of c oid")
    case None
    then show ?thesis using valid oid
      by (simp add: update_book_def update_one_def update_fallback_eq Let_def)
  next
    case (Some d)
    show ?thesis
    proof (cases "?p = [] \<or> apply_set ?p d = d")
      case True
      then have "apply_set ?p d = d" by auto
      with dist Some have "map (\<lambda>(k, v). (k, if k = oid then apply_set ?p v else v)) c = c"
        by (rule map_value_ident)
      with True Some valid oid \<open>apply_set ?p d = d\<close> show ?thesis
        by (auto simp: update_book_def update_one_def update_fallback_eq Let_def)
    next
      case False
      let ?c1 = "map (\<lambda>(k, v). (k, if k = oid then apply_set ?p d else v)) c"
      have m: "map_of ?c1 oid = Some (apply_set ?p d)"
        by (simp add: map_of_map_value Some)
      have eq: "?c1 = map (\<lambda>(k, v). (k, if k = oid then apply_set ?p v else v)) c"
        using map_of_member_eq [OF dist Some] by (auto intro!: map_cong)
      have "update_book s u c =
              (case find_one oid ?c1 of
                 None \<Rightarrow> (Inl TypeError, ?c1)
               | Some b \<Rightarrow> (Inr (to_BookModel b), ?c1))"
        using False Some valid oid by (simp add: update_book_def update_one_def Let_def Suc_le_eq)
      also have "\<dots> = (Inr (to_BookModel (oid, apply_set ?p d)), ?c1)"
        using m by (simp add: find_one_eq)
      finally show ?thesis using Some eq by simp
    qed
  qed
qed
subsection \<open>The handlers keep the collection's invariant\<close>

lemma coll_inv_map_value:
  "coll_inv c \<Longrightarrow> coll_inv (map (\<lambda>(k, v). (k, f k v)) c)"
  by (auto simp: coll_inv_def list_all_iff)

lemma create_book_inv: "coll_inv c \<Longrightarrow> oid_wf new_id \<Longrightarrow> coll_inv (snd (create_book new_id b c))"
  by (cases "new_id \<in> set (map fst c)")
    (simp_all add: create_book_dup create_book_fresh coll_inv_def)

lemma list_books_state: "snd (list_books t a cat c) = c"
  by (simp add: list_books_def split: sum.split)

lemma get_book_state: "snd (get_book s c) = c"
  by (simp add: get_book_def update_fallback_def split: option.splits)

lemma update_book_inv:
  assumes inv: "coll_inv c"
  shows "coll_inv (snd (update_book s u c))"
proof (cases "ObjectId_of_str s")
  case None
  with inv show ?thesis by (simp add: update_book_def is_valid_ObjectId_of_str)
next
  case (Some oid)
  with inv show ?thesis
    by (simp add: update_book_oid coll_inv_map_value split: option.splits)
qed

lemma delete_book_inv:
  assumes inv: "coll_inv c"
  shows "coll_inv (snd (delete_book s c))"
proof (cases "ObjectId_of_str s")
  case None
  with inv show ?thesis by (simp add: delete_book_def is_valid_ObjectId_of_str)
next
  case (Some oid)
  with inv show ?thesis
    by (auto simp: delete_book_oid coll_inv_def list_all_iff distinct_filter_keys)
qed

lemma coll_inv_wf: "coll_inv c \<Longrightarrow> (i, d) \<in> set c \<Longrightarrow> oid_wf i"
  by (auto simp: coll_inv_def list_all_iff)

lemma distinct_ids_to_BookModel:
  "coll_inv c \<Longrightarrow> distinct (map book_id (map to_BookModel c))"
proof -
  assume inv: "coll_inv c"
  then have "inj_on str_oid (set (map fst c))"
    by (auto intro!: inj_onI) (metis coll_inv_wf str_oid_inj)
  with inv have "distinct (map (\<lambda>i. Some (str_oid i)) (map fst c))"
    by (simp add: coll_inv_def distinct_map inj_on_def)
  then show ?thesis
    by (simp add: to_BookModel_def case_prod_beta comp_def)
qed

lemma present_fields_lookup:
  "map_of (rev (present_fields u)) k
   = (case map_of (UpdateBookModel_dict u) k of Some (Some v) \<Rightarrow> Some v | _ \<Rightarrow> None)"
  by (cases k) (auto simp: present_fields_def UpdateBookModel_dict_def split: option.splits)

lemma get_book_http_error:
  "fst (get_book s c) = Inl e \<Longrightarrow> e \<in> {HTTPException 400 msg_invalid_id, HTTPException 404 msg_not_found}"
  by (cases "ObjectId_of_str s")
    (auto simp: get_book_oid get_book_invalid is_valid_ObjectId_of_str split: option.splits)

lemma delete_book_http_error:
  assumes "fst (delete_book s c) = Inl e"
  shows "e \<in> {HTTPException 400 msg_invalid_id, HTTPException 404 msg_not_found}"
proof (cases "ObjectId_of_str s")
  case None
  with assms show ?thesis by (simp add: delete_book_def is_valid_ObjectId_of_str)
next
  case (Some oid)
  with assms show ?thesis by (auto simp: delete_book_oid split: if_splits)
qed

lemma update_book_http_error:
  assumes inv: "coll_inv c" and e: "fst (update_book s u c) = Inl e"
  shows "e \<in> {HTTPException 400 msg_invalid_id, HTTPException 404 msg_not_found}"
proof (cases "ObjectId_of_str s")
  case None
  with e show ?thesis by (simp add: update_book_def is_valid_ObjectId_of_str)
next
  case (Some oid)
  with inv e show ?thesis by (auto simp: update_book_oid split: option.splits)
qed

end
