(* ===== verification/Server.thy ===== *)
theory Server
  imports Handlers
begin

text \<open>
  The HTTP surface: FastAPI routes a request to its handler (the decorators of
  main.py), parses the body against the handler's model (422 on failure), turns an
  \<open>HTTPException\<close> into its status and \<open>{"detail": ...}\<close>, any other exception into
  500, and a returned value into the route's success status and the JSON of its
  response model.  The server is a step relation: any request, in any order, against
  the one shared collection; the id the driver generates for an insert is any
  well-formed ObjectId.
\<close>

datatype request =
    Get_root
  | Post_books json
  | Get_books "string option" "string option" "string option"
  | Get_book string
  | Put_book string json
  | Delete_book string

record response =
  status_code :: nat
  content :: json

text \<open>The body of a 422 carries pydantic's list of errors; its entries are not
  modelled.  A 500 carries Starlette's plain text.\<close>

definition error_response :: "py_error \<Rightarrow> response" where
  "error_response e =
     (case e of
        HTTPException st d \<Rightarrow> \<lparr>status_code = st, content = JObj [(''detail'', JStr d)]\<rparr>
      | RequestValidationError \<Rightarrow> \<lparr>status_code = 422, content = JObj [(''detail'', JArr [])]\<rparr>
      | _ \<Rightarrow> \<lparr>status_code = 500, content = JStr ''Internal Server Error''\<rparr>)"

definition respond :: "nat \<Rightarrow> ('a \<Rightarrow> json) \<Rightarrow> 'a result \<Rightarrow> response" where
  "respond ok ser r =
     (case r of Inl e \<Rightarrow> error_response e | Inr v \<Rightarrow> \<lparr>status_code = ok, content = ser v\<rparr>)"

definition app :: "ObjectId \<Rightarrow> request \<Rightarrow> collection \<Rightarrow> response \<times> collection" where
  "app new_id rq c =
     (case rq of
        Get_root \<Rightarrow> (\<lparr>status_code = 200, content = root\<rparr>, c)
      | Post_books body \<Rightarrow>
          (case parse_BookModel body of
             Inl e \<Rightarrow> (error_response e, c)
           | Inr book \<Rightarrow>
               (case create_book new_id book c of (r, c') \<Rightarrow> (respond 201 BookModel_json r, c')))
      | Get_books t a cat \<Rightarrow>
          (case list_books t a cat c of (r, c') \<Rightarrow> (respond 200 (\<lambda>bs. JArr (map BookModel_json bs)) r, c'))
      | Get_book i \<Rightarrow> (case get_book i c of (r, c') \<Rightarrow> (respond 200 BookModel_json r, c'))
      | Put_book i body \<Rightarrow>
          (case parse_UpdateBookModel body of
             Inl e \<Rightarrow> (error_response e, c)
           | Inr book \<Rightarrow>
               (case update_book i book c of (r, c') \<Rightarrow> (respond 200 BookModel_json r, c')))
      | Delete_book i \<Rightarrow> (case delete_book i c of (r, c') \<Rightarrow> (respond 200 id r, c')))"

text \<open>A request whose search patterns all compile; only \<open>GET /books\<close> takes
  patterns.\<close>

definition search_ok :: "request \<Rightarrow> bool" where
  "search_ok rq = (case rq of Get_books t a cat \<Rightarrow> \<not> query_invalid (list_query t a cat) | _ \<Rightarrow> True)"

subsection \<open>The server as a step relation\<close>

inductive server_step :: "collection \<Rightarrow> request \<Rightarrow> response \<Rightarrow> collection \<Rightarrow> bool" where
  serve: "oid_wf new_id \<Longrightarrow> app new_id rq c = (r, c') \<Longrightarrow> server_step c rq r c'"

inductive reachable :: "collection \<Rightarrow> bool" where
  empty: "reachable []"
| step: "reachable c \<Longrightarrow> server_step c rq r c' \<Longrightarrow> reachable c'"

inductive_cases server_stepE: "server_step c rq r c'"

text \<open>A run: requests served one after the other, each with the id the driver
  generates for it.\<close>

fun run :: "(ObjectId \<times> request) list \<Rightarrow> collection \<Rightarrow> response list \<times> collection" where
  "run [] c = ([], c)"
| "run ((new_id, rq) # rqs) c =
     (case app new_id rq c of
        (r, c') \<Rightarrow> (case run rqs c' of (rs, c'') \<Rightarrow> (r # rs, c'')))"

subsection \<open>Every request keeps the invariant\<close>

lemma app_inv: "coll_inv c \<Longrightarrow> oid_wf new_id \<Longrightarrow> coll_inv (snd (app new_id rq c))"
proof (cases rq)
  case (Post_books body)
  assume "coll_inv c" "oid_wf new_id"
  then show ?thesis using Post_books create_book_inv [of c new_id]
    by (simp add: app_def case_prod_beta split: sum.split)
next
  case (Put_book i body)
  assume "coll_inv c"
  then show ?thesis using Put_book update_book_inv [of c i]
    by (simp add: app_def case_prod_beta split: sum.split)
next
  case (Delete_book i)
  assume "coll_inv c"
  then show ?thesis using Delete_book delete_book_inv [of c i]
    by (simp add: app_def case_prod_beta)
qed (simp_all add: app_def case_prod_beta list_books_state get_book_state)

lemma server_step_inv: "server_step c rq r c' \<Longrightarrow> coll_inv c \<Longrightarrow> coll_inv c'"
  by (erule server_stepE) (metis app_inv snd_conv)

lemma respond_not_500:
  "ok \<noteq> 500 \<Longrightarrow>
   (\<And>e. r = Inl e \<Longrightarrow> e \<in> {HTTPException 400 msg_invalid_id, HTTPException 404 msg_not_found}) \<Longrightarrow>
   status_code (respond ok f r) \<noteq> 500"
  by (cases r) (auto simp: respond_def error_response_def)


end
