(* ===== verification/Interleaving.thy ===== *)
theory Interleaving
  imports Server
begin

text \<open>
  Concurrent requests.  The handlers are coroutines: each runs until an \<open>await\<close> on
  the collection, and other requests may run there (spec section 5).  A request in
  flight is a program counter at one of its await points; one step runs it from one
  await point to the next, performing the awaited store operation and the pure code
  around it.  \<open>create_book\<close> awaits \<open>insert_one\<close> then \<open>find_one\<close>;
  \<open>update_book\<close> awaits \<open>update_one\<close> then \<open>find_one\<close> (re-fetch or fall-through),
  or only \<open>find_one\<close> for an empty body; \<open>get_book\<close> and \<open>delete_book\<close> await once.
  \<open>list_books\<close> awaits the cursor's batches: \<open>async for\<close> suspends only when motor
  fetches a batch (the \<open>find\<close> command, then \<open>getMore\<close>) and runs the loop body
  on the buffered documents without yielding; a first batch that fills the server's
  101 documents leaves the cursor open, and \<open>List_more\<close> is the request waiting
  for the rest.
\<close>

datatype pc =
    Start ObjectId request
  | Create_find ObjectId
  | Update_refetch ObjectId
  | Update_fallback ObjectId
  | List_more "(book_field \<times> string) list" "(ObjectId \<times> Book) list" "ObjectId list"
  | Finished response

fun finished :: "pc \<Rightarrow> bool" where
  "finished (Finished _) = True"
| "finished _ = False"

text \<open>The code of each request up to its first await, and that await.\<close>

definition start_step :: "ObjectId \<Rightarrow> request \<Rightarrow> collection \<Rightarrow> pc \<times> collection" where
  "start_step new_id rq c =
     (case rq of
        Get_root \<Rightarrow> (Finished \<lparr>status_code = 200, content = root\<rparr>, c)
      | Post_books body \<Rightarrow>
          (case parse_BookModel body of
             Inl e \<Rightarrow> (Finished (error_response e), c)
           | Inr book \<Rightarrow>
               (case insert_one new_id (BookModel_dict_exclude_id book) c of
                  (Inl e, c1) \<Rightarrow> (Finished (error_response e), c1)
                | (Inr new_book, c1) \<Rightarrow> (Create_find (inserted_id new_book), c1)))
      | Get_books t a cat \<Rightarrow>
          (let q = list_query t a cat in
           if query_invalid q then (Finished (error_response OperationFailure), c)
           else (case cursor_batch q first_batch_size c of
                   (b, ex, is_open) \<Rightarrow>
                     if is_open then (List_more q b ex, c)
                     else (Finished (respond 200 (\<lambda>bs. JArr (map BookModel_json bs)) (Inr (map to_BookModel b))), c)))
      | Get_book i \<Rightarrow>
          (case get_book i c of (r, c') \<Rightarrow> (Finished (respond 200 BookModel_json r), c'))
      | Put_book i body \<Rightarrow>
          (case parse_UpdateBookModel body of
             Inl e \<Rightarrow> (Finished (error_response e), c)
           | Inr book \<Rightarrow>
               (if \<not> is_valid i then (Finished (error_response (HTTPException 400 msg_invalid_id)), c)
                else (case ObjectId_of_str i of
                        None \<Rightarrow> (Finished (error_response InvalidId), c)
                      | Some oid \<Rightarrow>
                          (let book_dict = present_fields book in
                           if 1 \<le> length book_dict then
                             (case update_one oid book_dict c of
                                (update_result, c1) \<Rightarrow>
                                  if modified_count update_result = 1 then (Update_refetch oid, c1)
                                  else (Update_fallback oid, c1))
                           else (Update_fallback oid, c)))))
      | Delete_book i \<Rightarrow>
          (case delete_book i c of (r, c') \<Rightarrow> (Finished (respond 200 id r), c')))"

fun pc_step :: "pc \<Rightarrow> collection \<Rightarrow> pc \<times> collection" where
  "pc_step (Start new_id rq) c = start_step new_id rq c"
| "pc_step (Create_find i) c =
     (case find_one i c of
        None \<Rightarrow> (Finished (error_response TypeError), c)
      | Some created_book \<Rightarrow> (Finished (respond 201 BookModel_json (Inr (to_BookModel created_book))), c))"
| "pc_step (Update_refetch i) c =
     (case find_one i c of
        None \<Rightarrow> (Finished (error_response TypeError), c)
      | Some updated_book \<Rightarrow> (Finished (respond 200 BookModel_json (Inr (to_BookModel updated_book))), c))"
| "pc_step (Update_fallback i) c =
     (case update_fallback i c of (r, c') \<Rightarrow> (Finished (respond 200 BookModel_json r), c'))"
| "pc_step (List_more q b ex) c =
     (Finished (respond 200 (\<lambda>bs. JArr (map BookModel_json bs)) (Inr (map to_BookModel (b @ get_more q ex c)))), c)"
| "pc_step (Finished r) c = (Finished r, c)"

subsection \<open>The server with requests in flight\<close>

text \<open>A new request may arrive at any time; any unfinished request may take its next
  step.  Which one runs is the event loop's choice, so the steps are a relation.
  A step is atomic: the awaited operation is applied to the collection and its reply
  consumed by the next stretch of code, with no other request in between.  Every
  order of steps is one the event loop can take, since MongoDB's replies on separate
  connections may arrive in any order; the relation is wider than the real server in
  one respect: an arriving create may carry any well-formed id, where the generator
  of theory Driver gives fresh ones.  The schedules shown below use fresh ids only.\<close>

inductive conc_step :: "pc list \<times> collection \<Rightarrow> pc list \<times> collection \<Rightarrow> bool" where
  arrive: "oid_wf new_id \<Longrightarrow> conc_step (ps, c) (ps @ [Start new_id rq], c)"
| run: "i < length ps \<Longrightarrow> \<not> finished (ps ! i) \<Longrightarrow> pc_step (ps ! i) c = (p', c') \<Longrightarrow>
        conc_step (ps, c) (ps[i := p'], c')"

inductive conc_reach :: "pc list \<times> collection \<Rightarrow> bool" where
  init: "conc_reach ([], [])"
| step: "conc_reach s \<Longrightarrow> conc_step s s' \<Longrightarrow> conc_reach s'"

subsection \<open>Steps\<close>

lemma run_at:
  "i < length ps \<Longrightarrow> \<not> finished (ps ! i) \<Longrightarrow> pc_step (ps ! i) c = (p', c') \<Longrightarrow>
   ps' = ps[i := p'] \<Longrightarrow> conc_step (ps, c) (ps', c')"
  by (simp add: conc_step.run)

subsection \<open>A listing is not a snapshot\<close>

text \<open>The steps of one schedule: a listing leaves its cursor open, the first book
  is deleted, a book is created.\<close>

lemma start_list_open:
  assumes "101 \<le> length c"
  shows "start_step new_id (Get_books None None None) c
         = (List_more [] (take 101 c) (map fst (take 101 c)), c)"
  using assms cursor_batch_all [of 101 c]
  by (simp add: start_step_def list_query_def query_param_def query_invalid_def first_batch_size_def)

lemma start_delete_stored:
  assumes "coll_inv ((i0, d0) # rest)"
  shows "start_step new_id (Delete_book (str_oid i0)) ((i0, d0) # rest)
         = (Finished (respond 200 id (Inr msg_deleted)), rest)"
proof -
  have wf: "oid_wf i0" and nd: "i0 \<notin> fst ` set rest" and d: "distinct (map fst rest)"
    using assms by (auto simp: coll_inv_def)
  have "filter (\<lambda>(k, _). k \<noteq> i0) rest = rest"
    using nd by (force simp: filter_id_conv)
  with wf show ?thesis
    by (simp add: start_step_def delete_book_oid [OF ObjectId_roundtrip [OF wf]])
qed

lemma start_post_fresh:
  assumes "parse_BookModel body = Inr b" "new_id \<notin> set (map fst c)"
  shows "start_step new_id (Post_books body) c
         = (Create_find new_id, c @ [(new_id, BookModel_dict_exclude_id b)])"
  using assms by (simp add: start_step_def insert_one_def)

lemma get_more_after_delete:
  assumes inv: "coll_inv ((i0, d0) # rest)" and big: "100 \<le> length rest"
    and fresh: "new_id \<notin> set (map fst ((i0, d0) # rest))"
  shows "take 101 ((i0, d0) # rest) @ get_more [] (map fst (take 101 ((i0, d0) # rest))) (rest @ [(new_id, d)])
         = (i0, d0) # rest @ [(new_id, d)]"
proof -
  let ?c = "(i0, d0) # rest" and ?ex = "map fst (take 101 ((i0, d0) # rest))"
  have d: "distinct (map fst ?c)" using inv by (simp add: coll_inv_def)
  have "filter (\<lambda>(i, d). i \<notin> set ?ex) ?c = drop 101 ?c" by (rule filter_not_passed [OF d])
  moreover have "i0 \<in> set ?ex" by simp
  ultimately have r: "filter (\<lambda>(i, d). i \<notin> set ?ex) rest = drop 101 ?c" by simp
  have n: "new_id \<notin> set ?ex"
    using fresh in_set_takeD [of new_id 101 "map fst ?c"] by (auto simp: take_map)
  have "get_more [] ?ex (rest @ [(new_id, d)]) = drop 101 ?c @ [(new_id, d)]"
    using r n by (simp add: get_more_def)
  then show ?thesis using append_take_drop_id [of 101 ?c] by (metis append_assoc append_Cons)
qed

text \<open>C24: a listing is not a snapshot.  On a collection of at least 101 books,
  a listing whose cursor is open, a delete of the first book, and a create, served
  in that order at their await points, give a listing that contains both the
  deleted book and the created one, although no state of the collection ever held
  both.\<close>

theorem list_cursor_not_snapshot:
  assumes inv: "coll_inv ((i0, d0) # rest)" and big: "100 \<le> length rest"
    and wf: "oid_wf new_id" and fresh: "new_id \<notin> set (map fst ((i0, d0) # rest))"
    and body: "parse_BookModel body = Inr b"
  shows "\<exists>ps. conc_step\<^sup>*\<^sup>* ([], (i0, d0) # rest) (ps, rest @ [(new_id, BookModel_dict_exclude_id b)])
           \<and> Finished \<lparr>status_code = 200,
                content = JArr (map BookModel_json (map to_BookModel
                                 ((i0, d0) # rest @ [(new_id, BookModel_dict_exclude_id b)])))\<rparr> \<in> set ps
           \<and> i0 \<notin> set (map fst (rest @ [(new_id, BookModel_dict_exclude_id b)]))"
proof -
  let ?c = "(i0, d0) # rest" and ?d = "BookModel_dict_exclude_id b"
  let ?L = "Get_books None None None" and ?D = "Delete_book (str_oid i0)" and ?P = "Post_books body"
  let ?LM = "List_more [] (take 101 ?c) (map fst (take 101 ?c))"
  let ?FD = "Finished (respond 200 id (Inr msg_deleted))"
  let ?FP = "Finished (respond 201 BookModel_json (Inr (to_BookModel (new_id, ?d))))"
  let ?FL = "Finished \<lparr>status_code = 200, content = JArr (map BookModel_json (map to_BookModel (?c @ [(new_id, ?d)])))\<rparr>"
  have big': "101 \<le> length ?c" using big by simp
  have fresh': "new_id \<notin> set (map fst rest)" using fresh by simp
  have s1: "conc_step ([], ?c) ([Start new_id ?L], ?c)" using conc_step.arrive [OF wf, of "[]" ?c ?L] by simp
  have s2: "conc_step ([Start new_id ?L], ?c) ([?LM], ?c)"
    by (rule run_at [of 0]) (simp_all add: start_list_open [OF big'])
  have s3: "conc_step ([?LM], ?c) ([?LM, Start new_id ?D], ?c)" using conc_step.arrive [OF wf, of "[?LM]" ?c ?D] by simp
  have s4: "conc_step ([?LM, Start new_id ?D], ?c) ([?LM, ?FD], rest)"
    by (rule run_at [of 1]) (simp_all add: start_delete_stored [OF inv])
  have s5: "conc_step ([?LM, ?FD], rest) ([?LM, ?FD, Start new_id ?P], rest)"
    using conc_step.arrive [OF wf, of "[?LM, ?FD]" rest ?P] by simp
  have s6: "conc_step ([?LM, ?FD, Start new_id ?P], rest) ([?LM, ?FD, Create_find new_id], rest @ [(new_id, ?d)])"
    by (rule run_at [of 2]) (simp_all add: start_post_fresh [OF body fresh'])
  have s7: "conc_step ([?LM, ?FD, Create_find new_id], rest @ [(new_id, ?d)]) ([?LM, ?FD, ?FP], rest @ [(new_id, ?d)])"
    by (rule run_at [of 2]) (simp_all add: find_one_def map_of_snoc_fresh [OF fresh'] del: map_of_append)
  have more: "pc_step ?LM (rest @ [(new_id, ?d)]) = (?FL, rest @ [(new_id, ?d)])"
    by (simp only: pc_step.simps get_more_after_delete [OF inv big fresh]) (simp add: respond_def)
  have s8: "conc_step ([?LM, ?FD, ?FP], rest @ [(new_id, ?d)]) ([?FL, ?FD, ?FP], rest @ [(new_id, ?d)])"
    by (rule run_at [of 0 _ _ ?FL "rest @ [(new_id, ?d)]"]) (simp, simp, simp only: nth_Cons_0 more, simp)
  have run: "conc_step\<^sup>*\<^sup>* ([], ?c) ([?FL, ?FD, ?FP], rest @ [(new_id, ?d)])"
    using s1 s2 s3 s4 s5 s6 s7 s8 by (meson rtranclp.rtrancl_into_rtrancl r_into_rtranclp)
  have gone: "i0 \<notin> set (map fst (rest @ [(new_id, ?d)]))" using inv fresh by (auto simp: coll_inv_def)
  show ?thesis using run gone by (intro exI [of _ "[?FL, ?FD, ?FP]"]) simp
qed

theorem list_cursor_not_snapshot_witness:
  "coll_inv ((ObjectId (0 # replicate 10 0 @ [0]), \<lparr>title = ''A'', author = ''B'', category = ''C''\<rparr>)
             # map (\<lambda>k. (ObjectId (0 # replicate 10 0 @ [word_of_nat k]), \<lparr>title = ''A'', author = ''B'', category = ''C''\<rparr>)) [1..<101])
   \<and> 100 \<le> length (map (\<lambda>k. (ObjectId (0 # replicate 10 0 @ [word_of_nat k]), \<lparr>title = ''A'', author = ''B'', category = ''C''\<rparr>)) [1..<101])
   \<and> oid_wf (ObjectId (1 # replicate 11 0))
   \<and> ObjectId (1 # replicate 11 0) \<notin> set (map fst ((ObjectId (0 # replicate 10 0 @ [0]), \<lparr>title = ''A'', author = ''B'', category = ''C''\<rparr>)
             # map (\<lambda>k. (ObjectId (0 # replicate 10 0 @ [word_of_nat k]), \<lparr>title = ''A'', author = ''B'', category = ''C''\<rparr>)) [1..<101]))
   \<and> parse_BookModel (JObj [(''title'', JStr ''Dune''), (''author'', JStr ''Frank Herbert''), (''category'', JStr ''SF'')])
       = Inr \<lparr>title = ''Dune'', author = ''Frank Herbert'', category = ''SF'', book_id = None\<rparr>
   \<and> (\<exists>ps. conc_step\<^sup>*\<^sup>* ([], (ObjectId (0 # replicate 10 0 @ [0]), \<lparr>title = ''A'', author = ''B'', category = ''C''\<rparr>)
             # map (\<lambda>k. (ObjectId (0 # replicate 10 0 @ [word_of_nat k]), \<lparr>title = ''A'', author = ''B'', category = ''C''\<rparr>)) [1..<101])
          (ps, map (\<lambda>k. (ObjectId (0 # replicate 10 0 @ [word_of_nat k]), \<lparr>title = ''A'', author = ''B'', category = ''C''\<rparr>)) [1..<101]
               @ [(ObjectId (1 # replicate 11 0), BookModel_dict_exclude_id \<lparr>title = ''Dune'', author = ''Frank Herbert'', category = ''SF'', book_id = None\<rparr>)])
        \<and> Finished \<lparr>status_code = 200,
            content = JArr (map BookModel_json (map to_BookModel
              ((ObjectId (0 # replicate 10 0 @ [0]), \<lparr>title = ''A'', author = ''B'', category = ''C''\<rparr>)
               # map (\<lambda>k. (ObjectId (0 # replicate 10 0 @ [word_of_nat k]), \<lparr>title = ''A'', author = ''B'', category = ''C''\<rparr>)) [1..<101]
               @ [(ObjectId (1 # replicate 11 0), BookModel_dict_exclude_id \<lparr>title = ''Dune'', author = ''Frank Herbert'', category = ''SF'', book_id = None\<rparr>)])))\<rparr> \<in> set ps
        \<and> ObjectId (0 # replicate 10 0 @ [0]) \<notin> set (map fst (map (\<lambda>k. (ObjectId (0 # replicate 10 0 @ [word_of_nat k]), \<lparr>title = ''A'', author = ''B'', category = ''C''\<rparr>)) [1..<101]
               @ [(ObjectId (1 # replicate 11 0), BookModel_dict_exclude_id \<lparr>title = ''Dune'', author = ''Frank Herbert'', category = ''SF'', book_id = None\<rparr>)])))"
proof -
  let ?d = "\<lparr>title = ''A'', author = ''B'', category = ''C''\<rparr>"
  let ?f = "\<lambda>k. (ObjectId (0 # replicate 10 0 @ [word_of_nat k]), ?d)"
  have c0: "(ObjectId (0 # replicate 10 0 @ [0]), ?d) # map ?f [1..<101] = map ?f [0..<101]"
    by (simp add: upt_conv_Cons del: upt_Suc)
  have "inj_on (fst \<circ> ?f) {0..<101}"
    using byte_of_nat_inj by (auto simp: inj_on_def)
  then have "distinct (map fst (map ?f [0..<101]))"
    by (simp add: distinct_map del: upt_Suc)
  moreover have "list_all (\<lambda>(i, _). oid_wf i) (map ?f [0..<101])"
    by (simp add: list_all_iff oid_wf_def del: upt_Suc)
  ultimately have inv: "coll_inv ((ObjectId (0 # replicate 10 0 @ [0]), ?d) # map ?f [1..<101])"
    unfolding c0 by (simp add: coll_inv_def del: upt_Suc)
  have big: "100 \<le> length (map ?f [1..<101])" by simp
  have wf: "oid_wf (ObjectId (1 # replicate 11 0))" by (simp add: oid_wf_def)
  have fresh: "ObjectId (1 # replicate 11 0) \<notin> set (map fst ((ObjectId (0 # replicate 10 0 @ [0]), ?d) # map ?f [1..<101]))"
    by (auto simp del: upt_Suc)
  have body: "parse_BookModel (JObj [(''title'', JStr ''Dune''), (''author'', JStr ''Frank Herbert''), (''category'', JStr ''SF'')])
       = Inr \<lparr>title = ''Dune'', author = ''Frank Herbert'', category = ''SF'', book_id = None\<rparr>"
    by (simp add: parse_BookModel_def member_def req_str_def opt_str_def str_validator_def)
  show ?thesis using list_cursor_not_snapshot [OF inv big wf fresh body] inv big wf fresh body by blast
qed

end
