(* ===== verification/ObjectIdGen.thy ===== *)
theory ObjectIdGen
  imports ObjectId
begin

text \<open>
  How a new document gets its id.  \<open>collection.insert_one(book_dict)\<close> (main.py,
  line 33) goes through motor to pymongo, which adds \<open>_id = ObjectId()\<close> to a
  document that has none (\<open>book.dict(exclude={"id"})\<close> never has one).
  \<open>ObjectId()\<close> (bson/objectid.py, \<open>__generate\<close>) packs 12 bytes:
  \<^item> \<open>int(time.time())\<close> as a big-endian unsigned 32-bit integer, with the five
    bytes \<open>ObjectId._random()\<close> drawn once per process: \<open>struct.pack(">I5s", ...)\<close>;
  \<^item> bytes 1 to 3 of \<open>struct.pack(">I", inc)\<close>, where \<open>inc\<close> is the class-wide
    counter \<open>_inc\<close>, advanced under a lock before the packing by
    \<open>_inc = (inc + 1) % (_MAX_COUNTER_VALUE + 1)\<close>, \<open>_MAX_COUNTER_VALUE = 0xFFFFFF\<close>.
  The counter is a 24-bit word here, whose \<open>+\<close> wraps exactly as that \<open>%\<close> does.
  \<open>struct.pack(">I", t)\<close> raises \<open>struct.error\<close> once \<open>t \<ge> 2^32\<close> (February 2106);
  the counter has moved by then.  The library is outside the repository and is
  modelled from its documented behaviour; the per-process state (counter and random
  bytes) is the record \<open>gen_state\<close>, and the clock is an input in seconds.
\<close>

record gen_state =
  inc :: "24 word"
  rand_bytes :: "byte list"

text \<open>The random part has five bytes (\<open>os.urandom(5)\<close>).\<close>

definition gen_wf :: "gen_state \<Rightarrow> bool" where
  "gen_wf g \<longleftrightarrow> length (rand_bytes g) = 5"

text \<open>\<open>k\<close> bytes of \<open>n\<close>, most significant first, and back
  (\<open>int.from_bytes(bs, "big")\<close>).\<close>

primrec be_bytes :: "nat \<Rightarrow> nat \<Rightarrow> byte list" where
  "be_bytes 0 n = []"
| "be_bytes (Suc k) n = be_bytes k (n div 256) @ [word_of_nat (n mod 256)]"

definition be_nat :: "byte list \<Rightarrow> nat" where
  "be_nat bs = foldl (\<lambda>acc b. acc * 256 + unat b) 0 bs"

text \<open>\<open>struct.pack(">I", x)\<close>.\<close>

definition pack_uint32 :: "nat \<Rightarrow> byte list result" where
  "pack_uint32 x = (if x < 2 ^ 32 then Inr (be_bytes 4 x) else Inl StructError)"

definition generate :: "nat \<Rightarrow> gen_state \<Rightarrow> ObjectId result \<times> gen_state" where
  "generate now g =
     (let i = inc g; g' = g\<lparr>inc := i + 1\<rparr> in
      (case pack_uint32 now of
         Inl e \<Rightarrow> (Inl e, g')
       | Inr ts \<Rightarrow> (Inr (ObjectId (ts @ rand_bytes g @ drop 1 (be_bytes 4 (unat i)))), g')))"

text \<open>\<open>ObjectId.generation_time\<close>: the first four bytes read back as seconds.\<close>

definition generation_time :: "ObjectId \<Rightarrow> nat" where
  "generation_time x = be_nat (take 4 (binary x))"

text \<open>The id made \<open>k\<close> calls after state \<open>g\<close>, in the same second.\<close>

definition oid_at :: "nat \<Rightarrow> gen_state \<Rightarrow> nat \<Rightarrow> ObjectId" where
  "oid_at now g k =
     ObjectId (be_bytes 4 now @ rand_bytes g @ be_bytes 3 (unat (inc g + word_of_nat k)))"

subsection \<open>Big-endian bytes\<close>

lemma length_be_bytes [simp]: "length (be_bytes k n) = k"
  by (induction k arbitrary: n) simp_all

lemma be_nat_snoc [simp]: "be_nat (bs @ [b]) = be_nat bs * 256 + unat b"
  by (simp add: be_nat_def)

text \<open>Reading back what was packed: \<open>int.from_bytes\<close> inverts \<open>struct.pack\<close>
  on the values that fit.\<close>

lemma be_nat_be_bytes: "n < 256 ^ k \<Longrightarrow> be_nat (be_bytes k n) = n"
proof (induction k arbitrary: n)
  case 0
  then show ?case by (simp add: be_nat_def)
next
  case (Suc k)
  then have "n div 256 < 256 ^ k" by (simp add: less_mult_imp_div_less mult.commute)
  then have "be_nat (be_bytes k (n div 256)) = n div 256" by (rule Suc.IH)
  then show ?case by (simp add: unat_of_nat)
qed

lemma be_bytes_Suc_small: "n < 256 ^ k \<Longrightarrow> be_bytes (Suc k) n = 0 # be_bytes k n"
proof (induction k arbitrary: n)
  case 0
  then show ?case by simp
next
  case (Suc k)
  then have "n div 256 < 256 ^ k" by (simp add: less_mult_imp_div_less mult.commute)
  with Suc.IH show ?case by simp
qed

subsection \<open>The 24-bit counter\<close>

lemma unat_counter_len: "unat (i :: 24 word) < 2 ^ LENGTH(24)"
  by (rule unsigned_less)

lemma len_24: "LENGTH(24) = 24"
  by simp

lemma unat_counter_bound [simp]: "unat (i :: 24 word) < 2 ^ 24"
  using unat_counter_len [of i] unfolding len_24 .

lemma unat_counter_bytes: "unat (i :: 24 word) < 256 ^ 3"
proof -
  have "(256::nat) ^ 3 = 2 ^ 24" by simp
  then show ?thesis using unat_counter_bound [of i] by (simp only:)
qed

text \<open>\<open>struct.pack(">I", inc)[1:4]\<close> is the counter's three bytes.\<close>

lemma drop_be_bytes_counter: "drop 1 (be_bytes 4 (unat (i :: 24 word))) = be_bytes 3 (unat i)"
proof -
  have four: "(4::nat) = Suc 3" by simp
  have "be_bytes (Suc 3) (unat i) = 0 # be_bytes 3 (unat i)"
    by (rule be_bytes_Suc_small [OF unat_counter_bytes])
  then show ?thesis unfolding four by simp
qed

text \<open>The word's \<open>+ 1\<close> is pymongo's \<open>(inc + 1) % (_MAX_COUNTER_VALUE + 1)\<close>.\<close>

lemma unat_inc_step: "unat (i + 1 :: 24 word) = (unat i + 1) mod (0xFFFFFF + 1)"
  by (simp add: unat_word_ariths)

subsection \<open>Generated ids\<close>

lemma generate_ok:
  "now < 2 ^ 32 \<Longrightarrow> generate now g = (Inr (oid_at now g 0), g\<lparr>inc := inc g + 1\<rparr>)"
  using drop_be_bytes_counter [of "inc g"] by (simp add: generate_def pack_uint32_def oid_at_def Let_def)

lemma generate_overflow:
  "\<not> now < 2 ^ 32 \<Longrightarrow> generate now g = (Inl StructError, g\<lparr>inc := inc g + 1\<rparr>)"
  by (simp add: generate_def pack_uint32_def Let_def)

lemma oid_at_shift: "oid_at now (g\<lparr>inc := inc g + word_of_nat m\<rparr>) k = oid_at now g (m + k)"
  by (simp add: oid_at_def add.assoc)

lemma oid_at_wf: "gen_wf g \<Longrightarrow> oid_wf (oid_at now g k)"
  by (simp add: oid_at_def oid_wf_def gen_wf_def)

lemma word_of_nat_wrap24: "(word_of_nat (k + 2 ^ 24) :: 24 word) = word_of_nat k"
  by (simp add: word_of_nat_eq_iff take_bit_eq_mod)

lemma oid_at_wrap: "oid_at now g (k + 2 ^ 24) = oid_at now g k"
  by (simp only: oid_at_def word_of_nat_wrap24)

lemma be_bytes_inj:
  "n < 256 ^ k \<Longrightarrow> m < 256 ^ k \<Longrightarrow> be_bytes k n = be_bytes k m \<Longrightarrow> n = m"
  by (metis be_nat_be_bytes)

lemma oid_at_inj:
  assumes "j < 2 ^ 24" "k < 2 ^ 24" "oid_at now g j = oid_at now g k"
  shows "j = k"
proof -
  have "be_bytes 3 (unat (inc g + word_of_nat j)) = be_bytes 3 (unat (inc g + word_of_nat k))"
    using assms(3) by (simp add: oid_at_def)
  then have "unat (inc g + word_of_nat j) = unat (inc g + word_of_nat k)"
    by (rule be_bytes_inj [OF unat_counter_bytes unat_counter_bytes])
  then have "inc g + word_of_nat j = inc g + (word_of_nat k :: 24 word)" by (simp add: word_unat_eq_iff)
  then have "(word_of_nat j :: 24 word) = word_of_nat k" by simp
  then have "unat (word_of_nat j :: 24 word) = unat (word_of_nat k :: 24 word)" by simp
  with assms(1,2) show ?thesis by (simp add: unat_of_nat)
qed

lemma generation_time_oid_at: "now < 2 ^ 32 \<Longrightarrow> generation_time (oid_at now g k) = now"
  by (simp add: generation_time_def oid_at_def be_nat_be_bytes)

end
