(* ===== verification/Driver.thy ===== *)
theory Driver
  imports Server ObjectIdGen
begin

text \<open>
  The server with the driver's id generator in place of an arbitrary new id.  Only
  \<open>create_book\<close> inserts, so only a POST whose body parses calls \<open>ObjectId()\<close>
  (inside \<open>insert_one\<close>, main.py line 33); a \<open>struct.error\<close> there escapes the
  handler as a 500.  Every other route is \<open>app\<close> unchanged, with the generator
  untouched; the id \<open>app\<close> takes is not used by those routes.  The clock is the
  second at which each request is served.
\<close>

definition app_gen :: "nat \<Rightarrow> request \<Rightarrow> gen_state \<times> collection \<Rightarrow> response \<times> gen_state \<times> collection" where
  "app_gen now rq s =
     (case s of
        (g, c) \<Rightarrow>
          (case rq of
             Post_books body \<Rightarrow>
               (case parse_BookModel body of
                  Inl e \<Rightarrow> (error_response e, g, c)
                | Inr book \<Rightarrow>
                    (case generate now g of
                       (Inl e, g') \<Rightarrow> (error_response e, g', c)
                     | (Inr new_id, g') \<Rightarrow>
                         (case create_book new_id book c of
                            (r, c') \<Rightarrow> (respond 201 BookModel_json r, g', c'))))
           | _ \<Rightarrow> (case app (ObjectId []) rq c of (r, c') \<Rightarrow> (r, g, c'))))"

fun run_gen :: "(nat \<times> request) list \<Rightarrow> gen_state \<times> collection \<Rightarrow> response list \<times> gen_state \<times> collection" where
  "run_gen [] s = ([], s)"
| "run_gen ((now, rq) # rqs) s =
     (case app_gen now rq s of (r, s') \<Rightarrow> (case run_gen rqs s' of (rs, s'') \<Rightarrow> (r # rs, s'')))"

text \<open>The collection after \<open>m\<close> creates of the same document in one second.\<close>

definition created :: "nat \<Rightarrow> gen_state \<Rightarrow> Book \<Rightarrow> nat \<Rightarrow> collection" where
  "created now g d m = map (\<lambda>j. (oid_at now g j, d)) [0..<m]"

subsection \<open>Runs\<close>

lemma run_gen_append:
  "run_gen (xs @ ys) s =
     (case run_gen xs s of (rs, s') \<Rightarrow> (case run_gen ys s' of (rs', s'') \<Rightarrow> (rs @ rs', s'')))"
  by (induction xs s rule: run_gen.induct) (simp_all split: prod.split)

lemma length_run_gen [simp]: "length (fst (run_gen xs s)) = length xs"
proof (induction xs arbitrary: s)
  case Nil
  then show ?case by simp
next
  case (Cons x xs)
  then show ?case by (cases x) (simp add: case_prod_beta)
qed

lemma app_other_id:
  "\<forall>body. rq \<noteq> Post_books body \<Longrightarrow> app x rq c = app y rq c"
  by (cases rq) (simp_all add: app_def)

lemma app_gen_post:
  "parse_BookModel body = Inr b \<Longrightarrow> generate now g = (Inr new_id, g') \<Longrightarrow>
   app_gen now (Post_books body) (g, c) = (fst (app new_id (Post_books body) c), g', snd (app new_id (Post_books body) c))"
  by (simp add: app_gen_def app_def split: prod.split)

lemma created_Suc:
  "created now g d (Suc m) = created now g d m @ [(oid_at now g m, d)]"
  by (simp add: created_def)

lemma gen_advance:
  "(g\<lparr>inc := inc g + word_of_nat m\<rparr>)\<lparr>inc := inc (g\<lparr>inc := inc g + word_of_nat m\<rparr>) + 1\<rparr>
   = g\<lparr>inc := inc g + word_of_nat (Suc m)\<rparr>"
  by (simp add: add.assoc add.commute)

lemma oid_at_fresh:
  assumes m: "m < 2 ^ 24"
  shows "oid_at now g m \<notin> set (map fst (created now g d m))"
proof
  assume "oid_at now g m \<in> set (map fst (created now g d m))"
  then obtain j where j: "j < m" and eq: "oid_at now g j = oid_at now g m"
    by (auto simp: created_def)
  have "j < 2 ^ 24" using j m by (rule less_trans)
  from oid_at_inj [OF this m eq] have "j = m" .
  with j show False by simp
qed

lemma replicate_snoc: "replicate (Suc n) x = replicate n x @ [x]"
  by (simp add: replicate_append_same)

lemma app_gen_other:
  "\<forall>body. rq \<noteq> Post_books body \<Longrightarrow>
   app_gen now rq (g, c) = (fst (app x rq c), g, snd (app x rq c))"
  by (cases rq) (simp_all add: app_gen_def app_def case_prod_beta)

subsection \<open>Creates within one second\<close>

lemma run_creates:
  assumes now: "now < 2 ^ 32" and p: "parse_BookModel body = Inr b"
  shows "m + n \<le> 2 ^ 24 \<Longrightarrow>
    run_gen (replicate n (now, Post_books body))
      (g\<lparr>inc := inc g + word_of_nat m\<rparr>, created now g (BookModel_dict_exclude_id b) m)
    = (map (\<lambda>j. respond 201 BookModel_json (Inr (to_BookModel (oid_at now g j, BookModel_dict_exclude_id b)))) [m..<m + n],
       g\<lparr>inc := inc g + word_of_nat (m + n)\<rparr>, created now g (BookModel_dict_exclude_id b) (m + n))"
proof (induction n arbitrary: m)
  case 0
  then show ?case by simp
next
  case (Suc n)
  let ?d = "BookModel_dict_exclude_id b"
  let ?g = "g\<lparr>inc := inc g + word_of_nat m\<rparr>"
  have m: "m < 2 ^ 24" using Suc.prems by simp
  have gen: "generate now ?g = (Inr (oid_at now g m), g\<lparr>inc := inc g + word_of_nat (Suc m)\<rparr>)"
    using generate_ok [OF now, of ?g] oid_at_shift [of now g m 0] gen_advance [of g m] by simp
  have cr: "create_book (oid_at now g m) b (created now g ?d m)
      = (Inr (to_BookModel (oid_at now g m, ?d)), created now g ?d (Suc m))"
    using create_book_fresh [OF oid_at_fresh [OF m]] by (simp add: created_Suc)
  have step: "app_gen now (Post_books body) (?g, created now g ?d m)
      = (respond 201 BookModel_json (Inr (to_BookModel (oid_at now g m, ?d))),
         g\<lparr>inc := inc g + word_of_nat (Suc m)\<rparr>, created now g ?d (Suc m))"
    by (simp add: app_gen_def p gen cr)
  have ih: "run_gen (replicate n (now, Post_books body))
      (g\<lparr>inc := inc g + word_of_nat (Suc m)\<rparr>, created now g ?d (Suc m))
    = (map (\<lambda>j. respond 201 BookModel_json (Inr (to_BookModel (oid_at now g j, ?d)))) [Suc m..<Suc m + n],
       g\<lparr>inc := inc g + word_of_nat (Suc m + n)\<rparr>, created now g ?d (Suc m + n))"
    using Suc.prems by (intro Suc.IH) simp
  show ?case by (simp only: replicate_Suc run_gen.simps step ih prod.case) (simp add: upt_conv_Cons del: upt_Suc)
qed

text \<open>The \<open>2^24 + 1\<close>-th create of a second reuses the first id.\<close>

lemma run_creates_wrap:
  assumes now: "now < 2 ^ 32" and p: "parse_BookModel body = Inr b" and n: "n = 2 ^ 24"
  shows "fst (run_gen (replicate (Suc n) (now, Post_books body)) (g, [])) ! n
         = error_response DuplicateKeyError"
proof -
  let ?d = "BookModel_dict_exclude_id b"
  let ?x = "(now, Post_books body)"
  let ?g = "g\<lparr>inc := inc g + word_of_nat n\<rparr>"
  have le: "0 + n \<le> 2 ^ 24" using n by simp
  have first: "run_gen (replicate n ?x) (g, [])
      = (map (\<lambda>j. respond 201 BookModel_json (Inr (to_BookModel (oid_at now g j, ?d)))) [0..<n],
         ?g, created now g ?d n)"
    using run_creates [OF now p le, of g] by (simp add: created_def)
  have same: "oid_at now g n = oid_at now g 0"
    using oid_at_wrap [of now g 0] n by simp
  have gen: "generate now ?g = (Inr (oid_at now g 0), ?g\<lparr>inc := inc ?g + 1\<rparr>)"
    using generate_ok [OF now, of ?g] oid_at_shift [of now g n 0] same by simp
  have pos: "0 < n" using n by simp
  have mem: "oid_at now g 0 \<in> set (map fst (created now g ?d n))"
    using pos by (auto simp: created_def)
  have last: "app_gen now (Post_books body) (?g, created now g ?d n)
      = (error_response DuplicateKeyError, ?g\<lparr>inc := inc ?g + 1\<rparr>, created now g ?d n)"
    by (simp add: app_gen_def p gen create_book_dup [OF mem] respond_def)
  show ?thesis
    by (simp only: replicate_snoc run_gen_append first prod.case run_gen.simps last)
       (simp add: nth_append)
qed


subsection \<open>The driver's ids in the server\<close>

text \<open>C20: within one second, up to \<open>2^24\<close> creates of a valid body all succeed
  with 201 and store that many documents: the 24-bit counter keeps the ids of one
  second apart until it wraps.\<close>

theorem creates_within_window:
  assumes now: "now < 2 ^ 32" and p: "parse_BookModel body = Inr b" and n: "n \<le> 2 ^ 24"
  shows "map status_code (fst (run_gen (replicate n (now, Post_books body)) (g, []))) = replicate n 201
         \<and> length (snd (snd (run_gen (replicate n (now, Post_books body)) (g, [])))) = n"
proof -
  have le: "0 + n \<le> 2 ^ 24" using n by simp
  show ?thesis using run_creates [OF now p le, of g]
    by (simp add: created_def respond_def comp_def map_replicate_const)
qed

theorem creates_within_window_witness:
  "(1700000000::nat) < 2 ^ 32
   \<and> parse_BookModel (JObj [(''title'', JStr ''Dune''), (''author'', JStr ''Frank Herbert''), (''category'', JStr ''SF'')])
       = Inr \<lparr>title = ''Dune'', author = ''Frank Herbert'', category = ''SF'', book_id = None\<rparr>
   \<and> (2::nat) \<le> 2 ^ 24
   \<and> map status_code (fst (run_gen (replicate 2 (1700000000, Post_books (JObj [(''title'', JStr ''Dune''), (''author'', JStr ''Frank Herbert''), (''category'', JStr ''SF'')])))
                          (\<lparr>inc = 7, rand_bytes = [1, 2, 3, 4, 5]\<rparr>, []))) = replicate 2 201"
proof -
  have p: "parse_BookModel (JObj [(''title'', JStr ''Dune''), (''author'', JStr ''Frank Herbert''), (''category'', JStr ''SF'')])
       = Inr \<lparr>title = ''Dune'', author = ''Frank Herbert'', category = ''SF'', book_id = None\<rparr>"
    by (simp add: parse_BookModel_def member_def req_str_def opt_str_def str_validator_def)
  show ?thesis using creates_within_window [OF _ p, of 1700000000 2] p by simp
qed

text \<open>C21: the \<open>2^24 + 1\<close>-th create within one second gets the id of the first
  (the counter has wrapped), and, that book being stored, fails with the duplicate-key
  error: HTTP 500.  The spec's "every persisted Book has a unique id" rests on fewer
  than \<open>2^24\<close> inserts per second and process.\<close>

theorem create_counter_wrap:
  assumes now: "now < 2 ^ 32" and p: "parse_BookModel body = Inr b"
  shows "fst (run_gen (replicate (2 ^ 24 + 1) (now, Post_books body)) (g, [])) ! (2 ^ 24)
         = \<lparr>status_code = 500, content = JStr ''Internal Server Error''\<rparr>"
proof -
  have e: "error_response DuplicateKeyError = \<lparr>status_code = 500, content = JStr ''Internal Server Error''\<rparr>"
    by (simp add: error_response_def)
  show ?thesis using run_creates_wrap [OF now p refl, of g] unfolding e Suc_eq_plus1 .
qed

theorem create_counter_wrap_witness:
  "(1700000000::nat) < 2 ^ 32
   \<and> parse_BookModel (JObj [(''title'', JStr ''Dune''), (''author'', JStr ''Frank Herbert''), (''category'', JStr ''SF'')])
       = Inr \<lparr>title = ''Dune'', author = ''Frank Herbert'', category = ''SF'', book_id = None\<rparr>
   \<and> fst (run_gen (replicate (2 ^ 24 + 1) (1700000000, Post_books (JObj [(''title'', JStr ''Dune''), (''author'', JStr ''Frank Herbert''), (''category'', JStr ''SF'')])))
          (\<lparr>inc = 7, rand_bytes = [1, 2, 3, 4, 5]\<rparr>, [])) ! (2 ^ 24)
       = \<lparr>status_code = 500, content = JStr ''Internal Server Error''\<rparr>"
proof -
  have t: "(1700000000::nat) < 2 ^ 32" by simp
  have p: "parse_BookModel (JObj [(''title'', JStr ''Dune''), (''author'', JStr ''Frank Herbert''), (''category'', JStr ''SF'')])
       = Inr \<lparr>title = ''Dune'', author = ''Frank Herbert'', category = ''SF'', book_id = None\<rparr>"
    by (simp add: parse_BookModel_def member_def req_str_def opt_str_def str_validator_def)
  from t p create_counter_wrap [OF t p, of "\<lparr>inc = 7, rand_bytes = [1, 2, 3, 4, 5]\<rparr>"]
  show ?thesis by (intro conjI)
qed

text \<open>C22: from \<open>2^32\<close> seconds on (February 2106) \<open>struct.pack(">I", ...)\<close> raises
  inside \<open>ObjectId()\<close>: every create with a valid body fails with 500 and stores
  nothing, while the counter still advances.\<close>

theorem create_time_overflow:
  "\<not> now < 2 ^ 32 \<Longrightarrow> parse_BookModel body = Inr b \<Longrightarrow>
   app_gen now (Post_books body) (g, c)
   = (\<lparr>status_code = 500, content = JStr ''Internal Server Error''\<rparr>, g\<lparr>inc := inc g + 1\<rparr>, c)"
  by (simp add: app_gen_def generate_overflow error_response_def)

theorem create_time_overflow_witness:
  "\<not> (4294967296::nat) < 2 ^ 32
   \<and> parse_BookModel (JObj [(''title'', JStr ''Dune''), (''author'', JStr ''Frank Herbert''), (''category'', JStr ''SF'')])
       = Inr \<lparr>title = ''Dune'', author = ''Frank Herbert'', category = ''SF'', book_id = None\<rparr>
   \<and> app_gen 4294967296 (Post_books (JObj [(''title'', JStr ''Dune''), (''author'', JStr ''Frank Herbert''), (''category'', JStr ''SF'')]))
       (\<lparr>inc = 7, rand_bytes = [1, 2, 3, 4, 5]\<rparr>, [])
     = (\<lparr>status_code = 500, content = JStr ''Internal Server Error''\<rparr>, \<lparr>inc = 8, rand_bytes = [1, 2, 3, 4, 5]\<rparr>, [])"
proof -
  have t: "\<not> (4294967296::nat) < 2 ^ 32" by simp
  have p: "parse_BookModel (JObj [(''title'', JStr ''Dune''), (''author'', JStr ''Frank Herbert''), (''category'', JStr ''SF'')])
       = Inr \<lparr>title = ''Dune'', author = ''Frank Herbert'', category = ''SF'', book_id = None\<rparr>"
    by (simp add: parse_BookModel_def member_def req_str_def opt_str_def str_validator_def)
  show ?thesis using create_time_overflow [OF t p, of "\<lparr>inc = 7, rand_bytes = [1, 2, 3, 4, 5]\<rparr>" "[]"] t p by simp
qed

end
