(* ===== verification/Interface.thy ===== *)
theory Interface
  imports Server
begin

text \<open>
  The HTTP surface the spec promises (spec section 6): for each route, the statuses
  it may answer and the JSON shape of each.  A Book is
  \<open>{"_id": <24 hex digits>, "title": string, "author": string, "category": string}\<close>
  in that order (FastAPI serialises the response model field by field, by alias); an
  HTTP error carries \<open>{"detail": string}\<close>; a body that fails validation gets 422
  with \<open>{"detail": [...]}\<close> (spec section 7).  The shapes are predicates on
  \<open>json\<close>, so a response can be checked by evaluation.
\<close>

definition is_book_json :: "json \<Rightarrow> bool" where
  "is_book_json j =
     (case j of
        JObj [(k1, JStr i), (k2, JStr _), (k3, JStr _), (k4, JStr _)] \<Rightarrow>
          k1 = ''_id'' \<and> k2 = ''title'' \<and> k3 = ''author'' \<and> k4 = ''category'' \<and> is_valid i
      | _ \<Rightarrow> False)"

definition is_message_json :: "json \<Rightarrow> bool" where
  "is_message_json j = (case j of JObj [(k, JStr _)] \<Rightarrow> k = ''message'' | _ \<Rightarrow> False)"

definition is_detail_json :: "json \<Rightarrow> bool" where
  "is_detail_json j = (case j of JObj [(k, JStr _)] \<Rightarrow> k = ''detail'' | _ \<Rightarrow> False)"

definition is_validation_json :: "json \<Rightarrow> bool" where
  "is_validation_json j = (case j of JObj [(k, JArr _)] \<Rightarrow> k = ''detail'' | _ \<Rightarrow> False)"

text \<open>A route that answers one Book: the Book, or 400 or 404 with a detail.\<close>

definition book_reply :: "response \<Rightarrow> bool" where
  "book_reply r =
     ((status_code r = 200 \<and> is_book_json (content r))
      \<or> ((status_code r = 400 \<or> status_code r = 404) \<and> is_detail_json (content r)))"

text \<open>The table of spec section 6, with the 422 of spec section 7 on the routes that
  take a body.\<close>

definition route_conforms :: "request \<Rightarrow> response \<Rightarrow> bool" where
  "route_conforms rq r =
     (let s = status_code r; j = content r in
      case rq of
        Get_root \<Rightarrow> s = 200 \<and> is_message_json j
      | Post_books _ \<Rightarrow> (s = 201 \<and> is_book_json j) \<or> (s = 422 \<and> is_validation_json j)
      | Get_books _ _ _ \<Rightarrow> s = 200 \<and> (case j of JArr bs \<Rightarrow> list_all is_book_json bs | _ \<Rightarrow> False)
      | Get_book _ \<Rightarrow> book_reply r
      | Put_book _ _ \<Rightarrow> book_reply r \<or> (s = 422 \<and> is_validation_json j)
      | Delete_book _ \<Rightarrow> (s = 200 \<and> is_message_json j) \<or> ((s = 400 \<or> s = 404) \<and> is_detail_json j))"

subsection \<open>Shapes of the values the handlers return\<close>

lemma is_book_json_stored [simp]: "oid_wf i \<Longrightarrow> is_book_json (BookModel_json (to_BookModel (i, d)))"
  by (simp add: is_book_json_def BookModel_json_def to_BookModel_def json_opt_str_def)

lemma is_detail_json_error [simp]: "is_detail_json (content (error_response (HTTPException n m)))"
  by (simp add: is_detail_json_def error_response_def)

lemma is_validation_json_error [simp]: "is_validation_json (content (error_response RequestValidationError))"
  by (simp add: is_validation_json_def error_response_def)

lemma status_error [simp]: "status_code (error_response (HTTPException n m)) = n"
  by (simp add: error_response_def)

lemma status_validation [simp]: "status_code (error_response RequestValidationError) = 422"
  by (simp add: error_response_def)

lemma message_jsons [simp]: "is_message_json root" "is_message_json msg_deleted"
  by (simp_all add: is_message_json_def root_def msg_deleted_def)

text \<open>A book a handler answers is a stored document, or the one just stored, under a
  well-formed id.\<close>

lemma get_book_Inr: "fst (get_book s c) = Inr b \<Longrightarrow> \<exists>i d. oid_wf i \<and> b = to_BookModel (i, d)"
  by (cases "ObjectId_of_str s")
    (auto simp: get_book_oid get_book_invalid is_valid_ObjectId_of_str
      dest: ObjectId_of_str_wf split: option.splits)

lemma update_book_Inr:
  assumes inv: "coll_inv c" and r: "fst (update_book s u c) = Inr b"
  shows "\<exists>i d. oid_wf i \<and> b = to_BookModel (i, d)"
proof (cases "ObjectId_of_str s")
  case None
  then have "\<not> is_valid s" by (simp add: is_valid_ObjectId_of_str)
  with r show ?thesis by (simp add: update_book_def)
next
  case (Some oid)
  with r show ?thesis
    by (auto simp: update_book_oid [OF inv Some] dest: ObjectId_of_str_wf split: option.splits)
qed

lemma respond_book:
  "(\<And>b. r = Inr b \<Longrightarrow> \<exists>i d. oid_wf i \<and> b = to_BookModel (i, d)) \<Longrightarrow>
   (\<And>e. r = Inl e \<Longrightarrow> e \<in> {HTTPException 400 msg_invalid_id, HTTPException 404 msg_not_found}) \<Longrightarrow>
   book_reply (respond 200 BookModel_json r)"
  by (cases r) (auto simp: respond_def book_reply_def)

lemma delete_book_Inr: "fst (delete_book s c) = Inr v \<Longrightarrow> v = msg_deleted"
  by (auto simp: delete_book_def split: option.splits prod.splits if_splits)

lemma list_books_conform:
  assumes inv: "coll_inv c"
  shows "list_all is_book_json (map BookModel_json (map to_BookModel (find q c)))"
proof -
  have "oid_wf i" if "(i, d) \<in> set (find q c)" for i d
    using that inv by (auto simp: set_find dest: coll_inv_wf)
  then show ?thesis by (auto simp: list_all_iff)
qed

lemma get_book_reply: "book_reply (respond 200 BookModel_json (fst (get_book i c)))"
proof (rule respond_book)
  show "\<And>b. fst (get_book i c) = Inr b \<Longrightarrow> \<exists>x d. oid_wf x \<and> b = to_BookModel (x, d)"
    by (rule get_book_Inr)
qed (rule get_book_http_error)

lemma update_book_reply:
  assumes inv: "coll_inv c"
  shows "book_reply (respond 200 BookModel_json (fst (update_book i u c)))"
proof (rule respond_book)
  show "\<And>b. fst (update_book i u c) = Inr b \<Longrightarrow> \<exists>x d. oid_wf x \<and> b = to_BookModel (x, d)"
    by (rule update_book_Inr [OF inv])
qed (rule update_book_http_error [OF inv])

lemma delete_book_conforms: "route_conforms (Delete_book i) (respond 200 id (fst (delete_book i c)))"
proof (cases "fst (delete_book i c)")
  case (Inl e)
  with delete_book_http_error [OF Inl] show ?thesis
    by (auto simp: route_conforms_def respond_def)
next
  case (Inr v)
  with delete_book_Inr [OF Inr] show ?thesis
    by (simp add: route_conforms_def respond_def)
qed

subsection \<open>Every response fits the table\<close>

text \<open>C23: on a collection with distinct well-formed ids, a fresh generated id and
  search patterns that compile, every request is answered with a status the spec's table allows for its route, and
  the body has the shape that status promises: a Book, a list of Books, a message,
  an error detail, or a validation error.\<close>

theorem app_conforms:
  assumes inv: "coll_inv c" and wf: "oid_wf new_id" and fresh: "new_id \<notin> set (map fst c)"
    and ok: "search_ok rq"
  shows "route_conforms rq (fst (app new_id rq c))"
proof (cases rq)
  case Get_root
  then show ?thesis by (simp add: app_def route_conforms_def)
next
  case (Post_books body)
  then show ?thesis using parse_BookModel_error [of body] wf fresh
    by (auto simp: app_def route_conforms_def create_book_fresh respond_def split: sum.split)
next
  case (Get_books t a cat)
  with ok show ?thesis using list_books_conform [OF inv]
    by (simp add: app_def route_conforms_def list_books_def respond_def search_ok_def find_cursor_def)
next
  case (Get_book i)
  then show ?thesis using get_book_reply [of i c]
    by (simp add: app_def route_conforms_def case_prod_beta)
next
  case (Put_book i body)
  then show ?thesis using update_book_reply [OF inv] parse_UpdateBookModel_error [of body]
    by (auto simp: app_def route_conforms_def case_prod_beta split: sum.split)
next
  case (Delete_book i)
  then show ?thesis using delete_book_conforms [of i c]
    by (simp add: app_def case_prod_beta)
qed

theorem app_conforms_witness:
  "coll_inv [] \<and> oid_wf (ObjectId [1, 2, 3, 4, 5, 6, 7, 8, 9, 10, 11, 12])
   \<and> ObjectId [1, 2, 3, 4, 5, 6, 7, 8, 9, 10, 11, 12] \<notin> set (map fst ([] :: collection))
   \<and> search_ok (Get_book ''not-a-valid-id'')
   \<and> route_conforms (Get_book ''not-a-valid-id'') (fst (app (ObjectId [1, 2, 3, 4, 5, 6, 7, 8, 9, 10, 11, 12]) (Get_book ''not-a-valid-id'') []))"
proof -
  have i: "coll_inv []" by (simp add: coll_inv_def)
  have w: "oid_wf (ObjectId [1, 2, 3, 4, 5, 6, 7, 8, 9, 10, 11, 12])" by (simp add: oid_wf_def)
  have f: "ObjectId [1, 2, 3, 4, 5, 6, 7, 8, 9, 10, 11, 12] \<notin> set (map fst ([] :: collection))" by simp
  have ok: "search_ok (Get_book ''not-a-valid-id'')" by (simp add: search_ok_def)
  show ?thesis using app_conforms [OF i w f ok] i w f ok by simp
qed

end
