(* ===== verification/Tests.thy ===== *)
theory Tests
  imports Server
begin

text \<open>
  The repository's own checks, stated on the model: the test of test_main.py, which
  drives the app through Starlette's \<open>TestClient\<close>, and the request example that
  models.py publishes in the OpenAPI schema (\<open>Config.schema_extra\<close>).  The test
  client talks to whatever the database holds, so the test is a predicate on the
  collection.  Non-ASCII text is its UTF-8 bytes, as in the handlers.
\<close>

definition test_read_main :: "collection \<Rightarrow> bool" where
  "test_read_main c =
     (let response = fst (app (ObjectId []) Get_root c) in
      status_code response = 200 \<and>
      content response = JObj [(''message'', JStr (''Bienvenue sur l'' @ [CHR 0x27] @ ''API de la Biblioth'' @ e_grave @ ''que''))])"

text \<open>\<open>schema_extra = {"example": {...}}\<close> of \<open>BookModel\<close>.\<close>

definition BookModel_schema_example :: json where
  "BookModel_schema_example =
     JObj [(''title'', JStr ''Le Petit Prince''), (''author'', JStr (''Antoine de Saint-Exup'' @ e_acute @ ''ry'')),
           (''category'', JStr ''Roman'')]"

lemma parse_schema_example:
  "parse_BookModel BookModel_schema_example
   = Inr \<lparr>title = ''Le Petit Prince'', author = ''Antoine de Saint-Exup'' @ e_acute @ ''ry'',
          category = ''Roman'', book_id = None\<rparr>"
  by (simp add: parse_BookModel_def BookModel_schema_example_def member_def req_str_def opt_str_def str_validator_def)

text \<open>\<open>test_read_main\<close> passes whatever the collection holds: \<open>GET /\<close> answers
  200 with the welcome message, and touches no data.\<close>

theorem test_read_main_passes: "test_read_main c \<and> snd (app (ObjectId []) Get_root c) = c"
  by (simp add: test_read_main_def app_def root_def)

text \<open>C25: the example body that models.py documents is a valid create request:
  with a fresh id it is answered 201 with the example's fields and the new id as a
  string, and it is stored without an \<open>id\<close>.\<close>

theorem schema_example_created:
  "new_id \<notin> set (map fst c) \<Longrightarrow>
   app new_id (Post_books BookModel_schema_example) c
   = (\<lparr>status_code = 201,
       content = JObj [(''_id'', JStr (str_oid new_id)), (''title'', JStr ''Le Petit Prince''),
                       (''author'', JStr (''Antoine de Saint-Exup'' @ e_acute @ ''ry'')),
                       (''category'', JStr ''Roman'')]\<rparr>,
      c @ [(new_id, \<lparr>title = ''Le Petit Prince'', author = ''Antoine de Saint-Exup'' @ e_acute @ ''ry'',
                     category = ''Roman''\<rparr>)])"
  by (simp add: app_def parse_schema_example create_book_fresh respond_def BookModel_json_def
      to_BookModel_def json_opt_str_def BookModel_dict_exclude_id_def Book.truncate_def)

theorem schema_example_created_witness:
  "ObjectId [1, 2, 3, 4, 5, 6, 7, 8, 9, 10, 11, 12] \<notin> set (map fst ([] :: collection))
   \<and> app (ObjectId [1, 2, 3, 4, 5, 6, 7, 8, 9, 10, 11, 12]) (Post_books BookModel_schema_example) []
     = (\<lparr>status_code = 201,
         content = JObj [(''_id'', JStr (str_oid (ObjectId [1, 2, 3, 4, 5, 6, 7, 8, 9, 10, 11, 12]))),
                         (''title'', JStr ''Le Petit Prince''),
                         (''author'', JStr (''Antoine de Saint-Exup'' @ e_acute @ ''ry'')),
                         (''category'', JStr ''Roman'')]\<rparr>,
        [(ObjectId [1, 2, 3, 4, 5, 6, 7, 8, 9, 10, 11, 12],
          \<lparr>title = ''Le Petit Prince'', author = ''Antoine de Saint-Exup'' @ e_acute @ ''ry'',
           category = ''Roman''\<rparr>)])"
  using schema_example_created [of "ObjectId [1, 2, 3, 4, 5, 6, 7, 8, 9, 10, 11, 12]" "[]"] by simp

end
