(* ===== verification/Middleware.thy ===== *)
theory Middleware
  imports Server "HOL-Library.List_Lexorder" "HOL-Library.Char_ord"
begin

text \<open>
  The middleware stack a request crosses before and after its handler.  FastAPI
  builds Starlette's stack as \<open>ServerErrorMiddleware\<close> (outermost: any exception
  that escapes becomes a plain 500), then the user middleware, here the
  \<open>CORSMiddleware\<close> that main.py adds (lines 11--17), then \<open>ExceptionMiddleware\<close>
  (innermost: \<open>HTTPException\<close> and \<open>RequestValidationError\<close> become their JSON
  responses), then the router.  \<open>endpoint\<close> is the routed handler before any of
  them, its outcome an escaped exception or a response; \<open>app\<close> of \<open>Server\<close> is this
  stack without CORS (lemma \<open>app_layers\<close>).

  \<open>CORSMiddleware\<close> (starlette/middleware/cors.py, a library) is modelled from its
  code: \<open>cors_init\<close> is its constructor, which precomputes the header sets from the
  configuration; \<open>cors_call\<close> its \<open>__call__\<close>, which passes a request with no
  \<open>Origin\<close> through, answers a preflight (an \<open>OPTIONS\<close> request with
  \<open>Access-Control-Request-Method\<close>) itself with \<open>preflight_response\<close>, and
  otherwise adds \<open>simple_headers\<close> to the response when it starts
  (\<open>cors_send\<close>).  An exception that escapes the handler never starts a response,
  so it crosses the CORS layer untouched.  Header names are lower case, as ASGI
  delivers them and as \<open>MutableHeaders\<close> stores them; only the headers the CORS
  layer reads or writes are modelled.  \<open>allow_origin_regex\<close>, which main.py does
  not pass, is not modelled.
\<close>

type_synonym headers = "(string \<times> string) list"

record cors_cfg =
  allow_origins :: "string list"
  allow_methods :: "string list"
  allow_headers :: "string list"
  allow_credentials :: bool
  expose_headers :: "string list"
  max_age :: nat

text \<open>\<open>app.add_middleware(CORSMiddleware, allow_origins=["*"],
  allow_credentials=True, allow_methods=["*"], allow_headers=["*"])\<close>; the other
  parameters keep their defaults.\<close>

definition main_cors :: cors_cfg where
  "main_cors =
     \<lparr>allow_origins = [''*''], allow_methods = [''*''], allow_headers = [''*''],
      allow_credentials = True, expose_headers = [], max_age = 600\<rparr>"

definition ALL_METHODS :: "string list" where
  "ALL_METHODS = [''DELETE'', ''GET'', ''HEAD'', ''OPTIONS'', ''PATCH'', ''POST'', ''PUT'']"

definition SAFELISTED_HEADERS :: "string list" where
  "SAFELISTED_HEADERS = [''Accept'', ''Accept-Language'', ''Content-Language'', ''Content-Type'']"

subsection \<open>Strings and headers\<close>

text \<open>\<open>sep.join(xs)\<close>.\<close>

fun join_str :: "string \<Rightarrow> string list \<Rightarrow> string" where
  "join_str sep [] = []"
| "join_str sep [x] = x"
| "join_str sep (x # y # xs) = x @ sep @ join_str sep (y # xs)"

text \<open>\<open>s.split(d)\<close>: always at least one piece.\<close>

fun split_on :: "char \<Rightarrow> string \<Rightarrow> string list" where
  "split_on d [] = [[]]"
| "split_on d (c # cs) = (let ws = split_on d cs in if c = d then [] # ws else (c # hd ws) # tl ws)"

text \<open>Header values are decoded as Latin-1; \<open>str.isspace\<close> and \<open>str.lower\<close> on
  those characters.\<close>

definition py_space :: "char \<Rightarrow> bool" where
  "py_space c = (let n = (of_char c :: nat) in (9 \<le> n \<and> n \<le> 13) \<or> (28 \<le> n \<and> n \<le> 32) \<or> n = 133 \<or> n = 160)"

definition py_strip :: "string \<Rightarrow> string" where
  "py_strip s = rev (dropWhile py_space (rev (dropWhile py_space s)))"

definition latin1_lower :: "char \<Rightarrow> char" where
  "latin1_lower c =
     (let n = (of_char c :: nat) in
      if (65 \<le> n \<and> n \<le> 90) \<or> (192 \<le> n \<and> n \<le> 222 \<and> n \<noteq> 215) then char_of (n + 32) else c)"

text \<open>\<open>headers[k] = v\<close> on \<open>MutableHeaders\<close> (and on a dict without duplicate
  keys): the first entry of \<open>k\<close> takes the value, later ones are dropped, and a
  new key goes last.\<close>

fun hset :: "string \<Rightarrow> string \<Rightarrow> headers \<Rightarrow> headers" where
  "hset k v [] = [(k, v)]"
| "hset k v ((k', v') # hs) =
     (if k' = k then (k, v) # filter (\<lambda>(a, _). a \<noteq> k) hs else (k', v') # hset k v hs)"

text \<open>\<open>headers.update(other)\<close>.\<close>

definition hupdate :: "headers \<Rightarrow> headers \<Rightarrow> headers" where
  "hupdate hs other = foldl (\<lambda>acc (k, v). hset k v acc) hs other"

text \<open>\<open>MutableHeaders.add_vary_header\<close>.\<close>

definition add_vary_header :: "string \<Rightarrow> headers \<Rightarrow> headers" where
  "add_vary_header v hs = hset ''vary'' (case map_of hs ''vary'' of None \<Rightarrow> v | Some e \<Rightarrow> e @ '', '' @ v) hs"

subsection \<open>CORSMiddleware\<close>

text \<open>The attributes \<open>__init__\<close> sets.\<close>

record cors_mw =
  mw_allow_origins :: "string list"
  mw_allow_methods :: "string list"
  mw_allow_headers :: "string list"
  allow_all_origins :: bool
  allow_all_headers :: bool
  preflight_explicit_allow_origin :: bool
  simple_headers :: headers
  preflight_headers :: headers

definition cors_init :: "cors_cfg \<Rightarrow> cors_mw" where
  "cors_init cfg =
     (let methods = (if ''*'' \<in> set (allow_methods cfg) then ALL_METHODS else allow_methods cfg);
          all_o = (''*'' \<in> set (allow_origins cfg));
          all_h = (''*'' \<in> set (allow_headers cfg));
          explicit = (\<not> all_o \<or> allow_credentials cfg);
          simple =
            (if all_o then [(''access-control-allow-origin'', ''*'')] else [])
            @ (if allow_credentials cfg then [(''access-control-allow-credentials'', ''true'')] else [])
            @ (if expose_headers cfg \<noteq> [] then
                 [(''access-control-expose-headers'', join_str '', '' (expose_headers cfg))] else []);
          hdrs = sort (remdups (SAFELISTED_HEADERS @ allow_headers cfg));
          pre =
            (if explicit then [(''vary'', ''Origin'')] else [(''access-control-allow-origin'', ''*'')])
            @ [(''access-control-allow-methods'', join_str '', '' methods),
               (''access-control-max-age'', nat_str (max_age cfg))]
            @ (if hdrs \<noteq> [] \<and> \<not> all_h then [(''access-control-allow-headers'', join_str '', '' hdrs)] else [])
            @ (if allow_credentials cfg then [(''access-control-allow-credentials'', ''true'')] else [])
      in \<lparr>mw_allow_origins = allow_origins cfg, mw_allow_methods = methods,
          mw_allow_headers = map (map latin1_lower) hdrs, allow_all_origins = all_o,
          allow_all_headers = all_h, preflight_explicit_allow_origin = explicit,
          simple_headers = simple, preflight_headers = pre\<rparr>)"

definition is_allowed_origin :: "cors_mw \<Rightarrow> string \<Rightarrow> bool" where
  "is_allowed_origin m origin = (allow_all_origins m \<or> origin \<in> set (mw_allow_origins m))"

text \<open>\<open>preflight_response\<close>: the origin, method and headers asked for are
  checked, and the failures listed in a 400; the answer never reaches the app.\<close>

definition preflight_response :: "cors_mw \<Rightarrow> string \<Rightarrow> string \<Rightarrow> headers \<Rightarrow> response \<times> headers" where
  "preflight_response m origin requested_method rh =
     (let requested_headers = map_of rh ''access-control-request-headers'';
          origin_ok = is_allowed_origin m origin;
          h1 = (if origin_ok \<and> preflight_explicit_allow_origin m
                then hset ''access-control-allow-origin'' origin (preflight_headers m)
                else preflight_headers m);
          h2 = (case requested_headers of
                  Some r \<Rightarrow> if allow_all_headers m then hset ''access-control-allow-headers'' r h1 else h1
                | None \<Rightarrow> h1);
          headers_bad = (case requested_headers of
                  Some r \<Rightarrow> \<not> allow_all_headers m \<and>
                    \<not> list_all (\<lambda>h. py_strip h \<in> set (mw_allow_headers m)) (map (map latin1_lower) (split_on CHR '','' r))
                | None \<Rightarrow> False);
          failures = (if origin_ok then [] else [''origin''])
                     @ (if requested_method \<in> set (mw_allow_methods m) then [] else [''method''])
                     @ (if headers_bad then [''headers''] else [])
      in if failures \<noteq> []
         then (\<lparr>status_code = 400, content = JStr (''Disallowed CORS '' @ join_str '', '' failures)\<rparr>, h2)
         else (\<lparr>status_code = 200, content = JStr ''OK''\<rparr>, h2))"

definition allow_explicit_origin :: "string \<Rightarrow> headers \<Rightarrow> headers" where
  "allow_explicit_origin origin hs = add_vary_header ''Origin'' (hset ''access-control-allow-origin'' origin hs)"

text \<open>\<open>send\<close> on \<open>http.response.start\<close>: the simple headers, and the requesting
  origin itself where \<open>*\<close> would not do (a request with cookies) or is not
  configured.\<close>

definition cors_send :: "cors_mw \<Rightarrow> string \<Rightarrow> headers \<Rightarrow> headers \<Rightarrow> headers" where
  "cors_send m origin rh hs =
     (let hs1 = hupdate hs (simple_headers m);
          has_cookie = (''cookie'' \<in> set (map fst rh)) in
      if allow_all_origins m \<and> has_cookie then allow_explicit_origin origin hs1
      else if \<not> allow_all_origins m \<and> is_allowed_origin m origin then allow_explicit_origin origin hs1
      else hs1)"

definition simple_response ::
  "cors_mw \<Rightarrow> string \<Rightarrow> headers \<Rightarrow> ('s \<Rightarrow> (py_error + response) \<times> 's) \<Rightarrow> 's \<Rightarrow> (py_error + response \<times> headers) \<times> 's" where
  "simple_response m origin rh inner s =
     (case inner s of
        (Inl e, s') \<Rightarrow> (Inl e, s')
      | (Inr r, s') \<Rightarrow> (Inr (r, cors_send m origin rh []), s'))"

definition cors_call ::
  "cors_mw \<Rightarrow> string \<Rightarrow> headers \<Rightarrow> ('s \<Rightarrow> (py_error + response) \<times> 's) \<Rightarrow> 's \<Rightarrow> (py_error + response \<times> headers) \<times> 's" where
  "cors_call m method rh inner s =
     (case map_of rh ''origin'' of
        None \<Rightarrow> (case inner s of (Inl e, s') \<Rightarrow> (Inl e, s') | (Inr r, s') \<Rightarrow> (Inr (r, []), s'))
      | Some origin \<Rightarrow>
          (case map_of rh ''access-control-request-method'' of
             Some rm \<Rightarrow>
               if method = ''OPTIONS'' then (Inr (preflight_response m origin rm rh), s)
               else simple_response m origin rh inner s
           | None \<Rightarrow> simple_response m origin rh inner s))"

subsection \<open>The stack\<close>

text \<open>A request to a route of main.py, or an \<open>OPTIONS\<close> request to one of its
  paths, which no route accepts: the router raises \<open>HTTPException(405)\<close>.\<close>

datatype http_call = Call request | Options

definition call_method :: "http_call \<Rightarrow> string" where
  "call_method hc =
     (case hc of
        Call Get_root \<Rightarrow> ''GET''
      | Call (Post_books _) \<Rightarrow> ''POST''
      | Call (Get_books _ _ _) \<Rightarrow> ''GET''
      | Call (Get_book _) \<Rightarrow> ''GET''
      | Call (Put_book _ _) \<Rightarrow> ''PUT''
      | Call (Delete_book _) \<Rightarrow> ''DELETE''
      | Options \<Rightarrow> ''OPTIONS'')"

text \<open>The handler's return value serialised by its response model, or the
  exception it raised.\<close>

definition raise_or :: "nat \<Rightarrow> ('a \<Rightarrow> json) \<Rightarrow> 'a result \<Rightarrow> py_error + response" where
  "raise_or ok ser r = (case r of Inl e \<Rightarrow> Inl e | Inr v \<Rightarrow> Inr \<lparr>status_code = ok, content = ser v\<rparr>)"

definition endpoint :: "ObjectId \<Rightarrow> http_call \<Rightarrow> collection \<Rightarrow> (py_error + response) \<times> collection" where
  "endpoint new_id hc c =
     (case hc of
        Options \<Rightarrow> (Inl (HTTPException 405 ''Method Not Allowed''), c)
      | Call Get_root \<Rightarrow> (Inr \<lparr>status_code = 200, content = root\<rparr>, c)
      | Call (Post_books body) \<Rightarrow>
          (case parse_BookModel body of
             Inl e \<Rightarrow> (Inl e, c)
           | Inr book \<Rightarrow> (case create_book new_id book c of (r, c') \<Rightarrow> (raise_or 201 BookModel_json r, c')))
      | Call (Get_books t a cat) \<Rightarrow>
          (case list_books t a cat c of (r, c') \<Rightarrow> (raise_or 200 (\<lambda>bs. JArr (map BookModel_json bs)) r, c'))
      | Call (Get_book i) \<Rightarrow> (case get_book i c of (r, c') \<Rightarrow> (raise_or 200 BookModel_json r, c'))
      | Call (Put_book i body) \<Rightarrow>
          (case parse_UpdateBookModel body of
             Inl e \<Rightarrow> (Inl e, c)
           | Inr book \<Rightarrow> (case update_book i book c of (r, c') \<Rightarrow> (raise_or 200 BookModel_json r, c')))
      | Call (Delete_book i) \<Rightarrow> (case delete_book i c of (r, c') \<Rightarrow> (raise_or 200 id r, c')))"

text \<open>\<open>ExceptionMiddleware\<close> with FastAPI's two handlers.\<close>

definition exception_mw :: "py_error + response \<Rightarrow> py_error + response" where
  "exception_mw outcome =
     (case outcome of
        Inl (HTTPException st d) \<Rightarrow> Inr (error_response (HTTPException st d))
      | Inl RequestValidationError \<Rightarrow> Inr (error_response RequestValidationError)
      | _ \<Rightarrow> outcome)"

text \<open>\<open>ServerErrorMiddleware\<close>: \<open>PlainTextResponse("Internal Server Error", 500)\<close>.\<close>

definition server_error_mw :: "py_error + response \<times> headers \<Rightarrow> response \<times> headers" where
  "server_error_mw outcome =
     (case outcome of
        Inl e \<Rightarrow> (\<lparr>status_code = 500, content = JStr ''Internal Server Error''\<rparr>, [])
      | Inr rh \<Rightarrow> rh)"

definition serve_http ::
  "cors_cfg \<Rightarrow> ObjectId \<Rightarrow> headers \<Rightarrow> http_call \<Rightarrow> collection \<Rightarrow> (response \<times> headers) \<times> collection" where
  "serve_http cfg new_id rh hc c =
     (case cors_call (cors_init cfg) (call_method hc) rh
             (\<lambda>c. case endpoint new_id hc c of (outcome, c') \<Rightarrow> (exception_mw outcome, c')) c of
        (outcome, c') \<Rightarrow> (server_error_mw outcome, c'))"


subsection \<open>main.py's configuration\<close>

lemma main_cors_mw:
  "cors_init main_cors =
     \<lparr>mw_allow_origins = [''*''], mw_allow_methods = ALL_METHODS,
      mw_allow_headers = [''*'', ''accept'', ''accept-language'', ''content-language'', ''content-type''],
      allow_all_origins = True, allow_all_headers = True, preflight_explicit_allow_origin = True,
      simple_headers = [(''access-control-allow-origin'', ''*''), (''access-control-allow-credentials'', ''true'')],
      preflight_headers = [(''vary'', ''Origin''), (''access-control-allow-methods'', ''DELETE, GET, HEAD, OPTIONS, PATCH, POST, PUT''),
                           (''access-control-max-age'', ''600''), (''access-control-allow-credentials'', ''true'')]\<rparr>"
  by code_simp

lemma main_cors_send:
  "cors_send (cors_init main_cors) origin rh [] =
     (if ''cookie'' \<in> set (map fst rh)
      then [(''access-control-allow-origin'', origin), (''access-control-allow-credentials'', ''true''), (''vary'', ''Origin'')]
      else [(''access-control-allow-origin'', ''*''), (''access-control-allow-credentials'', ''true'')])"
  by (simp add: main_cors_mw cors_send_def hupdate_def allow_explicit_origin_def add_vary_header_def)

lemma call_method_not_options: "call_method (Call rq) \<noteq> ''OPTIONS''"
  by (cases rq) (simp_all add: call_method_def)

subsection \<open>What the handlers raise\<close>

lemma raise_or_http: "raise_or ok ser r = Inl (HTTPException st d) \<Longrightarrow> r = Inl (HTTPException st d)"
  by (cases r) (simp_all add: raise_or_def)

lemma raise_or_Inr: "raise_or ok ser r = Inr x \<Longrightarrow> status_code x = ok"
  by (cases r) (auto simp: raise_or_def)

lemma create_book_not_http: "fst (create_book new_id b c) \<noteq> Inl (HTTPException st d)"
  by (auto simp: create_book_def Let_def insert_one_def split: prod.splits sum.splits option.splits if_splits)

lemma update_book_http_status:
  "fst (update_book s u c) = Inl (HTTPException st d) \<Longrightarrow> st = 400 \<or> st = 404"
  by (auto simp: update_book_def update_fallback_def Let_def split: option.splits prod.splits if_splits)

lemma list_books_not_http: "fst (list_books t a cat c) \<noteq> Inl (HTTPException st d)"
  by (simp add: list_books_def find_cursor_def split: sum.split)

lemma endpoint_http_status:
  assumes "fst (endpoint new_id hc c) = Inl (HTTPException st d)"
  shows "st \<in> {400, 404, 405}"
proof (cases hc)
  case Options
  with assms show ?thesis by (simp add: endpoint_def)
next
  case (Call rq)
  show ?thesis
  proof (cases rq)
    case (Post_books body)
    with Call assms create_book_not_http show ?thesis
      using parse_BookModel_error [of body]
      by (auto simp: endpoint_def case_prod_beta dest!: raise_or_http split: sum.splits)
  next
    case (Get_books t a cat)
    with Call assms list_books_not_http show ?thesis
      by (auto simp: endpoint_def case_prod_beta dest!: raise_or_http)
  next
    case (Get_book i)
    with Call assms get_book_http_error [of i c] show ?thesis
      by (auto simp: endpoint_def case_prod_beta dest!: raise_or_http)
  next
    case (Put_book i body)
    with Call assms update_book_http_status [of i _ c st d] show ?thesis
      using parse_UpdateBookModel_error [of body]
      by (auto simp: endpoint_def case_prod_beta dest!: raise_or_http split: sum.splits)
  next
    case (Delete_book i)
    with Call assms delete_book_http_error [of i c] show ?thesis
      by (auto simp: endpoint_def case_prod_beta dest!: raise_or_http)
  qed (use Call assms in \<open>simp add: endpoint_def\<close>)
qed

lemma endpoint_Inr_status:
  assumes "fst (endpoint new_id hc c) = Inr x"
  shows "status_code x \<in> {200, 201}"
  using assms
  by (auto simp: endpoint_def case_prod_beta dest!: raise_or_Inr
      split: http_call.splits request.splits sum.splits)

subsection \<open>The layers\<close>

text \<open>What the two exception layers make of an outcome.\<close>

lemma layers_Inl:
  "fst (server_error_mw (case exception_mw (Inl e) of Inl e' \<Rightarrow> Inl e' | Inr x \<Rightarrow> Inr (x, []))) = error_response e"
  by (cases e) (simp_all add: exception_mw_def server_error_mw_def error_response_def)

lemma layers_raise_or:
  "fst (server_error_mw (case exception_mw (raise_or ok ser r) of Inl e' \<Rightarrow> Inl e' | Inr x \<Rightarrow> Inr (x, [])))
   = respond ok ser r"
  using layers_Inl by (cases r) (simp_all add: raise_or_def respond_def exception_mw_def server_error_mw_def)

lemma app_layers:
  "app new_id rq c =
     (case endpoint new_id (Call rq) c of
        (outcome, c') \<Rightarrow>
          (fst (server_error_mw (case exception_mw outcome of Inl e \<Rightarrow> Inl e | Inr x \<Rightarrow> Inr (x, []))), c'))"
  by (cases rq)
    (simp_all add: app_def endpoint_def layers_Inl layers_raise_or case_prod_beta split: sum.split,
     simp add: exception_mw_def server_error_mw_def)

lemma exception_mw_status:
  assumes "fst (endpoint new_id hc c) = outcome" "exception_mw outcome = Inr x"
  shows "status_code x \<noteq> 500"
proof (cases outcome)
  case (Inl e)
  then show ?thesis
  proof (cases e)
    case (HTTPException st d)
    with Inl assms endpoint_http_status [of new_id hc c st d] show ?thesis
      by (auto simp: exception_mw_def error_response_def)
  qed (use Inl assms in \<open>auto simp: exception_mw_def error_response_def\<close>)
next
  case (Inr r)
  with assms endpoint_Inr_status [of new_id hc c r] show ?thesis
    by (auto simp: exception_mw_def)
qed

lemma serve_http_simple:
  assumes "map_of rh ''origin'' = Some origin" "endpoint new_id (Call rq) c = (outcome, c')"
  shows "serve_http main_cors new_id rh (Call rq) c =
           (case exception_mw outcome of
              Inl e \<Rightarrow> ((\<lparr>status_code = 500, content = JStr ''Internal Server Error''\<rparr>, []), c')
            | Inr x \<Rightarrow> ((x, cors_send (cors_init main_cors) origin rh []), c'))"
  using assms call_method_not_options [of rq]
  by (simp add: serve_http_def cors_call_def simple_response_def server_error_mw_def
      split: option.split sum.split)

lemma serve_http_no_origin:
  assumes "map_of rh ''origin'' = None"
  shows "serve_http cfg new_id rh (Call rq) c = ((fst (app new_id rq c), []), snd (app new_id rq c))"
proof -
  obtain outcome c1 where ep: "endpoint new_id (Call rq) c = (outcome, c1)"
    by (cases "endpoint new_id (Call rq) c")
  with assms app_layers [of new_id rq c] show ?thesis
    by (auto simp: serve_http_def cors_call_def server_error_mw_def split: sum.split)
qed

text \<open>A preflight under main.py's configuration is answered by the CORS layer
  alone: 200 for any method Starlette knows, 400 otherwise, the origin echoed, and
  the collection untouched.\<close>

lemma preflight_main:
  assumes "map_of rh ''origin'' = Some origin" "map_of rh ''access-control-request-method'' = Some rm"
  shows "snd (serve_http main_cors new_id rh Options c) = c
         \<and> status_code (fst (fst (serve_http main_cors new_id rh Options c))) = (if rm \<in> set ALL_METHODS then 200 else 400)
         \<and> map_of (snd (fst (serve_http main_cors new_id rh Options c))) ''access-control-allow-origin'' = Some origin"
  using assms
  by (simp add: serve_http_def cors_call_def call_method_def preflight_response_def main_cors_mw
      is_allowed_origin_def server_error_mw_def Let_def split: option.split)

text \<open>C29: behind main.py's CORS configuration, a request that carries an
  \<open>Origin\<close> gets the status, body and collection change of the app; its reply
  lets that origin read it (\<open>Access-Control-Allow-Origin\<close> is the origin, when
  cookies are sent, or \<open>*\<close>, with credentials allowed) exactly when it is not a
  500: an exception that escapes a handler is answered by Starlette's outermost
  layer, outside the CORS one, with no CORS header.\<close>

theorem cors_reply:
  assumes has_origin: "map_of rh ''origin'' = Some origin"
    and serve: "serve_http main_cors new_id rh (Call rq) c = ((r, h), c')"
  shows "(r, c') = app new_id rq c
         \<and> (map_of h ''access-control-allow-origin'' \<in> {Some origin, Some ''*''} \<longleftrightarrow> status_code r \<noteq> 500)
         \<and> (status_code r \<noteq> 500 \<longrightarrow> map_of h ''access-control-allow-credentials'' = Some ''true'')"
proof -
  obtain outcome c1 where ep: "endpoint new_id (Call rq) c = (outcome, c1)"
    by (cases "endpoint new_id (Call rq) c")
  show ?thesis
  proof (cases "exception_mw outcome")
    case (Inl e)
    with serve serve_http_simple [OF has_origin ep] app_layers [of new_id rq c] ep show ?thesis
      by (auto simp: server_error_mw_def)
  next
    case (Inr x)
    have "status_code x \<noteq> 500"
      using exception_mw_status [of new_id "Call rq" c outcome x] ep Inr by simp
    with Inr serve serve_http_simple [OF has_origin ep] app_layers [of new_id rq c] ep show ?thesis
      by (auto simp: server_error_mw_def main_cors_send split: if_splits)
  qed
qed

theorem cors_reply_witness:
  "map_of [(''origin'', ''http://localhost:3000'')] ''origin'' = Some ''http://localhost:3000''
   \<and> serve_http main_cors (ObjectId []) [(''origin'', ''http://localhost:3000'')] (Call Get_root) []
       = ((\<lparr>status_code = 200, content = root\<rparr>,
           [(''access-control-allow-origin'', ''*''), (''access-control-allow-credentials'', ''true'')]), [])
   \<and> (\<lparr>status_code = 200, content = root\<rparr>, []) = app (ObjectId []) Get_root []
   \<and> map_of [(''access-control-allow-origin'', ''*''), (''access-control-allow-credentials'', ''true'')]
       ''access-control-allow-credentials'' = Some ''true''"
proof -
  have o: "map_of [(''origin'', ''http://localhost:3000'')] ''origin'' = Some ''http://localhost:3000''" by simp
  have ep: "endpoint (ObjectId []) (Call Get_root) [] = (Inr \<lparr>status_code = 200, content = root\<rparr>, [])"
    by (simp add: endpoint_def)
  have s: "serve_http main_cors (ObjectId []) [(''origin'', ''http://localhost:3000'')] (Call Get_root) []
       = ((\<lparr>status_code = 200, content = root\<rparr>,
           [(''access-control-allow-origin'', ''*''), (''access-control-allow-credentials'', ''true'')]), [])"
    by (simp add: serve_http_simple [OF o ep] exception_mw_def main_cors_send)
  show ?thesis using cors_reply [OF o s] o s by simp
qed

end
