(* ===== verification/Spec2Isabelle.thy ===== *)
theory Spec2Isabelle
  imports Interleaving Driver Interface Tests Middleware
begin

text \<open>
  A verification library for the "Bibliotheque Numerique" book API
  (src/Backend/main.py and src/Backend/app/models.py): a FastAPI service with five
  CRUD endpoints on one MongoDB collection of books.

  \<^bold>\<open>The program and its parts.\<close>  A request is routed by FastAPI to a handler of
  main.py; the handler validates the path id with bson's ObjectId, awaits one to
  three operations of the motor collection \<open>db.books\<close>, and returns a value that
  FastAPI serialises through the response model of models.py.  The parts interact
  only through the shared collection, which every handler reads and writes.

  \<^bold>\<open>Theories.\<close>
  \<^item> \<open>Prelude\<close>: the exceptions a request can end in (\<open>py_error\<close>: FastAPI's
    \<open>HTTPException\<close>, request validation, MongoDB's duplicate key, Python's
    \<open>TypeError\<close>, bson's \<open>InvalidId\<close>, \<open>struct.error\<close>, MongoDB's
    \<open>OperationFailure\<close>), results as \<open>py_error + 'a\<close>, bytes as
    \<open>8 word\<close>, ASCII case folding, association-list lemmas.
  \<^item> \<open>ObjectId\<close>: bson's ObjectId (12 bytes), \<open>ObjectId(str)\<close> as
    \<open>ObjectId_of_str\<close> via \<open>bytes.fromhex\<close>, \<open>ObjectId.is_valid\<close> as
    \<open>is_valid\<close>, \<open>str(oid)\<close> as \<open>str_oid\<close> via \<open>binascii.hexlify\<close>.  Lemmas:
    the two round trips (decode of encode is the id; encode of decode is the
    lowercase input), \<open>is_valid\<close> is "24 hex digits", injectivity of \<open>str_oid\<close>.
  \<^item> \<open>Models\<close>: models.py.  \<open>Book\<close> (the stored document,
    \<open>book.dict(exclude={"id"})\<close>), \<open>BookModel = Book + book_id\<close>,
    \<open>UpdateBookModel\<close>, \<open>PyObjectId_validate\<close>; pydantic v1 parsing of JSON bodies
    (\<open>parse_BookModel\<close>, \<open>parse_UpdateBookModel\<close>) and serialisation by alias
    (\<open>BookModel_json\<close>).
  \<^item> \<open>Regex\<close>: MongoDB's \<open>$regex\<close> with option \<open>i\<close>, i.e. PCRE on the syntax a
    search uses (literals, escapes, \<open>.\<close>, classes, alternation, groups, greedy and
    lazy quantifiers, anchors, word boundaries).  \<open>compile\<close> is a lexer (a
    state machine over the pattern, \<open>lex\<close>) and a builder with a stack of open
    groups (\<open>build\<close>); it fails with \<open>Invalid\<close> where PCRE reports a
    compile error.  The matcher \<open>ends\<close> computes the end positions of the
    matches from a start position (a star by an upward scan of position sets);
    \<open>rx_search\<close> tries every start.  Lemmas: \<open>ends\<close> is exactly the
    inductive semantics \<open>rx_at\<close>, and a pattern free of metacharacters compiles
    to its characters and matches as a case-insensitive substring.
  \<^item> \<open>Collection\<close>: the collection as an association list in natural order,
    with \<open>insert_one\<close>, \<open>find_one\<close>, \<open>find\<close> (and \<open>find_cursor\<close>, which
    fails with \<open>OperationFailure\<close> when a \<open>$regex\<close> does not compile, and the
    cursor's batches: \<open>cursor_batch\<close>, the first 101 matches of a natural-order
    scan, and \<open>get_more\<close>, the rest after the scan's position),
    \<open>update_one\<close> (\<open>$set\<close>,
    modification counted only on change), \<open>delete_one\<close>; the invariant
    \<open>coll_inv\<close> (distinct, well-formed ids) and the refinement of each operation to
    the abstract store \<open>map_of\<close>; \<open>MONGO_URL\<close> is the connection setting.
  \<^item> \<open>Handlers\<close>: main.py's \<open>root\<close>, \<open>create_book\<close>, \<open>list_books\<close>,
    \<open>get_book\<close>, \<open>update_book\<close>, \<open>delete_book\<close>, each a function from its inputs
    and the collection to its outcome and the new collection, with every raise,
    return and awaited call in the source's order.  Lemmas: each handler on a
    decoded id, invariant preservation, the shape of the errors.
  \<^item> \<open>Server\<close>: FastAPI routing and responses (\<open>app\<close>), the server as an
    inductive step relation \<open>server_step\<close> (any request, any well-formed generated
    id), its reachable states, and \<open>run\<close> for sequences of requests;
    \<open>search_ok\<close> says that a request's search patterns compile.
  \<^item> \<open>Interleaving\<close>: the handlers as coroutines.  A request in flight is a
    program counter \<open>pc\<close> at one of its await points (\<open>Create_find\<close> after
    \<open>insert_one\<close>, \<open>Update_refetch\<close> and \<open>Update_fallback\<close> after
    \<open>update_one\<close>, \<open>List_more\<close> after a full first batch of the listing's
    cursor); \<open>start_step\<close> runs a request to its first await,
    \<open>pc_step\<close> one await further; \<open>conc_step\<close> lets a request arrive or any
    unfinished one step, so the event loop's choices are all covered, and
    \<open>conc_reach\<close> is the states it reaches from no request and an empty
    collection.  Property: a listing is not a snapshot (C24); the races C18 and C19
    are traces of \<open>conc_reach\<close>.
  \<^item> \<open>ObjectIdGen\<close>: how \<open>insert_one\<close> makes the new id (pymongo's
    \<open>ObjectId()\<close>): time in 4 big-endian bytes, 5 per-process random bytes, and a
    3-byte counter that is a \<open>24 word\<close> advancing modulo \<open>2^24\<close>; the state is
    \<open>gen_state\<close>.  Lemmas: byte packing round trips, the ids of one second
    are injective in the counter below \<open>2^24\<close> and repeat at \<open>2^24\<close>.
  \<^item> \<open>Driver\<close>: the server fed by the generator (\<open>app_gen\<close>, \<open>run_gen\<close>
    over timed requests): C20--C22.
  \<^item> \<open>Interface\<close>: spec section 6's route table as predicates on the JSON of a
    response (\<open>route_conforms\<close>), and C23, that every response fits it.
  \<^item> \<open>Middleware\<close>: the application FastAPI serves, as Starlette's stack of
    layers: \<open>ServerErrorMiddleware\<close> (escaped exceptions become a plain 500),
    the \<open>CORSMiddleware\<close> main.py adds (lines 11--17, \<open>main_cors\<close>; the
    middleware's constructor, preflight and simple-response code as \<open>cors_init\<close>,
    \<open>preflight_response\<close>, \<open>cors_send\<close>, \<open>cors_call\<close>),
    \<open>ExceptionMiddleware\<close> (\<open>HTTPException\<close> and validation errors become
    JSON), and the routed \<open>endpoint\<close>; \<open>serve_http\<close> composes them.  Lemmas:
    without an \<open>Origin\<close> the stack is \<open>app\<close>, preflights never reach the app,
    and C29.
  \<^item> \<open>Tests\<close>: test_main.py's \<open>test_read_main\<close> and the request example of
    \<open>BookModel\<close>'s schema: the test passes on any content, and C25.
  \<^item> this theory: the properties that span components, C1--C15, C26--C28 and the
    two races C18, C19 (C16, C17 are in \<open>Models\<close>, C24 in \<open>Interleaving\<close>).

  \<^bold>\<open>What is shown.\<close>  The testable properties of spec section 8 (C1--C5):
  create then get, delete then get, the empty update, listing, and search.
  Functional behaviour of every handler on every branch (C6, C7, C8), refinement of
  create and delete to the abstract store (C11, C12), the absence of server errors
  in sequential runs (C9) and the duplicate-key error path (C10), round trips of ids
  and of the response model, alias included (C14, C16), case-insensitive ids (C15),
  \<open>PyObjectId.validate\<close> (C17).  Under interleaving a delete between the two
  awaits of \<open>create_book\<close> or of \<open>update_book\<close> makes the re-fetch return None
  and the handler fail with a 500 (C18, C19): the handlers subscript the re-fetched
  document unchecked.  A listing of more than 100 books reads its cursor in two
  batches, and a delete and a create between them give a listing holding both the
  deleted and the created book, which no state of the collection held together
  (C24): spec section 5's "independent filtered read" is not a snapshot.  Every
  response fits the spec's route table (C23, the type of the HTTP surface).  With
  the generator's real ids, up to \<open>2^24\<close> creates per second succeed and the
  next one collides with the first (C20, C21, bounds and wrap-around); creates fail
  from 2106 on (C22).  The documented schema example is a valid create (C25).
  Divergences from the spec: empty fields are accepted (C13), and so are numbers
  and booleans where text is declared, turned into text by pydantic (C26).  The
  search text is put into \<open>$regex\<close> unescaped, so a text PCRE cannot compile,
  such as \<open>[\<close>, makes every listing answer 500 (C27, a code bug); this is why C9
  and C23 assume \<open>search_ok\<close>.  For a pattern that compiles, the listing is
  exactly the books whose field contains a match in the relational semantics (C28),
  so the search is a regular expression, not the spec's substring test.  Behind
  the CORS layer every reply to a cross-origin request is readable by that origin
  except the 500s, which Starlette produces outside the CORS layer (C29).

  \<^bold>\<open>Choices and limits.\<close>  No loop of the source needs fuel: the only recursion is
  over finite lists and over the pattern's syntax tree; a star is computed by one upward
  scan of the positions from the start to \<open>length t\<close>, which suffices because
  a step of a match never moves backwards (\<open>star_ends_set\<close>).  The counter bound \<open>2^24\<close> is the width of the counter
  field, and the clock bound \<open>2^32\<close> the width of the time field.  In \<open>Server\<close> the id
  of an insert is an input (the server relation allows any well-formed id);
  \<open>Driver\<close> computes it with the generator.  MongoDB, motor, bson and pydantic are libraries: they are
  modelled from the spec and their documented behaviour.  The regex model follows
  PCRE2 (MongoDB 6.1 and later).  PCRE's back-references, look-around, possessive
  quantifiers, inline options, verbs and POSIX classes compile to
  \<open>Unsupported\<close>: the model's search finds nothing for such a pattern, and
  \<open>search_ok\<close> (C9, C23) only excludes the patterns the model rejects as
  \<open>Invalid\<close>.  Text is matched byte by byte with ASCII case folding, where
  MongoDB matches UTF-8 characters and folds non-ASCII letters too; C5 is stated for
  ASCII patterns and titles, where the two agree.  JSON numbers with a fraction and
  the 422 error list are not modelled.  \<open>bytes.fromhex\<close> skips ASCII
  whitespace before each digit pair, so bson accepts a 24-character id such as 22
  hex digits and two spaces and decodes it to 11 bytes; the model's codec rejects
  every id that is not 24 hex digits, and what bson then sends to the server (its C
  encoder writes 12 bytes from an 11-byte buffer) is not modelled.  A
  \<open>list_books\<close> cursor awaits two batches: the server's first batch of 101
  documents and one \<open>getMore\<close> for the rest, which assumes the rest fits in one
  16 MiB batch; the scan position is the set of ids already passed, which is
  MongoDB's position as long as no id is deleted and inserted again during the
  listing (ObjectIds are not reused).  The time the driver reads is an
  input, as is the generator's initial state; re-seeding after \<open>fork\<close> is not
  modelled (one process).  \<open>PyObjectId\<close>'s \<open>__modify_schema__\<close> is modelled
  on the schema dict; the OpenAPI document around it is not.  The connection
  setting is modelled (\<open>MONGO_URL\<close>), connection failures of the client are not;
  of the CORS middleware, the origin
  regular expression (not configured by main.py) and \<open>HEAD\<close> requests are not
  modelled, and of the headers only those it reads or writes.
\<close>

section \<open>The store seen through the handlers\<close>

definition dune_id :: ObjectId where
  "dune_id = ObjectId [0x65, 0x4a, 0x1b, 0x2c, 0x3d, 0x4e, 0x5f, 0x60, 0x71, 0x82, 0x93, 0xa4]"

definition dune :: BookModel where
  "dune = \<lparr>title = ''Dune'', author = ''Frank Herbert'', category = ''SF'', book_id = None\<rparr>"

definition dune_json :: json where
  "dune_json = JObj [(''title'', JStr ''Dune''), (''author'', JStr ''Frank Herbert''),
                     (''category'', JStr ''SF'')]"

definition prince_book :: Book where
  "prince_book = \<lparr>title = ''Le Petit Prince'', author = ''Antoine de Saint-Exupery'', category = ''Roman''\<rparr>"

lemma to_BookModel_truncate:
  "to_BookModel (i, BookModel_dict_exclude_id b) = b\<lparr>book_id := Some (str_oid i)\<rparr>"
  by (cases b) (simp add: to_BookModel_def BookModel_dict_exclude_id_def Book.defs)

lemma delete_book_clears:
  "ObjectId_of_str s = Some oid \<Longrightarrow> map_of (snd (delete_book s c)) oid = None"
  by (auto simp: delete_book_oid map_of_filter_key map_of_eq_None_iff)

text \<open>C1: creating a book and then fetching it by the id in the response gives the
  same book: create returns the posted fields with the generated id, and get-by-id
  on that id returns the same record (spec section 8, first property).\<close>

theorem create_then_get:
  assumes wf: "oid_wf new_id" and fresh: "new_id \<notin> set (map fst c)"
  shows "fst (create_book new_id b c) = Inr (b\<lparr>book_id := Some (str_oid new_id)\<rparr>)
       \<and> get_book (str_oid new_id) (snd (create_book new_id b c)) = create_book new_id b c"
proof -
  let ?d = "BookModel_dict_exclude_id b"
  have cr: "create_book new_id b c = (Inr (to_BookModel (new_id, ?d)), c @ [(new_id, ?d)])"
    using fresh by (rule create_book_fresh)
  have "map_of (c @ [(new_id, ?d)]) new_id = Some ?d"
    using fresh by (simp add: map_of_snoc_fresh del: map_of_append)
  then have "get_book (str_oid new_id) (c @ [(new_id, ?d)])
             = (Inr (to_BookModel (new_id, ?d)), c @ [(new_id, ?d)])"
    by (simp add: get_book_oid [OF ObjectId_roundtrip [OF wf]])
  with cr show ?thesis by (simp add: to_BookModel_truncate)
qed

theorem create_then_get_witness:
  "oid_wf dune_id \<and> dune_id \<notin> set (map fst ([] :: collection))
   \<and> fst (create_book dune_id dune []) = Inr (dune\<lparr>book_id := Some (str_oid dune_id)\<rparr>)
   \<and> get_book (str_oid dune_id) (snd (create_book dune_id dune [])) = create_book dune_id dune []"
proof -
  have wf: "oid_wf dune_id" by (simp add: oid_wf_def dune_id_def)
  show ?thesis using create_then_get [OF wf, of "[]" dune] wf by simp
qed

text \<open>C2: after a delete of a well-formed id, fetching that id answers 404, whether
  the delete found the book or not (spec section 8, second property).\<close>

theorem delete_then_get:
  assumes "is_valid s"
  shows "get_book s (snd (delete_book s c))
         = (Inl (HTTPException 404 msg_not_found), snd (delete_book s c))"
proof -
  from assms obtain oid where oid: "ObjectId_of_str s = Some oid"
    by (auto simp: is_valid_ObjectId_of_str)
  then have "map_of (snd (delete_book s c)) oid = None" by (rule delete_book_clears)
  with oid show ?thesis by (simp add: get_book_oid)
qed

theorem delete_then_get_witness:
  "is_valid ''654a1b2c3d4e5f60718293a4''
   \<and> get_book ''654a1b2c3d4e5f60718293a4'' (snd (delete_book ''654a1b2c3d4e5f60718293a4'' []))
     = (Inl (HTTPException 404 msg_not_found),
        snd (delete_book ''654a1b2c3d4e5f60718293a4'' []))"
proof -
  have v: "is_valid ''654a1b2c3d4e5f60718293a4''" by (simp add: is_valid_iff hex_value_def)
  show ?thesis using delete_then_get [OF v, of "[]"] v by simp
qed

text \<open>C3: an update whose body supplies no field behaves exactly as get-by-id: it
  writes nothing and answers the current book, 404 when the id is unknown and 400
  when it is malformed (spec section 8, third property).\<close>

theorem update_empty_patch: "present_fields u = [] \<Longrightarrow> update_book s u c = get_book s c"
  by (simp add: update_book_def get_book_def update_fallback_def Let_def split: option.split)

theorem update_empty_patch_witness:
  "present_fields \<lparr>upd_title = None, upd_author = None, upd_category = None\<rparr> = []
   \<and> update_book ''654a1b2c3d4e5f60718293a4''
       \<lparr>upd_title = None, upd_author = None, upd_category = None\<rparr> []
     = get_book ''654a1b2c3d4e5f60718293a4'' []"
proof -
  have p: "present_fields \<lparr>upd_title = None, upd_author = None, upd_category = None\<rparr> = []"
    by (simp add: present_fields_def UpdateBookModel_dict_def)
  show ?thesis using update_empty_patch [OF p] p by simp
qed

text \<open>C4: listing with no filter returns every stored book once, in the store's
  order, and no two results carry the same id (spec section 8, fourth property).\<close>

theorem list_no_filter:
  "coll_inv c \<Longrightarrow> list_books None None None c = (Inr (map to_BookModel c), c)
                \<and> distinct (map book_id (map to_BookModel c))"
proof -
  assume "coll_inv c"
  then have "distinct (map book_id (map to_BookModel c))" by (rule distinct_ids_to_BookModel)
  then show ?thesis
    by (simp add: list_books_def list_query_def query_param_def find_cursor_def query_invalid_def)
qed

theorem list_no_filter_witness:
  "coll_inv [(dune_id, BookModel_dict_exclude_id dune)]
   \<and> list_books None None None [(dune_id, BookModel_dict_exclude_id dune)]
     = (Inr (map to_BookModel [(dune_id, BookModel_dict_exclude_id dune)]),
        [(dune_id, BookModel_dict_exclude_id dune)])"
proof -
  have i: "coll_inv [(dune_id, BookModel_dict_exclude_id dune)]"
    by (simp add: coll_inv_def oid_wf_def dune_id_def)
  show ?thesis using list_no_filter [OF i] i by simp
qed



text \<open>C6: get-by-id on every branch: 400 for a string that is not 24 hex digits,
  404 for a well-formed id with no book, else the stored book; bson's \<open>InvalidId\<close>
  after the validity check is unreachable.\<close>

theorem get_book_spec:
  "get_book s c =
     (case ObjectId_of_str s of
        None \<Rightarrow> (Inl (HTTPException 400 msg_invalid_id), c)
      | Some oid \<Rightarrow>
          (case map_of c oid of
             None \<Rightarrow> (Inl (HTTPException 404 msg_not_found), c)
           | Some d \<Rightarrow> (Inr (to_BookModel (oid, d)), c)))"
  by (cases "ObjectId_of_str s") (simp_all add: get_book_oid get_book_invalid is_valid_ObjectId_of_str)

text \<open>C7: an update of a stored book answers the book with exactly the supplied
  fields replaced and the others unchanged, and stores that book under the same id;
  this holds whether or not the update modified anything.\<close>

theorem update_book_fields:
  assumes inv: "coll_inv c" and oid: "ObjectId_of_str s = Some oid" and d: "map_of c oid = Some d"
  shows "fst (update_book s u c) = Inr (to_BookModel (oid, apply_set (present_fields u) d))
       \<and> (\<forall>k. get_field k (apply_set (present_fields u) d)
               = (case map_of (UpdateBookModel_dict u) k of Some (Some v) \<Rightarrow> v | _ \<Rightarrow> get_field k d))
       \<and> map_of (snd (update_book s u c)) = (map_of c)(oid \<mapsto> apply_set (present_fields u) d)"
proof -
  have upd: "update_book s u c = (Inr (to_BookModel (oid, apply_set (present_fields u) d)),
                  map (\<lambda>(k, v). (k, if k = oid then apply_set (present_fields u) v else v)) c)"
    using update_book_oid [OF inv oid] d by simp
  have "map_of (map (\<lambda>(k, v). (k, if k = oid then apply_set (present_fields u) v else v)) c)
        = (map_of c)(oid \<mapsto> apply_set (present_fields u) d)"
    using d by (auto simp: map_of_map_value fun_eq_iff option.map_ident)
  with upd show ?thesis
    by (auto simp: get_field_apply_set present_fields_lookup split: option.splits)
qed

theorem update_book_fields_witness:
  "coll_inv [(dune_id, BookModel_dict_exclude_id dune)]
   \<and> ObjectId_of_str ''654a1b2c3d4e5f60718293a4'' = Some dune_id
   \<and> map_of [(dune_id, BookModel_dict_exclude_id dune)] dune_id = Some (BookModel_dict_exclude_id dune)
   \<and> map_of (snd (update_book ''654a1b2c3d4e5f60718293a4''
          \<lparr>upd_title = None, upd_author = None, upd_category = Some ''Science-Fiction''\<rparr>
          [(dune_id, BookModel_dict_exclude_id dune)]))
       = [dune_id \<mapsto> apply_set (present_fields
             \<lparr>upd_title = None, upd_author = None, upd_category = Some ''Science-Fiction''\<rparr>)
             (BookModel_dict_exclude_id dune)]"
proof -
  have i: "coll_inv [(dune_id, BookModel_dict_exclude_id dune)]"
    by (simp add: coll_inv_def oid_wf_def dune_id_def)
  have o: "ObjectId_of_str ''654a1b2c3d4e5f60718293a4'' = Some dune_id"
    by (simp add: ObjectId_of_str_def hex_value_def dune_id_def)
  have d: "map_of [(dune_id, BookModel_dict_exclude_id dune)] dune_id = Some (BookModel_dict_exclude_id dune)"
    by simp
  show ?thesis using update_book_fields [OF i o d] i o d by simp
qed

text \<open>C8: an update of a well-formed id that names no book answers 404 and
  writes nothing, whatever the body.\<close>

theorem update_unknown_404:
  "ObjectId_of_str s = Some oid \<Longrightarrow> map_of c oid = None \<Longrightarrow>
   update_book s u c = (Inl (HTTPException 404 msg_not_found), c)"
  by (simp add: update_book_def update_one_def update_fallback_def find_one_eq
      is_valid_ObjectId_of_str Let_def)

theorem update_unknown_404_witness:
  "ObjectId_of_str ''654a1b2c3d4e5f60718293a4'' = Some dune_id
   \<and> map_of ([] :: collection) dune_id = None
   \<and> update_book ''654a1b2c3d4e5f60718293a4''
       \<lparr>upd_title = Some ''Dune'', upd_author = None, upd_category = None\<rparr> []
     = (Inl (HTTPException 404 msg_not_found), [])"
proof -
  have o: "ObjectId_of_str ''654a1b2c3d4e5f60718293a4'' = Some dune_id"
    by (simp add: ObjectId_of_str_def hex_value_def dune_id_def)
  show ?thesis using update_unknown_404 [OF o, of "[]"] o by simp
qed

text \<open>C9: served one at a time, no request ends in HTTP 500 as long as the
  generated id is fresh and the search patterns compile: the \<open>TypeError\<close>
  branches (subscripting a \<open>None\<close> re-fetch) and the \<open>InvalidId\<close> branches are
  unreachable, so every error is a 400, 404 or 422.  (A pattern PCRE rejects does
  give a 500: C27.)\<close>

theorem sequential_no_500:
  assumes inv: "coll_inv c" and fresh: "new_id \<notin> set (map fst c)" and ok: "search_ok rq"
  shows "status_code (fst (app new_id rq c)) \<noteq> 500"
proof (cases rq)
  case (Post_books body)
  then show ?thesis using fresh parse_BookModel_error [of body]
    by (auto simp: app_def create_book_fresh respond_def error_response_def
        split: sum.split)
next
  case (Get_book i)
  have "status_code (respond 200 BookModel_json (fst (get_book i c))) \<noteq> 500"
    by (rule respond_not_500) (simp, erule get_book_http_error)
  with Get_book show ?thesis by (simp add: app_def case_prod_beta)
next
  case (Put_book i body)
  have u: "status_code (respond 200 BookModel_json (fst (update_book i b c))) \<noteq> 500" for b
    by (rule respond_not_500) (simp, erule update_book_http_error [OF inv])
  with Put_book show ?thesis using parse_UpdateBookModel_error [of body]
    by (auto simp: app_def case_prod_beta error_response_def split: sum.split)
next
  case (Delete_book i)
  have "status_code (respond 200 id (fst (delete_book i c))) \<noteq> 500"
    by (rule respond_not_500) (simp, erule delete_book_http_error)
  with Delete_book show ?thesis by (simp add: app_def case_prod_beta)
next
  case (Get_books t a cat)
  with ok show ?thesis by (simp add: app_def list_books_def respond_def search_ok_def find_cursor_def)
qed (simp add: app_def)

theorem sequential_no_500_witness:
  "coll_inv [(dune_id, BookModel_dict_exclude_id dune)] \<and> ObjectId [] \<notin> set (map fst [(dune_id, BookModel_dict_exclude_id dune)])
   \<and> search_ok (Post_books dune_json)
   \<and> status_code (fst (app (ObjectId []) (Post_books dune_json) [(dune_id, BookModel_dict_exclude_id dune)])) \<noteq> 500"
proof -
  have i: "coll_inv [(dune_id, BookModel_dict_exclude_id dune)]"
    by (simp add: coll_inv_def oid_wf_def dune_id_def)
  have f: "ObjectId [] \<notin> set (map fst [(dune_id, BookModel_dict_exclude_id dune)])" by (simp add: dune_id_def)
  have ok: "search_ok (Post_books dune_json)" by (simp add: search_ok_def)
  show ?thesis using sequential_no_500 [OF i f ok] i f ok by simp
qed

text \<open>C10: a create whose generated id is already stored fails with MongoDB's
  duplicate-key error, which the app answers with 500, and stores nothing.\<close>

theorem create_duplicate_500:
  "parse_BookModel body = Inr b \<Longrightarrow> new_id \<in> set (map fst c) \<Longrightarrow>
   app new_id (Post_books body) c = (\<lparr>status_code = 500, content = JStr ''Internal Server Error''\<rparr>, c)"
  by (simp add: app_def create_book_dup respond_def error_response_def)

theorem create_duplicate_500_witness:
  "parse_BookModel dune_json = Inr dune \<and> dune_id \<in> set (map fst [(dune_id, BookModel_dict_exclude_id dune)])
   \<and> app dune_id (Post_books dune_json) [(dune_id, BookModel_dict_exclude_id dune)]
     = (\<lparr>status_code = 500, content = JStr ''Internal Server Error''\<rparr>, [(dune_id, BookModel_dict_exclude_id dune)])"
proof -
  have p: "parse_BookModel dune_json = Inr dune"
    by (simp add: parse_BookModel_def dune_json_def dune_def member_def req_str_def opt_str_def str_validator_def)
  have d: "dune_id \<in> set (map fst [(dune_id, BookModel_dict_exclude_id dune)])" by simp
  show ?thesis using create_duplicate_500 [OF p d] p d by simp
qed

text \<open>C11: against the abstract store (the map from ids to books) create is an
  insert of the posted fields under the generated id when the id is fresh, and no
  change otherwise.\<close>

theorem create_refines:
  "map_of (snd (create_book new_id b c))
   = (if new_id \<in> dom (map_of c) then map_of c else (map_of c)(new_id \<mapsto> BookModel_dict_exclude_id b))"
  by (cases "new_id \<in> set (map fst c)")
    (simp_all add: create_book_fresh create_book_dup map_of_snoc_fresh dom_map_of_conv_image_fst
      del: map_of_append)

text \<open>C12: against the abstract store, delete of a well-formed id removes that
  id, and it answers the confirmation exactly when the id was stored.\<close>

theorem delete_refines:
  "ObjectId_of_str s = Some oid \<Longrightarrow>
   map_of (snd (delete_book s c)) = (map_of c)(oid := None)
   \<and> (fst (delete_book s c) = Inr msg_deleted \<longleftrightarrow> oid \<in> dom (map_of c))"
  by (auto simp: delete_book_oid map_of_filter_key dom_map_of_conv_image_fst)

theorem delete_refines_witness:
  "ObjectId_of_str ''654a1b2c3d4e5f60718293a4'' = Some dune_id
   \<and> map_of (snd (delete_book ''654a1b2c3d4e5f60718293a4'' [(dune_id, BookModel_dict_exclude_id dune)])) = (map_of [(dune_id, BookModel_dict_exclude_id dune)])(dune_id := None)
   \<and> (fst (delete_book ''654a1b2c3d4e5f60718293a4'' [(dune_id, BookModel_dict_exclude_id dune)]) = Inr msg_deleted
        \<longleftrightarrow> dune_id \<in> dom (map_of [(dune_id, BookModel_dict_exclude_id dune)]))"
proof -
  have o: "ObjectId_of_str ''654a1b2c3d4e5f60718293a4'' = Some dune_id"
    by (simp add: ObjectId_of_str_def hex_value_def dune_id_def)
  show ?thesis using delete_refines [OF o, of "[(dune_id, BookModel_dict_exclude_id dune)]"] o by simp
qed

text \<open>C27: list_books puts the query parameter into \<open>$regex\<close> unescaped, so a
  title that PCRE cannot compile, such as an unclosed class \<open>[\<close>, makes MongoDB
  refuse the query: the request ends in 500 whatever the collection holds, where the
  spec promises 200 for every listing.\<close>

theorem list_invalid_regex_500:
  "regex_invalid p \<Longrightarrow> p \<noteq> [] \<Longrightarrow>
   app new_id (Get_books (Some p) None None) c
   = (\<lparr>status_code = 500, content = JStr ''Internal Server Error''\<rparr>, c)"
  by (simp add: app_def list_books_def list_query_def query_param_def find_cursor_def
      query_invalid_def respond_def error_response_def)

theorem list_invalid_regex_500_witness:
  "regex_invalid ''['' \<and> ''['' \<noteq> []
   \<and> app dune_id (Get_books (Some ''['') None None) [(dune_id, prince_book)]
     = (\<lparr>status_code = 500, content = JStr ''Internal Server Error''\<rparr>, [(dune_id, prince_book)])"
proof -
  have r: "regex_invalid ''[''"
    by (simp add: regex_invalid_def compile_def lex_def lex_step_def norm_step_def lex_end_def)
  show ?thesis using list_invalid_regex_500 [OF r] r by simp
qed

text \<open>C28: for any pattern PCRE compiles, a title search lists, in store order,
  exactly the books whose title contains a match of the compiled pattern in the
  relational semantics \<open>rx_at\<close>: the executable matcher behind \<open>$regex\<close>
  decides that semantics.\<close>

theorem list_search_semantics:
  "compile p = Inr r \<Longrightarrow> p \<noteq> [] \<Longrightarrow>
   list_books (Some p) None None c
   = (Inr (map to_BookModel
        (filter (\<lambda>(i, d). \<exists>k j. k \<le> length (title d) \<and> rx_at r (title d) k j) c)), c)"
  by (simp add: list_books_def list_query_def query_param_def find_cursor_def query_invalid_def
      regex_invalid_def find_def matches_query_def get_field_def regex_search_def rx_search_iff)

theorem list_search_semantics_witness:
  "compile ''p.'' = Inr (RSeq (RChar CHR ''p'') (RSeq RAny REmpty)) \<and> ''p.'' \<noteq> []
   \<and> list_books (Some ''p.'') None None [(dune_id, prince_book)]
     = (Inr (map to_BookModel
          (filter (\<lambda>(i, d). \<exists>k j. k \<le> length (title d)
                     \<and> rx_at (RSeq (RChar CHR ''p'') (RSeq RAny REmpty)) (title d) k j)
             [(dune_id, prince_book)])), [(dune_id, prince_book)])"
proof -
  have r: "compile ''p.'' = Inr (RSeq (RChar CHR ''p'') (RSeq RAny REmpty))"
    by (simp add: compile_def lex_def lex_step_def norm_step_def lex_end_def frame_rx_def seq_rx_def)
  show ?thesis using list_search_semantics [OF r] r by simp
qed

text \<open>C14: the id string of any stored book, as the API shows it, fetches exactly
  that book: the string encoding of ids round-trips through get-by-id.\<close>

theorem listed_book_fetch:
  "coll_inv c \<Longrightarrow> (i, d) \<in> set c \<Longrightarrow> get_book (str_oid i) c = (Inr (to_BookModel (i, d)), c)"
proof -
  assume inv: "coll_inv c" and m: "(i, d) \<in> set c"
  then have "ObjectId_of_str (str_oid i) = Some i" by (blast intro: ObjectId_roundtrip coll_inv_wf)
  moreover have "map_of c i = Some d"
    using inv m by (simp add: coll_inv_def)
  ultimately show ?thesis by (simp add: get_book_oid)
qed

theorem listed_book_fetch_witness:
  "coll_inv [(dune_id, BookModel_dict_exclude_id dune)] \<and> (dune_id, BookModel_dict_exclude_id dune) \<in> set [(dune_id, BookModel_dict_exclude_id dune)]
   \<and> get_book (str_oid dune_id) [(dune_id, BookModel_dict_exclude_id dune)] = (Inr (to_BookModel (dune_id, BookModel_dict_exclude_id dune)), [(dune_id, BookModel_dict_exclude_id dune)])"
proof -
  have i: "coll_inv [(dune_id, BookModel_dict_exclude_id dune)]"
    by (simp add: coll_inv_def oid_wf_def dune_id_def)
  have m: "(dune_id, BookModel_dict_exclude_id dune) \<in> set [(dune_id, BookModel_dict_exclude_id dune)]" by simp
  show ?thesis using listed_book_fetch [OF i m] i m by simp
qed

text \<open>C15: ids are read case-insensitively: an id in capitals fetches the same
  book as its lowercase spelling.\<close>

theorem get_book_case_insensitive: "get_book (lower s) c = get_book s c"
  by (cases "ObjectId_of_str s")
    (simp_all add: get_book_oid get_book_invalid is_valid_ObjectId_of_str ObjectId_of_str_lower)

text \<open>C13: the schema accepts empty strings: on any collection, a POST with empty
  title, author and category and a fresh generated id is stored and answered 201,
  though the spec's data model calls the three fields non-empty text.\<close>

theorem empty_title_accepted:
  "new_id \<notin> set (map fst c) \<Longrightarrow>
   app new_id (Post_books (JObj [(''title'', JStr []), (''author'', JStr []), (''category'', JStr [])])) c
   = (\<lparr>status_code = 201,
       content = BookModel_json \<lparr>title = [], author = [], category = [], book_id = Some (str_oid new_id)\<rparr>\<rparr>,
      c @ [(new_id, \<lparr>title = [], author = [], category = []\<rparr>)])"
  by (simp add: app_def parse_BookModel_def member_def req_str_def opt_str_def str_validator_def
      create_book_fresh respond_def to_BookModel_def BookModel_dict_exclude_id_def Book.truncate_def)

theorem empty_title_accepted_witness:
  "dune_id \<notin> set (map fst ([] :: collection))
   \<and> app dune_id (Post_books (JObj [(''title'', JStr []), (''author'', JStr []), (''category'', JStr [])])) []
     = (\<lparr>status_code = 201,
         content = BookModel_json \<lparr>title = [], author = [], category = [], book_id = Some (str_oid dune_id)\<rparr>\<rparr>,
        [(dune_id, \<lparr>title = [], author = [], category = []\<rparr>)])"
  using empty_title_accepted [of dune_id "[]"] by simp

text \<open>C26: the schema does not reject a JSON number or boolean where a string is
  declared, though spec section 7 promises 422 for wrong types: pydantic v1's
  \<open>str_validator\<close> turns it into \<open>str(v)\<close>, and the book is stored and answered
  with that text (\<open>int_str 1984 = ''1984''\<close>, a JSON \<open>true\<close> becomes
  \<open>"True"\<close>).\<close>

theorem number_title_coerced:
  "new_id \<notin> set (map fst c) \<Longrightarrow>
   app new_id (Post_books (JObj [(''title'', JNum n), (''author'', JBool True), (''category'', JStr k)])) c
   = (\<lparr>status_code = 201,
       content = BookModel_json \<lparr>title = int_str n, author = ''True'', category = k,
                                 book_id = Some (str_oid new_id)\<rparr>\<rparr>,
      c @ [(new_id, \<lparr>title = int_str n, author = ''True'', category = k\<rparr>)])"
  by (simp add: app_def parse_BookModel_def member_def req_str_def opt_str_def str_validator_def
      create_book_fresh respond_def to_BookModel_def BookModel_dict_exclude_id_def Book.truncate_def)

theorem number_title_coerced_witness:
  "dune_id \<notin> set (map fst ([] :: collection))
   \<and> app dune_id (Post_books (JObj [(''title'', JNum 1984), (''author'', JBool True), (''category'', JStr ''SF'')])) []
     = (\<lparr>status_code = 201,
         content = BookModel_json \<lparr>title = int_str 1984, author = ''True'', category = ''SF'',
                                   book_id = Some (str_oid dune_id)\<rparr>\<rparr>,
        [(dune_id, \<lparr>title = int_str 1984, author = ''True'', category = ''SF''\<rparr>)])"
  using number_title_coerced [of dune_id "[]" 1984 "''SF''"] by simp

section \<open>Requests interleaved at their await points\<close>

text \<open>C18: with requests interleaved, create_book can answer 500 for a fresh id: a
  delete of the new id that runs between its \<open>insert_one\<close> and its
  \<open>find_one\<close> makes the re-fetch return \<open>None\<close>, and \<open>created_book["_id"]\<close>
  raises \<open>TypeError\<close> (main.py, lines 33--36).  Contrast C9.\<close>

theorem create_delete_race:
  "conc_reach ([Finished (error_response TypeError), Finished \<lparr>status_code = 200, content = msg_deleted\<rparr>], [])"
proof -
  let ?S = "''654a1b2c3d4e5f60718293a4''"
  let ?d = "\<lparr>title = ''Dune'', author = ''Frank Herbert'', category = ''SF''\<rparr>"
  have wf: "oid_wf dune_id" by (simp add: oid_wf_def dune_id_def)
  have o: "ObjectId_of_str ?S = Some dune_id"
    by (simp add: ObjectId_of_str_def hex_value_def dune_id_def)
  have s1: "conc_reach ([Start dune_id (Post_books dune_json)], [])"
    using conc_reach.step [OF conc_reach.init conc_step.arrive [OF wf]] by simp
  have s2: "conc_reach ([Start dune_id (Post_books dune_json), Start dune_id (Delete_book ?S)], [])"
    using conc_reach.step [OF s1 conc_step.arrive [OF wf]] by simp
  have s3: "conc_reach ([Create_find dune_id, Start dune_id (Delete_book ?S)], [(dune_id, ?d)])"
    by (rule conc_reach.step [OF s2 run_at [where i = 0]])
      (simp_all add: start_step_def dune_json_def parse_BookModel_def member_def req_str_def
        opt_str_def insert_one_def BookModel_dict_exclude_id_def Book.defs)
  have s4: "conc_reach ([Create_find dune_id, Finished \<lparr>status_code = 200, content = msg_deleted\<rparr>], [])"
    by (rule conc_reach.step [OF s3 run_at [where i = 1]])
      (simp_all add: start_step_def o delete_book_oid respond_def)
  show ?thesis
    by (rule conc_reach.step [OF s4 run_at [where i = 0]]) (simp_all add: find_one_def)
qed
text \<open>C19: likewise update_book: a delete between a modifying \<open>update_one\<close> and
  the re-fetch makes \<open>updated_book["_id"]\<close> raise \<open>TypeError\<close> (500) where the
  book is simply gone (main.py, lines 76--79).\<close>

theorem update_delete_race:
  "conc_reach ([Finished \<lparr>status_code = 201, content = BookModel_json (to_BookModel (dune_id, BookModel_dict_exclude_id dune))\<rparr>,
                Finished (error_response TypeError),
                Finished \<lparr>status_code = 200, content = msg_deleted\<rparr>], [])"
proof -
  let ?S = "''654a1b2c3d4e5f60718293a4''"
  let ?d = "BookModel_dict_exclude_id dune"
  let ?r = "Finished \<lparr>status_code = 201, content = BookModel_json (to_BookModel (dune_id, ?d))\<rparr>"
  let ?u = "Put_book ?S (JObj [(''category'', JStr ''Science-Fiction'')])"
  have wf: "oid_wf dune_id" by (simp add: oid_wf_def dune_id_def)
  have o: "ObjectId_of_str ?S = Some dune_id"
    by (simp add: ObjectId_of_str_def hex_value_def dune_id_def)
  have p: "parse_BookModel dune_json = Inr dune"
    by (simp add: parse_BookModel_def dune_json_def dune_def member_def req_str_def opt_str_def str_validator_def)
  have s1: "conc_reach ([Start dune_id (Post_books dune_json)], [])"
    using conc_reach.step [OF conc_reach.init conc_step.arrive [OF wf]] by simp
  have s2: "conc_reach ([Create_find dune_id], [(dune_id, ?d)])"
    by (rule conc_reach.step [OF s1 run_at [where i = 0]])
      (simp_all add: start_step_def p insert_one_def)
  have s3: "conc_reach ([?r], [(dune_id, ?d)])"
    by (rule conc_reach.step [OF s2 run_at [where i = 0]]) (simp_all add: find_one_def respond_def)
  have s4: "conc_reach ([?r, Start dune_id ?u], [(dune_id, ?d)])"
    using conc_reach.step [OF s3 conc_step.arrive [OF wf]] by simp
  have s5: "conc_reach ([?r, Start dune_id ?u, Start dune_id (Delete_book ?S)], [(dune_id, ?d)])"
    using conc_reach.step [OF s4 conc_step.arrive [OF wf]] by simp
  have s6: "conc_reach ([?r, Update_refetch dune_id, Start dune_id (Delete_book ?S)],
              [(dune_id, ?d\<lparr>category := ''Science-Fiction''\<rparr>)])"
    by (rule conc_reach.step [OF s5 run_at [where i = 1]])
      (simp_all add: start_step_def o is_valid_ObjectId_of_str parse_UpdateBookModel_def member_def
        opt_str_def present_fields_def UpdateBookModel_dict_def update_one_def apply_set_def
        set_field_def BookModel_dict_exclude_id_def dune_def Book.defs)
  have s7: "conc_reach ([?r, Update_refetch dune_id, Finished \<lparr>status_code = 200, content = msg_deleted\<rparr>], [])"
    by (rule conc_reach.step [OF s6 run_at [where i = 2]])
      (simp_all add: start_step_def o delete_book_oid respond_def)
  show ?thesis
    by (rule conc_reach.step [OF s7 run_at [where i = 1]]) (simp_all add: find_one_def)
qed

end
